(* ===== verification/Katana_Prelude.thy ===== *)
theory Katana_Prelude
  imports Complex_Main
begin

text \<open>
  Shared vocabulary of the Katana development: Python exceptions as a datatype, the
  exception-and-state passing style in which the benchmark code is modelled
  (\<open>('s, 'a) pyfun\<close>), and the small string functions of the Python runtime that the
  sources call (\<open>str()\<close> of an integer, \<open>int()\<close> of a string, \<open>str.strip\<close>, the
  \<open>in\<close> operator on strings).
\<close>

named_theorems pyfun_simps "unfolding rules of the exception-and-state combinators"

section \<open>Exceptions and exception-aware state passing\<close>

text \<open>
  The Python exceptions the modelled code can raise. Each \<open>raise\<close> of the sources, and
  each error the Python runtime raises on a path the code does not guard, is a value of
  this type; \<open>Inl\<close> of a result is the exception propagating.
\<close>

datatype py_exc =
    TypeError string
  | ValueError string
  | NotImplementedError string
  | OSError string
  | ReError string
  | IndexError string
  | FailSafeException
  | EOFError

type_synonym ('s, 'a) pyfun = "'s \<Rightarrow> (py_exc + 'a) \<times> 's"

definition ret :: "'a \<Rightarrow> ('s, 'a) pyfun" where
  "ret a = (\<lambda>s. (Inr a, s))"

definition throw :: "py_exc \<Rightarrow> ('s, 'a) pyfun" where
  "throw e = (\<lambda>s. (Inl e, s))"

definition bindx :: "('s, 'a) pyfun \<Rightarrow> ('a \<Rightarrow> ('s, 'b) pyfun) \<Rightarrow> ('s, 'b) pyfun" where
  "bindx m f = (\<lambda>s. case m s of (Inl e, s') \<Rightarrow> (Inl e, s') | (Inr a, s') \<Rightarrow> f a s')"

text \<open>A statement that cannot raise: a plain state transformer lifted into \<open>pyfun\<close>.\<close>

definition lift :: "('s \<Rightarrow> 'a \<times> 's) \<Rightarrow> ('s, 'a) pyfun" where
  "lift f = (\<lambda>s. case f s of (a, s') \<Rightarrow> (Inr a, s'))"

text \<open>\<open>try: m except Exception: h\<close>: the handler sees the state at the point of the raise.\<close>

definition catch :: "('s, 'a) pyfun \<Rightarrow> (py_exc \<Rightarrow> ('s, 'a) pyfun) \<Rightarrow> ('s, 'a) pyfun" where
  "catch m h = (\<lambda>s. case m s of (Inl e, s') \<Rightarrow> h e s' | (Inr a, s') \<Rightarrow> (Inr a, s'))"

text \<open>
  A property of the state that a step keeps whether it returns or raises; the
  components' frame and invariant lemmas are stated with it.
\<close>

definition keeps :: "('s \<Rightarrow> bool) \<Rightarrow> ('s, 'a) pyfun \<Rightarrow> bool" where
  "keeps P m \<longleftrightarrow> (\<forall>s. P s \<longrightarrow> P (snd (m s)))"

text \<open>
  A relation between the state before and after a step that the step establishes
  whether it returns or raises; with a transitive relation it composes along \<open>bindx\<close>.
\<close>

definition rel_pres :: "('s \<Rightarrow> 's \<Rightarrow> bool) \<Rightarrow> ('s, 'a) pyfun \<Rightarrow> bool" where
  "rel_pres R m \<longleftrightarrow> (\<forall>s. R s (snd (m s)))"

section \<open>Python strings\<close>

text \<open>
  Python strings are sequences of code points; the model's \<open>char\<close> covers the code
  points below 256 (ASCII and Latin-1), which is what the file names, setting keys and
  console input handled here consist of.
\<close>

definition digit_char :: "nat \<Rightarrow> char" where
  "digit_char d = char_of (48 + d)"

fun nat_digits :: "nat \<Rightarrow> string" where
  "nat_digits n = (if n < 10 then [digit_char n] else nat_digits (n div 10) @ [digit_char (n mod 10)])"

declare nat_digits.simps [simp del]

text \<open>\<open>str(i)\<close> for a Python \<open>int\<close>: decimal, with a minus sign when negative.\<close>

definition py_str_int :: "int \<Rightarrow> string" where
  "py_str_int i = (if i < 0 then CHR ''-'' # nat_digits (nat (- i)) else nat_digits (nat i))"

text \<open>\<open>a in b\<close> for two strings: \<open>a\<close> occurs in \<open>b\<close> as a contiguous substring.\<close>

fun py_in :: "string \<Rightarrow> string \<Rightarrow> bool" where
  "py_in a [] = (a = [])"
| "py_in a (c # cs) = (take (length a) (c # cs) = a \<or> py_in a cs)"

text \<open>\<open>str.isspace\<close> on one code point below 256.\<close>

definition py_isspace :: "char \<Rightarrow> bool" where
  "py_isspace c \<longleftrightarrow> (let n = of_char c :: nat in
     (9 \<le> n \<and> n \<le> 13) \<or> (28 \<le> n \<and> n \<le> 32) \<or> n = 133 \<or> n = 160)"

text \<open>\<open>str.strip()\<close> with no argument.\<close>

definition py_strip :: "string \<Rightarrow> string" where
  "py_strip s = rev (dropWhile py_isspace (rev (dropWhile py_isspace s)))"

section \<open>Lemmas on the combinators\<close>

lemma ret_apply [simp, pyfun_simps]: "ret a s = (Inr a, s)"
  by (simp add: ret_def)

lemma throw_apply [simp, pyfun_simps]: "throw e s = (Inl e, s)"
  by (simp add: throw_def)

lemma lift_apply [simp, pyfun_simps]: "lift f s = (Inr (fst (f s)), snd (f s))"
  by (simp add: lift_def split: prod.splits)

lemma bindx_apply [pyfun_simps]:
  "bindx m f s = (case m s of (Inl e, s') \<Rightarrow> (Inl e, s') | (Inr a, s') \<Rightarrow> f a s')"
  by (simp add: bindx_def)

lemma catch_apply [pyfun_simps]:
  "catch m h s = (case m s of (Inl e, s') \<Rightarrow> h e s' | (Inr a, s') \<Rightarrow> (Inr a, s'))"
  by (simp add: catch_def)

lemma bindx_Inr [simp]: "m s = (Inr a, s') \<Longrightarrow> bindx m f s = f a s'"
  by (simp add: bindx_def)

lemma bindx_Inl [simp]: "m s = (Inl e, s') \<Longrightarrow> bindx m f s = (Inl e, s')"
  by (simp add: bindx_def)

lemma bindx_ret_left [simp]: "bindx (ret a) f = f a"
  by (simp add: bindx_def ret_def)

lemma bindx_throw_left [simp]: "bindx (throw e) f = throw e"
  by (simp add: bindx_def throw_def fun_eq_iff)

lemma bindx_lift [simp]: "bindx (lift g) f s = f (fst (g s)) (snd (g s))"
  by (simp add: bindx_def lift_def split: prod.splits)

lemma bindx_assoc: "bindx (bindx m f) g = bindx m (\<lambda>a. bindx (f a) g)"
  by (simp add: bindx_def fun_eq_iff split: prod.splits sum.splits)

lemma catch_Inr [simp]: "m s = (Inr a, s') \<Longrightarrow> catch m h s = (Inr a, s')"
  by (simp add: catch_def)

lemma catch_Inl [simp]: "m s = (Inl e, s') \<Longrightarrow> catch m h s = h e s'"
  by (simp add: catch_def)

lemma keepsD: "keeps P m \<Longrightarrow> P s \<Longrightarrow> m s = (r, s') \<Longrightarrow> P s'"
  unfolding keeps_def by (metis snd_conv)

lemma keeps_ret [simp, intro]: "keeps P (ret a)"
  by (simp add: keeps_def)

lemma keeps_throw [simp, intro]: "keeps P (throw e)"
  by (simp add: keeps_def)

lemma keeps_bindx [intro]: "keeps P m \<Longrightarrow> (\<And>a. keeps P (f a)) \<Longrightarrow> keeps P (bindx m f)"
  unfolding keeps_def bindx_def by (auto split: prod.splits sum.splits)

lemma keeps_lift [intro]: "(\<And>s. P s \<Longrightarrow> P (snd (f s))) \<Longrightarrow> keeps P (lift f)"
  by (simp add: keeps_def)


lemma digit_char_simps [simp]:
  "digit_char 0 = CHR ''0''" "digit_char 1 = CHR ''1''" "digit_char (Suc 0) = CHR ''1''" "digit_char 2 = CHR ''2''"
  "digit_char 3 = CHR ''3''" "digit_char 4 = CHR ''4''" "digit_char 5 = CHR ''5''"
  "digit_char 6 = CHR ''6''" "digit_char 7 = CHR ''7''" "digit_char 8 = CHR ''8''"
  "digit_char 9 = CHR ''9''"
  by (simp_all add: digit_char_def char_of_def bit_simps)

lemma rel_presI: "(\<And>s. R s (snd (m s))) \<Longrightarrow> rel_pres R m"
  by (simp add: rel_pres_def)

lemma rel_presD: "rel_pres R m \<Longrightarrow> m s = (r, s') \<Longrightarrow> R s s'"
  unfolding rel_pres_def by (metis snd_conv)

lemma rel_pres_ret: "(\<And>s. R s s) \<Longrightarrow> rel_pres R (ret a)"
  by (simp add: rel_pres_def)

lemma rel_pres_bindx:
  assumes m: "rel_pres R m" and f: "\<And>a. rel_pres R (f a)"
    and trans: "\<And>x y z. R x y \<Longrightarrow> R y z \<Longrightarrow> R x z" and refl: "\<And>s. R s s"
  shows "rel_pres R (bindx m f)"
proof (rule rel_presI)
  fix s
  obtain r s1 where ms: "m s = (r, s1)" by fastforce
  then have "R s s1" by (rule rel_presD [OF m])
  moreover have "R s1 (snd (f a s1))" for a using f by (simp add: rel_pres_def)
  ultimately show "R s (snd (bindx m f s))"
    using ms by (cases r) (auto intro: trans)
qed

lemma rel_pres_conj:
  "rel_pres R m \<Longrightarrow> rel_pres Q m \<Longrightarrow> rel_pres (\<lambda>s s'. R s s' \<and> Q s s') m"
  by (simp add: rel_pres_def)

lemma bindx_InrE:
  assumes "bindx m f s = (Inr b, s2)"
  obtains a s1 where "m s = (Inr a, s1)" "f a s1 = (Inr b, s2)"
  using assms by (cases "m s" rule: prod.exhaust) (auto simp: bindx_def split: sum.splits)

end
