(* ===== verification/Interaction.thy ===== *)
theory Interaction
  imports Katana_Prelude
begin

text \<open>
  The desktop the benchmark drives, and the two layers that touch it: the image detector
  (\<open>katana/core/detection.py\<close>, imported by the sources but not part of them, modelled
  from the spec: it "locates a reference image within a screen region and returns its
  location") and the \<open>GameInteractor\<close> of \<open>src/katana/core/interaction.py\<close>.

  The world is a record: the clock read by \<open>time.time()\<close>, the detector's answers in
  the order it is asked (the screen as the program sees it), the open windows, whether
  PyAutoGUI's fail-safe is tripped (\<open>pyautogui.FAILSAFE = True\<close>: every PyAutoGUI input
  call raises while the mouse is in a screen corner), whether writes under
  \<open>results/\<close> succeed, the \<open>strftime\<close> rendering of clock readings, and the trace
  of every input and output action in order. Benchmark objects extend this record.
\<close>

section \<open>The world\<close>

text \<open>
  One answer of the detector. \<open>Visible t (x, y)\<close>: the template is on screen, centred
  at \<open>(x, y)\<close>, from clock time \<open>t\<close> on. \<open>Absent\<close>: it does not appear.
\<close>

datatype sighting = Visible real "int \<times> int" | Absent

datatype action =
    Popen string
  | Activate string
  | Click int int
  | Press string nat
  | Write string
  | Hotkey "string list"
  | Screenshot string
  | Detect string bool
  | WriteFile string

record world =
  clock :: real
  screen :: "sighting list"
  windows :: "string list"
  activates :: bool
  failsafe :: bool
  disk_ok :: bool
  stamp :: "real \<Rightarrow> string"
  trace :: "action list"

type_synonym ('s, 'r) wstep = "'s \<Rightarrow> 'r \<times> 's"

definition emit :: "action \<Rightarrow> 'a world_scheme \<Rightarrow> 'a world_scheme" where
  "emit a w = w\<lparr>trace := trace w @ [a]\<rparr>"

text \<open>\<open>time.sleep(d)\<close> of a constant \<open>d \<ge> 0\<close> of the sources: the clock moves on.\<close>

definition pass_time :: "real \<Rightarrow> 'a world_scheme \<Rightarrow> 'a world_scheme" where
  "pass_time d w = w\<lparr>clock := clock w + d\<rparr>"

text \<open>\<open>time.sleep(d)\<close> of a computed \<open>d\<close>: Python raises \<open>ValueError\<close> when it is negative.\<close>

definition sleep :: "real \<Rightarrow> ('a world_scheme, unit) pyfun" where
  "sleep d w = (if d < 0 then (Inl (ValueError ''sleep length must be non-negative''), w)
                else (Inr (), pass_time d w))"

section \<open>The detector (spec-modelled)\<close>

definition next_sighting :: "('a world_scheme, sighting) wstep" where
  "next_sighting w = (case screen w of [] \<Rightarrow> (Absent, w) | x # xs \<Rightarrow> (x, w\<lparr>screen := xs\<rparr>))"

text \<open>\<open>ImageDetector.find_template\<close>: one look at the screen now.\<close>

definition find_template :: "string \<Rightarrow> ('a world_scheme, (int \<times> int) option) wstep" where
  "find_template name w = (case next_sighting w of
      (Visible t loc, w') \<Rightarrow>
        if t \<le> clock w' then (Some loc, emit (Detect name True) w')
        else (None, emit (Detect name False) w')
    | (Absent, w') \<Rightarrow> (None, emit (Detect name False) w'))"

text \<open>
  \<open>ImageDetector.wait_for_template(name, timeout, check_interval)\<close>: wait until the
  template shows or \<open>timeout\<close> seconds pass. The polling interval only sets how
  finely the wait is sampled, which the model abstracts (and omits as a parameter): the
  wait ends when the template appears.
\<close>

definition wait_for_template :: "string \<Rightarrow> real \<Rightarrow> ('a world_scheme, bool) wstep" where
  "wait_for_template name timeout w = (case next_sighting w of
      (Visible t loc, w') \<Rightarrow>
        if t \<le> clock w' + timeout then (True, emit (Detect name True) (w'\<lparr>clock := max (clock w') t\<rparr>))
        else (False, emit (Detect name False) (pass_time (max 0 timeout) w'))
    | (Absent, w') \<Rightarrow> (False, emit (Detect name False) (pass_time (max 0 timeout) w')))"

section \<open>GameInteractor\<close>

text \<open>
  \<open>focus_window(window_title)\<close>: the first window whose title contains
  \<open>window_title\<close> is activated; after a one-second wait the call reports whether it
  became active.
\<close>

definition focus_window :: "string \<Rightarrow> ('a world_scheme, bool) wstep" where
  "focus_window title w =
     (if \<not> list_ex (py_in title) (windows w) then (False, w)
      else (activates w, pass_time 1 (emit (Activate title) w)))"

text \<open>
  \<open>click(x, y)\<close>: move, click, wait half a second for the click to register. A
  PyAutoGUI exception (the fail-safe) is caught and reported as \<open>False\<close>.
\<close>

definition click :: "int \<Rightarrow> int \<Rightarrow> ('a world_scheme, bool) wstep" where
  "click x y w = (if failsafe w then (False, w) else (True, pass_time 0.5 (emit (Click x y) w)))"

definition press_key :: "string \<Rightarrow> nat \<Rightarrow> ('a world_scheme, bool) wstep" where
  "press_key key presses w = (if failsafe w then (False, w) else (True, emit (Press key presses) w))"

definition type_text :: "string \<Rightarrow> ('a world_scheme, bool) wstep" where
  "type_text text w = (if failsafe w then (False, w) else (True, emit (Write text) w))"

text \<open>
  \<open>take_screenshot(filename)\<close>: saved under \<open>results/screenshots/\<close>; a failed
  write is caught and gives \<open>None\<close>. Without a file name the current time names it.
\<close>

definition take_screenshot :: "string option \<Rightarrow> ('a world_scheme, string option) wstep" where
  "take_screenshot filename w =
     (let name = (case filename of None \<Rightarrow> ''screenshot_'' @ stamp w (clock w) @ ''.png''
                                 | Some f \<Rightarrow> f);
          path = ''results/screenshots/'' @ name
      in if disk_ok w then (Some path, emit (Screenshot path) w) else (None, w))"

text \<open>
  The loop of \<open>click_template\<close> that waits for the clicked template to disappear:
  \<open>while time.time() - start < disappear_timeout\<close>, look once, and sleep half a
  second when it is still there. It ends because every round moves the clock on by half
  a second.
\<close>

function wait_disappear_loop :: "string \<Rightarrow> real \<Rightarrow> real \<Rightarrow> ('a world_scheme, bool) wstep" where
  "wait_disappear_loop name start timeout w =
     (if clock w - start < timeout then
        (case find_template name w of
          (None, w') \<Rightarrow> (True, w')
        | (Some _, w') \<Rightarrow> wait_disappear_loop name start timeout (pass_time 0.5 w'))
      else (False, w))"
  by pat_completeness auto
termination
  apply (relation "measure (\<lambda>(name, start, timeout, w). nat \<lceil>2 * (start + timeout - clock w)\<rceil>)")
   apply simp
  apply (auto simp: find_template_def next_sighting_def emit_def pass_time_def
      split: list.splits sighting.splits if_splits)
  apply (simp add: diff_diff_eq [symmetric])
  done

text \<open>
  \<open>click_template(template_path, wait_disappear, disappear_timeout, click_offset)\<close>:
  find the template, click its centre shifted by the offset and, when asked, wait for
  it to disappear. The result is whether the click was performed: a template that does
  not disappear only logs a warning.
\<close>

definition click_template ::
  "string \<Rightarrow> bool \<Rightarrow> real \<Rightarrow> int \<times> int \<Rightarrow> ('a world_scheme, bool) wstep" where
  "click_template name wait_disappear disappear_timeout offset w =
     (case find_template name w of
       (None, w1) \<Rightarrow> (False, w1)
     | (Some (x, y), w1) \<Rightarrow>
         (case click (x + fst offset) (y + snd offset) w1 of
           (success, w2) \<Rightarrow>
             if success \<and> wait_disappear then
               (case wait_disappear_loop name (clock w2) disappear_timeout w2 of
                 (True, w3) \<Rightarrow> (True, w3)
               | (False, w3) \<Rightarrow> (success, w3))
             else (success, w2)))"

text \<open>\<open>click_template\<close> with the defaults the game code uses.\<close>

abbreviation click_template_default :: "string \<Rightarrow> ('a world_scheme, bool) wstep" where
  "click_template_default name \<equiv> click_template name False 10 (0, 0)"

text \<open>
  The keyword arguments \<open>**kwargs\<close> that \<open>click_template_with_retry\<close> forwards to
  \<open>click_template\<close>, with the defaults of its signature. \<open>threshold\<close> and \<open>region\<close>
  only parameterise the detector, an oracle here; the extra \<open>**click_kwargs\<close> of
  \<open>click\<close> (button, clicks, interval, duration) only shape the mouse gesture, which the
  \<open>Click\<close> action does not record.
\<close>

record click_kwargs =
  kw_wait_disappear :: bool
  kw_disappear_timeout :: real
  kw_click_offset :: "int \<times> int"

definition default_kwargs :: click_kwargs where
  "default_kwargs = \<lparr>kw_wait_disappear = False, kw_disappear_timeout = 10, kw_click_offset = (0, 0)\<rparr>"

abbreviation click_template_kw :: "string \<Rightarrow> click_kwargs \<Rightarrow> ('a world_scheme, bool) wstep" where
  "click_template_kw name kw \<equiv>
     click_template name (kw_wait_disappear kw) (kw_disappear_timeout kw) (kw_click_offset kw)"

text \<open>
  The attempts of \<open>click_template_with_retry\<close>: \<open>for attempt in
  range(max_retries + 1)\<close>, call \<open>click_template(template_path, **kwargs)\<close>, stop at
  the first that succeeds, sleep a second between attempts.
\<close>

fun click_attempts ::
  "string \<Rightarrow> int \<Rightarrow> click_kwargs \<Rightarrow> int list \<Rightarrow> ('a world_scheme, bool) wstep" where
  "click_attempts name max_retries kw [] w = (False, w)"
| "click_attempts name max_retries kw (attempt # rest) w =
     (case click_template_kw name kw w of
       (True, w1) \<Rightarrow> (True, w1)
     | (False, w1) \<Rightarrow>
         click_attempts name max_retries kw rest
           (if attempt < max_retries then pass_time 1 w1 else w1))"

definition click_template_with_retry ::
  "string \<Rightarrow> int \<Rightarrow> click_kwargs \<Rightarrow> ('a world_scheme, bool) wstep" where
  "click_template_with_retry name max_retries kw =
     click_attempts name max_retries kw [0..max_retries]"

section \<open>How a step may change the world\<close>

text \<open>
  \<open>advances P w w'\<close>: from \<open>w\<close> to \<open>w'\<close> only the clock (forwards), the detector's
  pending answers and the trace changed, and every action appended to the trace satisfies
  \<open>P\<close>. Everything else, in particular the fields of a benchmark object extending the
  world, is as before. \<open>adv P f\<close>: the step \<open>f\<close> does that from every world.
\<close>

definition advances :: "(action \<Rightarrow> bool) \<Rightarrow> 'a world_scheme \<Rightarrow> 'a world_scheme \<Rightarrow> bool" where
  "advances P w w' \<longleftrightarrow>
     windows w' = windows w \<and> activates w' = activates w \<and> failsafe w' = failsafe w \<and>
     disk_ok w' = disk_ok w \<and> stamp w' = stamp w \<and> world.more w' = world.more w \<and>
     clock w \<le> clock w' \<and> (\<exists>xs. trace w' = trace w @ xs \<and> list_all P xs)"

definition adv :: "(action \<Rightarrow> bool) \<Rightarrow> ('a world_scheme, 'r) wstep \<Rightarrow> bool" where
  "adv P f \<longleftrightarrow> (\<forall>w. advances P w (snd (f w)))"

text \<open>The detector queries for one template in a trace.\<close>

definition looks_for :: "string \<Rightarrow> action list \<Rightarrow> nat" where
  "looks_for name tr = length (filter (\<lambda>a. a = Detect name True \<or> a = Detect name False) tr)"

named_theorems adv_intros "steps that only advance the world"

section \<open>Lemmas: frames of the world steps\<close>

declare wait_disappear_loop.simps [simp del]

lemma advances_refl [simp]: "advances P w w"
  by (auto simp: advances_def)

lemma advances_trans [trans]:
  "advances P w1 w2 \<Longrightarrow> advances P w2 w3 \<Longrightarrow> advances P w1 w3"
  unfolding advances_def by (metis (no_types, lifting) append.assoc list_all_append order_trans)

lemma advances_mono: "advances P w w' \<Longrightarrow> (\<And>a. P a \<Longrightarrow> Q a) \<Longrightarrow> advances Q w w'"
  unfolding advances_def by (metis list.pred_mono_strong)

lemma advances_emit [intro]: "P a \<Longrightarrow> advances P w (emit a w)"
  unfolding advances_def emit_def by (rule conjI, simp)+ (rule exI [of _ "[a]"], simp)

lemma advances_pass_time [intro]: "0 \<le> d \<Longrightarrow> advances P w (pass_time d w)"
  by (simp add: advances_def pass_time_def)

lemma advances_emit_after [intro]: "advances P w w1 \<Longrightarrow> P a \<Longrightarrow> advances P w (emit a w1)"
  by (blast intro: advances_trans advances_emit)

lemma advances_pass_time_after [intro]:
  "advances P w w1 \<Longrightarrow> 0 \<le> d \<Longrightarrow> advances P w (pass_time d w1)"
  by (blast intro: advances_trans advances_pass_time)

lemma advances_screen [simp]: "advances P w (w\<lparr>screen := xs\<rparr>)"
  by (simp add: advances_def)

lemma advancesD:
  assumes "advances P w w'"
  shows "windows w' = windows w" "activates w' = activates w" "failsafe w' = failsafe w"
    "disk_ok w' = disk_ok w" "stamp w' = stamp w" "world.more w' = world.more w"
    "clock w \<le> clock w'"
  using assms by (simp_all add: advances_def)

lemma advances_trace:
  "advances P w w' \<Longrightarrow> \<exists>xs. trace w' = trace w @ xs \<and> list_all P xs"
  by (simp add: advances_def)

lemma advI: "(\<And>w. advances P w (snd (f w))) \<Longrightarrow> adv P f"
  by (simp add: adv_def)

lemma advD: "adv P f \<Longrightarrow> f w = (r, w') \<Longrightarrow> advances P w w'"
  unfolding adv_def by (metis snd_conv)

lemma adv_return [adv_intros]: "adv P (\<lambda>w. (r, w))"
  by (simp add: adv_def)

lemma adv_bind [adv_intros]:
  "adv P f \<Longrightarrow> (\<And>r. adv P (g r)) \<Longrightarrow> adv P (\<lambda>w. case f w of (r, w1) \<Rightarrow> g r w1)"
  unfolding adv_def by (metis (mono_tags, lifting) advances_trans case_prod_beta)

lemma adv_if [adv_intros]: "adv P f \<Longrightarrow> adv P g \<Longrightarrow> adv P (\<lambda>w. if b then f w else g w)"
  by (cases b) simp_all

lemma adv_case_bool [adv_intros]:
  "adv P f \<Longrightarrow> adv P g \<Longrightarrow> adv P (\<lambda>w. case b of True \<Rightarrow> f w | False \<Rightarrow> g w)"
  by (cases b) simp_all

lemma advances_step: "advances P w w1 \<Longrightarrow> adv P f \<Longrightarrow> f w1 = (r, w2) \<Longrightarrow> advances P w w2"
  by (blast intro: advances_trans advD)

lemma advances_step_snd: "advances P w w1 \<Longrightarrow> adv P f \<Longrightarrow> advances P w (snd (f w1))"
  by (metis advances_step prod.collapse)

lemma adv_then [adv_intros]:
  "adv P f \<Longrightarrow> (\<And>w. advances P w (h w)) \<Longrightarrow> adv P (\<lambda>w. (r, h w))"
  by (simp add: adv_def)

lemma adv_next_sighting [adv_intros]: "adv P next_sighting"
  by (auto simp: adv_def next_sighting_def split: list.splits)

lemma adv_find_template [adv_intros]:
  "(\<And>b. P (Detect name b)) \<Longrightarrow> adv P (find_template name)"
  unfolding adv_def find_template_def
  by (auto split: prod.splits sighting.splits
      intro: advances_trans [OF advD [OF adv_next_sighting]])

lemma adv_wait_for_template [adv_intros]:
  "(\<And>b. P (Detect name b)) \<Longrightarrow> adv P (wait_for_template name timeout)"
proof (rule advI)
  fix w :: "'a world_scheme"
  assume det: "\<And>b. P (Detect name b)"
  obtain x w' where ns: "next_sighting w = (x, w')" by fastforce
  then have w': "advances P w w'" by (rule advD [OF adv_next_sighting])
  have clk: "advances P w (w'\<lparr>clock := max (clock w') t\<rparr>)" for t
    using w' by (auto simp: advances_def le_max_iff_disj)
  show "advances P w (snd (wait_for_template name timeout w))"
    using ns det w' clk
    by (auto simp: wait_for_template_def split: sighting.splits
        intro!: advances_emit_after advances_pass_time_after)
qed

lemma adv_focus_window [adv_intros]: "P (Activate title) \<Longrightarrow> adv P (focus_window title)"
  by (auto simp: adv_def focus_window_def intro: advances_trans [OF advances_emit])

lemma adv_click [adv_intros]: "P (Click x y) \<Longrightarrow> adv P (click x y)"
  by (auto simp: adv_def click_def intro: advances_trans [OF advances_emit])

lemma adv_press_key [adv_intros]: "P (Press key n) \<Longrightarrow> adv P (press_key key n)"
  by (auto simp: adv_def press_key_def)

lemma adv_type_text [adv_intros]: "P (Write text) \<Longrightarrow> adv P (type_text text)"
  by (auto simp: adv_def type_text_def)

lemma adv_take_screenshot [adv_intros]:
  "(\<And>p. P (Screenshot p)) \<Longrightarrow> adv P (take_screenshot f)"
  by (auto simp: adv_def take_screenshot_def Let_def)

lemma advances_wait_disappear_loop:
  "(\<And>b. P (Detect name b)) \<Longrightarrow>
   advances P w (snd (wait_disappear_loop name start timeout w))"
proof (induction name start timeout w rule: wait_disappear_loop.induct)
  case (1 name start timeout w)
  note unfold = wait_disappear_loop.simps [of name start timeout w]
  show ?case
  proof (cases "clock w - start < timeout")
    case True
    obtain r w' where fw: "find_template name w = (r, w')" by fastforce
    have ww': "advances P w w'"
      using fw "1.prems" by (blast intro: advD [OF adv_find_template])
    show ?thesis
    proof (cases r)
      case None
      with True fw ww' show ?thesis by (simp add: unfold)
    next
      case (Some loc)
      have "advances P (pass_time 0.5 w')
              (snd (wait_disappear_loop name start timeout (pass_time 0.5 w')))"
        using "1.IH" [OF True fw [symmetric] Some] "1.prems" .
      moreover have "advances P w (pass_time 0.5 w')"
        using ww' by (rule advances_pass_time_after) simp
      ultimately show ?thesis
        using True fw Some by (simp add: unfold advances_trans)
    qed
  next
    case False
    then show ?thesis by (simp add: unfold)
  qed
qed

lemma adv_wait_disappear_loop [adv_intros]:
  "(\<And>b. P (Detect name b)) \<Longrightarrow> adv P (wait_disappear_loop name start timeout)"
  by (simp add: adv_def advances_wait_disappear_loop)

lemma adv_click_template [adv_intros]:
  assumes det: "\<And>b. P (Detect name b)" and clk: "\<And>x y. P (Click x y)"
  shows "adv P (click_template name wait_disappear disappear_timeout offset)"
proof (rule advI)
  fix w :: "'a world_scheme"
  obtain r w1 where f: "find_template name w = (r, w1)" by fastforce
  have w1: "advances P w w1" using f det by (blast intro: advD [OF adv_find_template])
  show "advances P w (snd (click_template name wait_disappear disappear_timeout offset w))"
  proof (cases r)
    case None
    with f w1 show ?thesis by (simp add: click_template_def)
  next
    case (Some loc)
    obtain x y where loc: "loc = (x, y)" by fastforce
    obtain b w2 where c: "click (x + fst offset) (y + snd offset) w1 = (b, w2)" by fastforce
    have w2: "advances P w w2"
      using c clk by (blast intro: advances_trans [OF w1] advD [OF adv_click])
    obtain b' w3 where d: "wait_disappear_loop name (clock w2) disappear_timeout w2 = (b', w3)"
      by fastforce
    have w3: "advances P w w3"
      using d det by (blast intro: advances_trans [OF w2] advD [OF adv_wait_disappear_loop])
    show ?thesis
      using f Some loc c d w2 w3 by (auto simp: click_template_def split: bool.splits)
  qed
qed

lemma adv_click_attempts [adv_intros]:
  "(\<And>b. P (Detect name b)) \<Longrightarrow> (\<And>x y. P (Click x y)) \<Longrightarrow>
   adv P (click_attempts name max_retries kw attempts)"
proof (induction attempts)
  case Nil
  show ?case by (simp add: adv_def)
next
  case (Cons a as)
  show ?case
  proof (rule advI)
    fix w :: "'a world_scheme"
    obtain b w1 where c: "click_template_kw name kw w = (b, w1)" by fastforce
    have w1: "advances P w w1"
      using c Cons.prems by (blast intro: advD [OF adv_click_template])
    have next_w: "advances P w (if a < max_retries then pass_time 1 w1 else w1)"
      using w1 by auto
    have "advances P (if a < max_retries then pass_time 1 w1 else w1)
            (snd (click_attempts name max_retries kw as (if a < max_retries then pass_time 1 w1 else w1)))"
      using Cons.IH [OF Cons.prems] by (simp add: adv_def)
    then show "advances P w (snd (click_attempts name max_retries kw (a # as) w))"
      using c w1 next_w by (auto split: bool.splits intro: advances_trans)
  qed
qed

lemma adv_click_template_with_retry [adv_intros]:
  "(\<And>b. P (Detect name b)) \<Longrightarrow> (\<And>x y. P (Click x y)) \<Longrightarrow>
   adv P (click_template_with_retry name max_retries kw)"
  unfolding click_template_with_retry_def by (rule adv_click_attempts)

section \<open>Lemmas: what the detector and the clicks leave in the trace\<close>

lemma looks_for_append [simp]: "looks_for name (xs @ ys) = looks_for name xs + looks_for name ys"
  by (simp add: looks_for_def)

lemma looks_for_Nil [simp]: "looks_for name [] = 0"
  by (simp add: looks_for_def)

lemma looks_for_Cons_Detect [simp]:
  "looks_for name (Detect name' b # xs) = (if name' = name then 1 else 0) + looks_for name xs"
  by (cases b) (auto simp: looks_for_def)

lemma looks_for_Cons_Click [simp]: "looks_for name (Click x y # xs) = looks_for name xs"
  by (simp add: looks_for_def)

lemma trace_find_template:
  "\<exists>b. trace (snd (find_template name w)) = trace w @ [Detect name b]"
  by (auto simp: find_template_def next_sighting_def emit_def split: list.splits sighting.splits)

lemma trace_wait_for_template:
  "\<exists>b. trace (snd (wait_for_template name t w)) = trace w @ [Detect name b]"
  by (auto simp: wait_for_template_def next_sighting_def emit_def pass_time_def
      split: list.splits sighting.splits)

lemma trace_click: "trace (snd (click x y w)) = trace w @ (if failsafe w then [] else [Click x y])"
  by (simp add: click_def emit_def pass_time_def)

lemma failsafe_find_template [simp]: "failsafe (snd (find_template name w)) = failsafe w"
  by (auto simp: find_template_def next_sighting_def emit_def split: list.splits sighting.splits)

lemma clock_find_template [simp]: "clock (snd (find_template name w)) = clock w"
  by (auto simp: find_template_def next_sighting_def emit_def split: list.splits sighting.splits)

text \<open>
  One call of \<open>click_template\<close> looks at the screen exactly once, unless it clicked and
  then waited for the template to disappear, which looks again.
\<close>

lemma click_template_looks_once:
  assumes "click_template name wd dt off w = (r, w')" and "\<not> r \<or> \<not> wd"
  shows "\<exists>xs. trace w' = trace w @ xs \<and> looks_for name xs = 1"
proof -
  obtain loc w1 where f: "find_template name w = (loc, w1)" by fastforce
  obtain b where t1: "trace w1 = trace w @ [Detect name b]"
    using trace_find_template [of name w] f by auto
  show ?thesis
  proof (cases loc)
    case None
    with f assms t1 show ?thesis by (auto simp: click_template_def)
  next
    case (Some xy)
    obtain x y where xy: "xy = (x, y)" by fastforce
    obtain s w2 where c: "click (x + fst off) (y + snd off) w1 = (s, w2)" by fastforce
    have "w' = w2"
      using assms f Some xy c by (auto simp: click_template_def split: prod.splits bool.splits if_splits)
    moreover have "trace w2 = trace w1 @ (if failsafe w1 then [] else [Click (x + fst off) (y + snd off)])"
      using trace_click [of "x + fst off" "y + snd off" w1] c by simp
    ultimately show ?thesis using t1 by auto
  qed
qed

lemma click_template_trace:
  assumes "click_template name wd dt off w = (r, w')"
  shows "\<exists>xs. trace w' = trace w @ xs"
proof -
  have "advances (\<lambda>_. True) w w'" using assms by (blast intro: advD [OF adv_click_template])
  then show ?thesis by (auto simp: advances_def)
qed

lemma click_template_failsafe:
  assumes "failsafe w"
  shows "fst (click_template name wd dt off w) = False"
proof -
  obtain loc w1 where f: "find_template name w = (loc, w1)" by fastforce
  with assms have "failsafe w1" using failsafe_find_template [of name w] by simp
  with f show ?thesis by (auto simp: click_template_def click_def split: option.splits)
qed

lemma click_attempts_looks:
  assumes "click_attempts name m kw attempts w = (r, w')"
  shows "\<exists>xs. trace w' = trace w @ xs \<and>
           (\<not> kw_wait_disappear kw \<longrightarrow> looks_for name xs \<le> length attempts) \<and>
           (\<not> r \<longrightarrow> looks_for name xs = length attempts)"
  using assms
proof (induction attempts arbitrary: w)
  case Nil
  then show ?case by simp
next
  case (Cons a as)
  obtain b w1 where c: "click_template_kw name kw w = (b, w1)" by fastforce
  obtain xs1 where xs1: "trace w1 = trace w @ xs1"
    and one: "\<not> b \<or> \<not> kw_wait_disappear kw \<Longrightarrow> looks_for name xs1 = 1"
  proof (cases "\<not> b \<or> \<not> kw_wait_disappear kw")
    case True
    then show ?thesis using click_template_looks_once [OF c] that by blast
  next
    case False
    then show ?thesis using click_template_trace [OF c] that by blast
  qed
  show ?case
  proof (cases b)
    case True
    with Cons.prems c xs1 one show ?thesis by auto
  next
    case False
    let ?w2 = "if a < m then pass_time 1 w1 else w1"
    have rest: "click_attempts name m kw as ?w2 = (r, w')"
      using Cons.prems c False by simp
    obtain xs2 where "trace w' = trace ?w2 @ xs2"
        "\<not> kw_wait_disappear kw \<longrightarrow> looks_for name xs2 \<le> length as"
        "\<not> r \<longrightarrow> looks_for name xs2 = length as"
      using Cons.IH [OF rest] by blast
    moreover have "trace ?w2 = trace w1" by (simp add: pass_time_def)
    ultimately show ?thesis using xs1 one False by auto
  qed
qed

lemma click_attempts_failsafe:
  "failsafe w \<Longrightarrow> fst (click_attempts name m kw attempts w) = False"
proof (induction attempts arbitrary: w)
  case Nil
  then show ?case by simp
next
  case (Cons a as)
  obtain b w1 where c: "click_template_kw name kw w = (b, w1)" by fastforce
  have "\<not> b" using click_template_failsafe [OF Cons.prems] c by (metis fst_conv)
  moreover have "advances (\<lambda>_. True) w w1"
    using c by (blast intro: advD [OF adv_click_template])
  then have "failsafe w1" using Cons.prems by (simp add: advances_def)
  ultimately show ?case
    using c Cons.IH [of "if a < m then pass_time 1 w1 else w1"] by (simp add: pass_time_def)
qed

section \<open>Lemmas: a retry loop that sees its template\<close>

text \<open>
  One attempt clicks when the next answer of the detector shows the template already,
  whatever the keyword arguments; an attempt that misses consumes one answer and leaves
  the clock and the fail-safe as they were.
\<close>

lemma click_template_hit:
  "\<not> failsafe w \<Longrightarrow> screen w = Visible t loc # rest \<Longrightarrow> t \<le> clock w \<Longrightarrow>
   fst (click_template name wd dt off w)"
  by (simp add: click_template_def find_template_def next_sighting_def click_def emit_def
      split: prod.splits bool.splits)

lemma click_template_miss:
  assumes "click_template name wd dt off w = (False, w1)" "\<not> failsafe w"
  shows "screen w1 = tl (screen w) \<and> clock w1 = clock w \<and> \<not> failsafe w1"
  using assms
  by (auto simp: click_template_def find_template_def next_sighting_def click_def emit_def
      split: prod.splits list.splits sighting.splits if_splits option.splits bool.splits)

text \<open>
  The attempts succeed when the \<open>i\<close>-th answer of the detector shows the template by the
  time the \<open>i\<close>-th attempt looks: each attempt before it misses and, not being the last,
  waits one second.
\<close>

lemma click_attempts_live:
  assumes "\<not> failsafe w" "i < length as" "\<forall>a\<in>set (take i as). a < mr"
    "i < length (screen w)" "screen w ! i = Visible t loc" "t \<le> clock w + real i"
  shows "fst (click_attempts name mr kw as w)"
  using assms
proof (induction as arbitrary: i w)
  case Nil
  then show ?case by simp
next
  case (Cons a as)
  show ?case
  proof (cases "click_template_kw name kw w")
    case (Pair b w1)
    show ?thesis
    proof (cases b)
      case True
      then show ?thesis using Pair by simp
    next
      case False
      have m: "screen w1 = tl (screen w) \<and> clock w1 = clock w \<and> \<not> failsafe w1"
        using click_template_miss [of name _ _ _ w w1] Pair False Cons.prems(1) by simp
      obtain x rest where sc: "screen w = x # rest" using Cons.prems(4) by (cases "screen w") auto
      have "i \<noteq> 0"
      proof
        assume "i = 0"
        then have "fst (click_template_kw name kw w)"
          using Cons.prems sc by (intro click_template_hit [of w t loc rest]) simp_all
        then show False using Pair False by simp
      qed
      then obtain j where j: "i = Suc j" by (cases i) auto
      have lt: "a < mr" using Cons.prems(3) j by simp
      have "fst (click_attempts name mr kw as (pass_time 1 w1))"
        using Cons.prems m sc j by (intro Cons.IH [where i = j]) (simp_all add: pass_time_def)
      then show ?thesis using Pair False lt by simp
    qed
  qed
qed

section \<open>Lemmas: the time the clicks take\<close>

text \<open>
  The wait for the template to disappear ends at most half a second after its timeout:
  it sleeps only while the timeout has not passed.
\<close>

lemma wait_disappear_loop_clock:
  "clock w \<le> clock (snd (wait_disappear_loop name start timeout w)) \<and>
   clock (snd (wait_disappear_loop name start timeout w)) \<le> max (clock w) (start + timeout + 1 / 2)"
proof (induction name start timeout w rule: wait_disappear_loop.induct)
  case (1 name start timeout w)
  note unfold = wait_disappear_loop.simps [of name start timeout w]
  show ?case
  proof (cases "clock w - start < timeout")
    case True
    obtain r w' where fw: "find_template name w = (r, w')" by fastforce
    have cw: "clock w' = clock w" using clock_find_template [of name w] fw by simp
    show ?thesis
    proof (cases r)
      case None
      with True fw cw show ?thesis by (simp add: unfold)
    next
      case (Some loc)
      have ih: "clock (pass_time 0.5 w') \<le> clock (snd (wait_disappear_loop name start timeout (pass_time 0.5 w'))) \<and>
          clock (snd (wait_disappear_loop name start timeout (pass_time 0.5 w')))
            \<le> max (clock (pass_time 0.5 w')) (start + timeout + 1 / 2)"
        using "1.IH" [OF True fw [symmetric] Some] .
      then show ?thesis using True fw Some cw by (auto simp: unfold pass_time_def)
    qed
  next
    case False
    then show ?thesis by (simp add: unfold)
  qed
qed

text \<open>
  One \<open>click_template\<close>: half a second for the click, and when it waits for the
  template to disappear, at most the timeout and half a second more; no time when it
  fails.
\<close>

lemma click_template_clock:
  assumes "click_template name wd dt off w = (b, w1)"
  shows "clock w \<le> clock w1 \<and> clock w1 \<le> clock w + 1 / 2 + (if wd then max 0 dt + 1 / 2 else 0) \<and>
         (\<not> b \<longrightarrow> clock w1 = clock w)"
proof -
  obtain loc wf where f: "find_template name w = (loc, wf)" by fastforce
  have cf: "clock wf = clock w" "failsafe wf = failsafe w"
    using clock_find_template [of name w] failsafe_find_template [of name w] f by simp_all
  show ?thesis
  proof (cases loc)
    case None
    then show ?thesis using assms f cf by (simp add: click_template_def)
  next
    case (Some xy)
    obtain x y where xy: "xy = (x, y)" by fastforce
    show ?thesis
    proof (cases "failsafe w")
      case True
      then show ?thesis using assms f cf Some xy by (simp add: click_template_def click_def)
    next
      case False
      define w2 where "w2 = pass_time 0.5 (emit (Click (x + fst off) (y + snd off)) wf)"
      have c: "click (x + fst off) (y + snd off) wf = (True, w2)"
        using False cf by (simp add: click_def w2_def)
      have c2: "clock w2 = clock w + 1 / 2" using cf by (simp add: w2_def pass_time_def emit_def)
      note l = wait_disappear_loop_clock [where name = name and start = "clock w2" and timeout = dt and w = w2]
      show ?thesis
      proof (cases wd)
        case True
        obtain r3 w3 where d: "wait_disappear_loop name (clock w2) dt w2 = (r3, w3)" by fastforce
        have "b = True" "w1 = w3"
          using assms f Some xy c d True by (auto simp: click_template_def split: bool.splits)
        then show ?thesis using l d c2 True by (auto simp: max_def split: if_splits)
      next
        case False
        have "b = True" "w1 = w2"
          using assms f Some xy c False by (auto simp: click_template_def)
        then show ?thesis using c2 False by simp
      qed
    qed
  qed
qed

text \<open>
  The time the attempts take: the clicks as above, one second after every failed attempt
  but the last.
\<close>

lemma click_attempts_time:
  assumes "click_attempts name mr kw as w = (r, w')"
  shows "clock w \<le> clock w' \<and>
         clock w' \<le> clock w + real (length (filter (\<lambda>a. a < mr) as)) + 1 / 2 +
           (if kw_wait_disappear kw then max 0 (kw_disappear_timeout kw) + 1 / 2 else 0) \<and>
         (\<not> r \<longrightarrow> clock w' = clock w + real (length (filter (\<lambda>a. a < mr) as)))"
  using assms
proof (induction as arbitrary: w)
  case Nil
  then show ?case by simp
next
  case (Cons a as)
  obtain b w1 where c: "click_template_kw name kw w = (b, w1)" by fastforce
  note cl = click_template_clock [OF c]
  show ?case
  proof (cases b)
    case True
    then have "r = True" "w' = w1" using Cons.prems c by simp_all
    then show ?thesis using cl by (auto split: if_splits)
  next
    case False
    let ?w2 = "if a < mr then pass_time 1 w1 else w1"
    have rest: "click_attempts name mr kw as ?w2 = (r, w')" using Cons.prems c False by simp
    have c2: "clock ?w2 = clock w + (if a < mr then 1 else 0)" using cl False by (simp add: pass_time_def)
    show ?thesis using Cons.IH [OF rest] c2 by auto
  qed
qed

lemma filter_less_upto: "length (filter (\<lambda>a. a < m) [0..m]) = nat m"
proof (cases "0 \<le> m")
  case True
  then have "[0..m] = [0..m - 1] @ [m]" by (simp add: upto_rec2)
  moreover have "filter (\<lambda>a. a < m) [0..m - 1] = [0..m - 1]" by (auto simp: filter_id_conv)
  ultimately show ?thesis using True by simp
next
  case False
  then show ?thesis by simp
qed

section \<open>Properties of the interactor\<close>

text \<open>
  C6. \<open>click_template_with_retry(template, max_retries, **kwargs)\<close> gives up only after
  looking for the template exactly \<open>max_retries + 1\<close> times, whatever the keyword
  arguments; without \<open>wait_disappear\<close> it never looks more often than that. (With
  \<open>wait_disappear\<close>, the attempt that clicks goes on looking until the template
  disappears.)
\<close>

theorem click_template_with_retry_bounded:
  assumes "click_template_with_retry name max_retries kw w = (r, w')"
  shows "(\<not> r \<longrightarrow> looks_for name (drop (length (trace w)) (trace w')) = nat (max_retries + 1)) \<and>
         (\<not> kw_wait_disappear kw \<longrightarrow> looks_for name (drop (length (trace w)) (trace w')) \<le> nat (max_retries + 1))"
proof -
  obtain xs where "trace w' = trace w @ xs"
      "\<not> kw_wait_disappear kw \<longrightarrow> looks_for name xs \<le> length [0..max_retries]"
      "\<not> r \<longrightarrow> looks_for name xs = length [0..max_retries]"
    using click_attempts_looks assms unfolding click_template_with_retry_def by blast
  then show ?thesis by simp
qed

text \<open>Four attempts on a screen where the Play tab never shows: four looks, then failure.\<close>

theorem click_template_with_retry_bounded_witness:
  "click_template_with_retry ''play_tab.png'' 3 default_kwargs
     \<lparr>clock = 0, screen = [Absent, Absent, Absent, Absent, Absent], windows = [],
      activates = True, failsafe = False, disk_ok = True, stamp = (\<lambda>_. ''t''), trace = []\<rparr> =
   (False, \<lparr>clock = 3, screen = [Absent], windows = [], activates = True,
      failsafe = False, disk_ok = True, stamp = (\<lambda>_. ''t''),
      trace = replicate 4 (Detect ''play_tab.png'' False)\<rparr>) \<and>
   looks_for ''play_tab.png'' (replicate 4 (Detect ''play_tab.png'' False)) = nat (3 + 1)"
proof -
  have run: "click_template_with_retry ''play_tab.png'' 3 default_kwargs
     \<lparr>clock = 0, screen = [Absent, Absent, Absent, Absent, Absent], windows = [],
      activates = True, failsafe = False, disk_ok = True, stamp = (\<lambda>_. ''t''), trace = []\<rparr> =
   (False, \<lparr>clock = 3, screen = [Absent], windows = [], activates = True,
      failsafe = False, disk_ok = True, stamp = (\<lambda>_. ''t''),
      trace = replicate 4 (Detect ''play_tab.png'' False)\<rparr>)"
    by (simp add: click_template_with_retry_def upto.simps click_template_def find_template_def
        next_sighting_def emit_def pass_time_def numeral_eq_Suc default_kwargs_def)
  show ?thesis using click_template_with_retry_bounded [OF run] run by simp
qed

text \<open>
  C23. \<open>click_template_with_retry(template, max_retries, **kwargs)\<close> succeeds whenever
  the template shows in time for one of its attempts, whatever the keyword arguments: if
  the detector's \<open>i\<close>-th answer, for some \<open>i \<le> max_retries\<close>, is the template visible
  from time \<open>t\<close> and \<open>t\<close> is at most \<open>i\<close> seconds after the start (the \<open>i\<close>-th attempt
  looks after \<open>i\<close> one-second pauses), and the fail-safe is not tripped, the call returns
  \<open>True\<close>.
\<close>

theorem click_template_with_retry_succeeds:
  assumes "\<not> failsafe w" "int i \<le> max_retries" "i < length (screen w)"
    "screen w ! i = Visible t loc" "t \<le> clock w + real i"
  shows "fst (click_template_with_retry name max_retries kw w)"
proof -
  have len: "i < length [0..max_retries]" using assms(2) by simp
  have "\<forall>a\<in>set (take i [0..max_retries]). a < max_retries"
  proof
    fix a assume "a \<in> set (take i [0..max_retries])"
    then obtain k where "k < i" "a = [0..max_retries] ! k"
      using len by (auto simp: in_set_conv_nth)
    then show "a < max_retries" using assms(2) by (simp add: nth_upto)
  qed
  then show ?thesis unfolding click_template_with_retry_def
    by (rule click_attempts_live [OF assms(1) len _ assms(3) assms(4) assms(5)])
qed

text \<open>
  The Play tab shows one second after the start: the second attempt clicks it, here with
  \<open>wait_disappear=True\<close>.
\<close>

theorem click_template_with_retry_succeeds_witness:
  "fst (click_template_with_retry ''play_tab.png'' 3
     \<lparr>kw_wait_disappear = True, kw_disappear_timeout = 5, kw_click_offset = (0, 0)\<rparr>
     \<lparr>clock = 0, screen = [Absent, Visible 1 (5, 7)], windows = [], activates = True,
      failsafe = False, disk_ok = True, stamp = (\<lambda>_. ''t''), trace = []\<rparr>)"
  by (rule click_template_with_retry_succeeds [where i = 1 and t = 1 and loc = "(5, 7)"]) simp_all

text \<open>
  C33. \<open>click_template_with_retry(template, max_retries, **kwargs)\<close> gives up after
  exactly \<open>max_retries\<close> seconds of pauses (none when \<open>max_retries\<close> is negative and no
  attempt is made), and succeeds within those pauses, the half second of the click and,
  with \<open>wait_disappear\<close>, the \<open>disappear_timeout\<close> and half a second more.
\<close>

theorem click_template_with_retry_time:
  assumes "click_template_with_retry name max_retries kw w = (r, w')"
  shows "clock w \<le> clock w' \<and>
         clock w' \<le> clock w + real (nat max_retries) + 1 / 2 +
           (if kw_wait_disappear kw then max 0 (kw_disappear_timeout kw) + 1 / 2 else 0) \<and>
         (\<not> r \<longrightarrow> clock w' = clock w + real (nat max_retries))"
  using click_attempts_time [OF assms [unfolded click_template_with_retry_def]] filter_less_upto [of max_retries]
  by simp

text \<open>
  With \<open>wait_disappear=True\<close>: the first attempt clicks at once and the template is gone
  at the second look after the click, one second in all, within the bound of
  \<open>0 + 3 + 1/2 + 5 + 1/2\<close> seconds.
\<close>

theorem click_template_with_retry_time_witness:
  "fst (click_template_with_retry ''play_tab.png'' 3
     \<lparr>kw_wait_disappear = True, kw_disappear_timeout = 5, kw_click_offset = (0, 0)\<rparr>
     \<lparr>clock = 0, screen = [Visible 0 (5, 7), Visible 0 (5, 7), Absent], windows = [],
      activates = True, failsafe = False, disk_ok = True, stamp = (\<lambda>_. ''t''), trace = []\<rparr>) \<and>
   clock (snd (click_template_with_retry ''play_tab.png'' 3
     \<lparr>kw_wait_disappear = True, kw_disappear_timeout = 5, kw_click_offset = (0, 0)\<rparr>
     \<lparr>clock = 0, screen = [Visible 0 (5, 7), Visible 0 (5, 7), Absent], windows = [],
      activates = True, failsafe = False, disk_ok = True, stamp = (\<lambda>_. ''t''), trace = []\<rparr>)) \<le> 9"
proof -
  have f: "fst (click_template_with_retry ''play_tab.png'' 3
     \<lparr>kw_wait_disappear = True, kw_disappear_timeout = 5, kw_click_offset = (0, 0)\<rparr>
     \<lparr>clock = 0, screen = [Visible 0 (5, 7), Visible 0 (5, 7), Absent], windows = [],
      activates = True, failsafe = False, disk_ok = True, stamp = (\<lambda>_. ''t''), trace = []\<rparr>)"
    by (rule click_template_with_retry_succeeds [where i = 0 and t = 0 and loc = "(5, 7)"]) simp_all
  show ?thesis
    using click_template_with_retry_time [where name = "''play_tab.png''" and max_retries = 3
        and kw = "\<lparr>kw_wait_disappear = True, kw_disappear_timeout = 5, kw_click_offset = (0, 0)\<rparr>"
        and w = "\<lparr>clock = 0, screen = [Visible 0 (5, 7), Visible 0 (5, 7), Absent], windows = [],
      activates = True, failsafe = False, disk_ok = True, stamp = (\<lambda>_. ''t''), trace = []\<rparr>",
        OF surjective_pairing] f
    by simp
qed

end
