(* ===== verification/Benchmark.thy ===== *)
theory Benchmark
  imports Interaction
begin

text \<open>
  The game-independent benchmark lifecycle of \<open>src/katana/core/benchmark.py\<close>:
  \<open>BenchmarkResult\<close> (a record, saved as one JSON file per run) and the base class
  \<open>GameBenchmark\<close>. Its state is the record \<open>bench\<close>, which extends the world of
  \<open>Interaction\<close> with the object's fields. The six abstract methods a game implements
  are the record \<open>game_ops\<close>: \<open>execute_benchmark_run\<close> and
  \<open>run_benchmark_series\<close> are defined over any \<open>game_ops\<close>, so that their lemmas
  hold for every game whose methods keep the fields they do not own.
\<close>

section \<open>Data\<close>

text \<open>A value of the \<open>configs\<close> dictionary.\<close>

datatype cfg_val = CStr string | CInt int | CReal real

record bresult =
  r_game_id :: string
  r_run_id :: int
  r_timestamp :: string
  r_duration :: "real option"
  r_avg_fps :: "real option"
  r_min_fps :: "real option"
  r_max_fps :: "real option"
  r_screenshot_path :: "string option"

record bench = world +
  game_id :: string
  game_name :: string
  window_title :: string
  configs :: "(string \<times> cfg_val) list"
  results :: "bresult list"
  start_time :: "real option"
  end_time :: "real option"
  duration :: "real option"

record 's game_ops =
  focus_game_window :: "('s, bool) pyfun"
  wait_until_ready :: "('s, bool) pyfun"
  navigate_to_benchmark :: "('s, bool) pyfun"
  start_benchmark :: "('s, bool) pyfun"
  collect_results :: "int \<Rightarrow> ('s, bresult option) pyfun"
  teardown :: "('s, bool) pyfun"

section \<open>BenchmarkResult\<close>

text \<open>\<open>BenchmarkResult(game_id, run_id)\<close>: stamped with the time of its creation.\<close>

definition new_result :: "string \<Rightarrow> int \<Rightarrow> 'a world_scheme \<Rightarrow> bresult" where
  "new_result gid rid w =
     \<lparr>r_game_id = gid, r_run_id = rid, r_timestamp = stamp w (clock w), r_duration = None,
      r_avg_fps = None, r_min_fps = None, r_max_fps = None, r_screenshot_path = None\<rparr>"

definition result_path :: "bresult \<Rightarrow> string" where
  "result_path r = ''results/'' @ r_game_id r @ ''_run'' @ py_str_int (r_run_id r) @ ''_''
                   @ r_timestamp r @ ''.json''"

text \<open>\<open>BenchmarkResult.save()\<close>: \<open>mkdir\<close> and \<open>open\<close> raise \<open>OSError\<close> when the disk refuses.\<close>

definition save_result :: "bresult \<Rightarrow> ('a world_scheme, string) pyfun" where
  "save_result r w =
     (if disk_ok w then (Inr (result_path r), emit (WriteFile (result_path r)) w)
      else (Inl (OSError ''cannot write results''), w))"

section \<open>GameBenchmark\<close>

definition cfg_get :: "(string \<times> cfg_val) list \<Rightarrow> string \<Rightarrow> cfg_val \<Rightarrow> cfg_val" where
  "cfg_get cs k d = (case map_of cs k of None \<Rightarrow> d | Some v \<Rightarrow> v)"

text \<open>A configuration value passed to \<open>time.sleep\<close>: a string there is a \<open>TypeError\<close>.\<close>

definition cfg_seconds :: "cfg_val \<Rightarrow> py_exc + real" where
  "cfg_seconds v = (case v of CInt i \<Rightarrow> Inr (real_of_int i) | CReal r \<Rightarrow> Inr r
                    | CStr _ \<Rightarrow> Inl (TypeError ''an integer or float is required''))"

text \<open>
  \<open>GameBenchmark.__init__\<close>: an empty or missing window title defaults to the game
  name, missing configs to the empty dictionary.
\<close>

definition init_bench ::
  "string \<Rightarrow> string \<Rightarrow> string option \<Rightarrow> (string \<times> cfg_val) list \<Rightarrow> world \<Rightarrow> bench" where
  "init_bench gid gname wtitle cfgs w =
     world.extend w
       \<lparr>game_id = gid, game_name = gname,
        window_title = (case wtitle of None \<Rightarrow> gname | Some t \<Rightarrow> if t = [] then gname else t),
        configs = cfgs, results = [], start_time = None, end_time = None, duration = None\<rparr>"

definition launch_steam_game :: "('a bench_scheme, unit) pyfun" where
  "launch_steam_game s =
     (let s1 = emit (Popen (''steam://rungameid/'' @ game_id s)) s
      in case cfg_seconds (cfg_get (configs s) ''launch_wait_time'' (CInt 30)) of
           Inl e \<Rightarrow> (Inl e, s1)
         | Inr d \<Rightarrow> sleep d s1)"

definition launch :: "('a bench_scheme, unit) pyfun" where
  "launch s =
     (if cfg_get (configs s) ''launcher'' (CStr ''steam'') = CStr ''steam'' then launch_steam_game s
      else (Inl (NotImplementedError ''launcher not implemented''), s))"

text \<open>
  The dry-run log line formats \<open>self.benchmark_duration\<close> with \<open>:.2f\<close>; the
  \<open>hasattr\<close> guard before it always holds (the constructor sets the attribute), so the
  line raises \<open>TypeError\<close> when the duration is still \<open>None\<close>.
\<close>

definition log_measured_duration :: "bool \<Rightarrow> ('a bench_scheme, unit) pyfun" where
  "log_measured_duration is_dry_run s =
     (if is_dry_run \<and> duration s = None
      then (Inl (TypeError ''unsupported format string passed to NoneType.__format__''), s)
      else (Inr (), s))"

text \<open>\<open>if result: self.results.append(result); result.save()\<close>.\<close>

definition record_result :: "bresult option \<Rightarrow> ('a bench_scheme, unit) pyfun" where
  "record_result r s =
     (case r of
       None \<Rightarrow> (Inr (), s)
     | Some res \<Rightarrow>
         (case save_result res (s\<lparr>results := results s @ [res]\<rparr>) of
           (Inl e, s') \<Rightarrow> (Inl e, s')
         | (Inr _, s') \<Rightarrow> (Inr (), s')))"

text \<open>
  The body of the \<open>try\<close> block of \<open>execute_benchmark_run\<close>, in the source's order:
  the steps up to the teardown, then the append and save of the result.
\<close>

definition run_until_teardown ::
  "'a bench_scheme game_ops \<Rightarrow> int \<Rightarrow> bool \<Rightarrow> ('a bench_scheme, bresult option) pyfun" where
  "run_until_teardown g run_id is_dry_run =
     bindx launch (\<lambda>_.
     bindx (focus_game_window g) (\<lambda>_.
     bindx (wait_until_ready g) (\<lambda>_.
     bindx (navigate_to_benchmark g) (\<lambda>_.
     bindx (start_benchmark g) (\<lambda>_.
     bindx (collect_results g run_id) (\<lambda>result.
     bindx (log_measured_duration is_dry_run) (\<lambda>_.
     bindx (teardown g) (\<lambda>_.
     ret result))))))))"

definition run_body :: "'a bench_scheme game_ops \<Rightarrow> int \<Rightarrow> bool \<Rightarrow> ('a bench_scheme, bresult option) pyfun" where
  "run_body g run_id is_dry_run =
     bindx (run_until_teardown g run_id is_dry_run) (\<lambda>result.
     bindx (record_result result) (\<lambda>_.
     ret result))"

text \<open>The steps of the run before the results are collected (lines 184 to 188).\<close>

definition prepare_run :: "'a bench_scheme game_ops \<Rightarrow> ('a bench_scheme, bool) pyfun" where
  "prepare_run g =
     bindx launch (\<lambda>_.
     bindx (focus_game_window g) (\<lambda>_.
     bindx (wait_until_ready g) (\<lambda>_.
     bindx (navigate_to_benchmark g) (\<lambda>_.
     start_benchmark g))))"

text \<open>\<open>execute_benchmark_run\<close>: every exception of the body is caught and gives \<open>None\<close>.\<close>

definition execute_benchmark_run ::
  "'a bench_scheme game_ops \<Rightarrow> int \<Rightarrow> bool \<Rightarrow> ('a bench_scheme, bresult option) wstep" where
  "execute_benchmark_run g run_id is_dry_run s =
     (case run_body g run_id is_dry_run s of
       (Inl e, s') \<Rightarrow> (None, s')
     | (Inr r, s') \<Rightarrow> (r, s'))"

text \<open>
  The performance runs of \<open>run_benchmark_series\<close>: \<open>for i in range(1, run_count +
  1)\<close>, with a cooldown after every run but the last.
\<close>

fun perf_runs :: "'a bench_scheme game_ops \<Rightarrow> int \<Rightarrow> int \<Rightarrow> int list \<Rightarrow> ('a bench_scheme, unit) pyfun" where
  "perf_runs g run_count cooldown [] s = (Inr (), s)"
| "perf_runs g run_count cooldown (i # is) s =
     (case execute_benchmark_run g i False s of
       (_, s1) \<Rightarrow>
         if i < run_count then
           (case sleep (real_of_int cooldown) s1 of
             (Inl e, s2) \<Rightarrow> (Inl e, s2)
           | (Inr _, s2) \<Rightarrow> perf_runs g run_count cooldown is s2)
         else perf_runs g run_count cooldown is s1)"

text \<open>
  \<open>run_benchmark_series(run_count, cooldown)\<close>: run 0 is the dry run that measures the
  benchmark's duration; without a duration the series stops there. The cooldown sleeps
  are outside any \<open>try\<close>: a negative cooldown raises \<open>ValueError\<close> out of the series.
\<close>

definition run_benchmark_series ::
  "'a bench_scheme game_ops \<Rightarrow> int \<Rightarrow> int \<Rightarrow> ('a bench_scheme, bresult list) pyfun" where
  "run_benchmark_series g run_count cooldown s =
     (case execute_benchmark_run g 0 True s of
       (_, s1) \<Rightarrow>
         if duration s1 = None then (Inr (results s1), s1)
         else
           (case sleep (real_of_int cooldown) s1 of
             (Inl e, s2) \<Rightarrow> (Inl e, s2)
           | (Inr _, s2) \<Rightarrow>
               (case perf_runs g run_count cooldown [1..run_count] s2 of
                 (Inl e, s3) \<Rightarrow> (Inl e, s3)
               | (Inr _, s3) \<Rightarrow> (Inr (results s3), s3))))"

section \<open>Contracts between the lifecycle and a game\<close>

text \<open>
  \<open>bench_step P s s'\<close>: the step from \<open>s\<close> to \<open>s'\<close> changed only the clock
  (forwards), the detector's answers, the start and end times, the measured duration and
  the trace, appending only actions that satisfy \<open>P\<close>. The results list and every other
  field are as before. \<open>keeps_duration m\<close>: \<open>m\<close> leaves the duration alone too.
\<close>

definition bench_step :: "(action \<Rightarrow> bool) \<Rightarrow> 'a bench_scheme \<Rightarrow> 'a bench_scheme \<Rightarrow> bool" where
  "bench_step P s s' \<longleftrightarrow>
     windows s' = windows s \<and> activates s' = activates s \<and> failsafe s' = failsafe s \<and>
     disk_ok s' = disk_ok s \<and> stamp s' = stamp s \<and> game_id s' = game_id s \<and>
     game_name s' = game_name s \<and> window_title s' = window_title s \<and> configs s' = configs s \<and>
     results s' = results s \<and> bench.more s' = bench.more s \<and>
     clock s \<le> clock s' \<and> (\<exists>xs. trace s' = trace s @ xs \<and> list_all P xs)"

abbreviation bstep :: "(action \<Rightarrow> bool) \<Rightarrow> ('a bench_scheme, 'r) pyfun \<Rightarrow> bool" where
  "bstep P \<equiv> rel_pres (bench_step P)"

abbreviation keeps_duration :: "('a bench_scheme, 'r) pyfun \<Rightarrow> bool" where
  "keeps_duration \<equiv> rel_pres (\<lambda>s s'. duration s' = duration s)"

text \<open>
  What \<open>execute_benchmark_run\<close> needs of a game: its methods are \<open>bstep P\<close>, and all
  but the dry run's \<open>collect_results(0)\<close> keep the duration; the result
  \<open>collect_results(i)\<close> returns is tagged with run \<open>i\<close> and carries the duration the
  object holds afterwards.
\<close>

definition ops_frame :: "(action \<Rightarrow> bool) \<Rightarrow> 'a bench_scheme game_ops \<Rightarrow> bool" where
  "ops_frame P g \<longleftrightarrow>
     bstep P (focus_game_window g) \<and> bstep P (wait_until_ready g) \<and>
     bstep P (navigate_to_benchmark g) \<and> bstep P (start_benchmark g) \<and>
     (\<forall>i. bstep P (collect_results g i)) \<and> bstep P (teardown g) \<and>
     keeps_duration (focus_game_window g) \<and> keeps_duration (wait_until_ready g) \<and>
     keeps_duration (navigate_to_benchmark g) \<and> keeps_duration (start_benchmark g) \<and>
     (\<forall>i. i \<noteq> 0 \<longrightarrow> keeps_duration (collect_results g i)) \<and> keeps_duration (teardown g)"

definition collect_contract :: "'a bench_scheme game_ops \<Rightarrow> bool" where
  "collect_contract g \<longleftrightarrow>
     (\<forall>i s x s'. collect_results g i s = (Inr (Some x), s') \<longrightarrow>
        r_run_id x = i \<and> r_duration x = duration s')"

definition is_launch :: "action \<Rightarrow> bool" where
  "is_launch a = (case a of Popen _ \<Rightarrow> True | _ \<Rightarrow> False)"

definition launches :: "action list \<Rightarrow> nat" where
  "launches tr = length (filter is_launch tr)"

definition new_actions :: "'a world_scheme \<Rightarrow> 'a world_scheme \<Rightarrow> action list" where
  "new_actions w w' = drop (length (trace w)) (trace w')"

section \<open>Lemmas: frames\<close>

lemma bench_fields_of_more:
  fixes s s' :: "'a bench_scheme"
  assumes "world.more s' = world.more s"
  shows "game_id s' = game_id s" "game_name s' = game_name s" "window_title s' = window_title s"
    "configs s' = configs s" "results s' = results s" "start_time s' = start_time s"
    "end_time s' = end_time s" "duration s' = duration s" "bench.more s' = bench.more s"
  using assms by (cases s, cases s', simp)+

lemma advances_bench_step:
  fixes s s' :: "'a bench_scheme"
  shows "advances P s s' \<Longrightarrow> bench_step P s s'"
  unfolding advances_def bench_step_def using bench_fields_of_more by metis

lemma advances_duration: "advances P s s' \<Longrightarrow> duration s' = duration s"
  by (rule bench_fields_of_more(8)) (simp add: advances_def)

lemma bench_step_refl [simp]: "bench_step P s s"
  by (auto simp: bench_step_def)

lemma bench_step_trans [trans]: "bench_step P s1 s2 \<Longrightarrow> bench_step P s2 s3 \<Longrightarrow> bench_step P s1 s3"
  unfolding bench_step_def by (metis (no_types, lifting) append.assoc list_all_append order_trans)

lemma bench_step_adv: "bench_step P s s1 \<Longrightarrow> adv P f \<Longrightarrow> f s1 = (r, s2) \<Longrightarrow> bench_step P s s2"
  by (rule bench_step_trans, assumption, rule advances_bench_step, erule advD)

lemma bench_step_mono: "bench_step P s s' \<Longrightarrow> (\<And>a. P a \<Longrightarrow> Q a) \<Longrightarrow> bench_step Q s s'"
  unfolding bench_step_def by (metis list.pred_mono_strong)

lemma bench_step_start_time [intro]: "bench_step P s s' \<Longrightarrow> bench_step P s (s'\<lparr>start_time := t\<rparr>)"
  by (simp add: bench_step_def)

lemma bench_step_end_time [intro]: "bench_step P s s' \<Longrightarrow> bench_step P s (s'\<lparr>end_time := t\<rparr>)"
  by (simp add: bench_step_def)

lemma bench_stepD:
  assumes "bench_step P s s'"
  shows "windows s' = windows s" "activates s' = activates s" "failsafe s' = failsafe s"
    "disk_ok s' = disk_ok s" "stamp s' = stamp s" "game_id s' = game_id s"
    "configs s' = configs s" "results s' = results s" "clock s \<le> clock s'"
  using assms by (simp_all add: bench_step_def)

lemma bench_step_new_actions:
  "bench_step P s s' \<Longrightarrow> trace s' = trace s @ new_actions s s' \<and> list_all P (new_actions s s')"
  by (auto simp: bench_step_def new_actions_def)

lemma bench_step_duration [intro]: "bench_step P s s' \<Longrightarrow> bench_step P s (s'\<lparr>duration := d\<rparr>)"
  by (simp add: bench_step_def)

lemma bstep_bindx: "bstep P m \<Longrightarrow> (\<And>a. bstep P (f a)) \<Longrightarrow> bstep P (bindx m f)"
  by (rule rel_pres_bindx) (auto intro: bench_step_trans)

lemma keeps_duration_bindx:
  "keeps_duration m \<Longrightarrow> (\<And>a. keeps_duration (f a)) \<Longrightarrow> keeps_duration (bindx m f)"
  by (rule rel_pres_bindx) auto

lemma bstep_ret [simp]: "bstep P (ret a)"
  by (rule rel_pres_ret) simp

lemma keeps_duration_ret [simp]: "keeps_duration (ret a)"
  by (rule rel_pres_ret) simp

lemma bstep_lift [intro]: "adv P f \<Longrightarrow> bstep P (lift f)"
  by (simp add: rel_pres_def adv_def advances_bench_step)

lemma keeps_duration_lift_adv [intro]: "adv P f \<Longrightarrow> keeps_duration (lift f)"
  by (auto simp: rel_pres_def adv_def advances_def intro: bench_fields_of_more(8))

lemma bstep_advances: "(\<And>s. advances P s (snd (m s))) \<Longrightarrow> bstep P m"
  by (simp add: rel_pres_def advances_bench_step)

lemma keeps_duration_advances: "(\<And>s. advances P s (snd (m s))) \<Longrightarrow> keeps_duration m"
  by (auto simp: rel_pres_def advances_def intro: bench_fields_of_more(8))

lemma new_actions_append [simp]: "new_actions w (w'\<lparr>trace := trace w @ xs\<rparr>) = xs"
  by (simp add: new_actions_def)

lemma new_actions_trans:
  "trace w2 = trace w1 @ xs \<Longrightarrow> trace w3 = trace w2 @ ys \<Longrightarrow> new_actions w1 w3 = xs @ ys"
  by (simp add: new_actions_def)

lemma launches_append [simp]: "launches (xs @ ys) = launches xs + launches ys"
  by (simp add: launches_def)

lemma launches_Nil [simp]: "launches [] = 0"
  by (simp add: launches_def)

lemma launches_none: "list_all (\<lambda>a. \<not> is_launch a) xs \<Longrightarrow> launches xs = 0"
  by (simp add: launches_def list_all_iff filter_empty_conv)

section \<open>Lemmas: the lifecycle's own steps\<close>

lemma launch_steam:
  assumes "cfg_get (configs s) ''launcher'' (CStr ''steam'') = CStr ''steam''"
    and "cfg_seconds (cfg_get (configs s) ''launch_wait_time'' (CInt 30)) = Inr d" and "0 \<le> d"
  shows "launch s = (Inr (), pass_time d (emit (Popen (''steam://rungameid/'' @ game_id s)) s))"
  using assms by (simp add: launch_def launch_steam_game_def sleep_def)

lemma launch_frame:
  assumes "launch s = (r, s')"
  shows "bench_step is_launch s s'"
proof -
  have "bench_step is_launch s (emit (Popen (''steam://rungameid/'' @ game_id s)) s)"
    by (rule advances_bench_step) (simp add: advances_emit is_launch_def)
  moreover have "bench_step is_launch (emit a s) (pass_time d (emit a s))" if "0 \<le> d" for a d
    using that by (intro advances_bench_step advances_pass_time)
  ultimately show ?thesis
    using assms
    by (auto simp: launch_def launch_steam_game_def sleep_def Let_def not_less
        split: if_splits sum.splits intro: bench_step_trans)
qed

lemma log_measured_duration_state: "snd (log_measured_duration b s) = s"
  by (simp add: log_measured_duration_def)

lemma record_result_effect:
  assumes "record_result r s = (x, s')"
  shows "results s' = results s @ (case r of None \<Rightarrow> [] | Some res \<Rightarrow> [res])"
    "duration s' = duration s" "configs s' = configs s" "disk_ok s' = disk_ok s"
    "failsafe s' = failsafe s" "clock s' = clock s" "start_time s' = start_time s"
    "game_id s' = game_id s"
    "\<exists>xs. trace s' = trace s @ xs \<and> list_all (\<lambda>a. \<exists>p. a = WriteFile p) xs"
    "x = (if r \<noteq> None \<and> \<not> disk_ok s then Inl (OSError ''cannot write results'') else Inr ())"
  using assms
  by (auto simp: record_result_def save_result_def emit_def split: option.splits if_splits)

lemma bstep_mono: "bstep P m \<Longrightarrow> (\<And>a. P a \<Longrightarrow> Q a) \<Longrightarrow> bstep Q m"
  unfolding rel_pres_def by (blast intro: bench_step_mono)

lemma launch_bstep: "bstep is_launch launch"
  by (rule rel_presI) (metis launch_frame surjective_pairing)

lemma launch_keeps_duration: "keeps_duration launch"
  by (rule rel_presI)
     (auto simp: launch_def launch_steam_game_def sleep_def emit_def pass_time_def Let_def
        split: sum.splits)

lemma log_bstep: "bstep P (log_measured_duration b)"
  by (rule rel_presI) (simp add: log_measured_duration_state)

lemma log_keeps_duration: "keeps_duration (log_measured_duration b)"
  by (rule rel_presI) (simp add: log_measured_duration_state)

lemma launch_launches:
  assumes "launch s = (r, s')"
  shows "launches (new_actions s s') =
           (if cfg_get (configs s) ''launcher'' (CStr ''steam'') = CStr ''steam'' then 1 else 0)"
  using assms
  by (auto simp: launch_def launch_steam_game_def sleep_def emit_def pass_time_def Let_def
      new_actions_def launches_def is_launch_def split: sum.splits if_splits)

section \<open>Lemmas: one benchmark run, for any game that keeps the contracts\<close>

lemma ops_frameD:
  assumes "ops_frame P g"
  shows "bstep P (focus_game_window g)" "bstep P (wait_until_ready g)"
    "bstep P (navigate_to_benchmark g)" "bstep P (start_benchmark g)"
    "bstep P (collect_results g i)" "bstep P (teardown g)"
    "keeps_duration (focus_game_window g)" "keeps_duration (wait_until_ready g)"
    "keeps_duration (navigate_to_benchmark g)" "keeps_duration (start_benchmark g)"
    "keeps_duration (teardown g)" "i \<noteq> 0 \<Longrightarrow> keeps_duration (collect_results g i)"
  using assms by (simp_all add: ops_frame_def)

text \<open>The steps after the launch only append actions of the game's own kind.\<close>

lemma after_launch_bstep:
  assumes "ops_frame P g"
  shows "bstep P (bindx (focus_game_window g) (\<lambda>_. bindx (wait_until_ready g) (\<lambda>_.
           bindx (navigate_to_benchmark g) (\<lambda>_. bindx (start_benchmark g) (\<lambda>_.
           bindx (collect_results g i) (\<lambda>result. bindx (log_measured_duration dry) (\<lambda>_.
           bindx (teardown g) (\<lambda>_. ret result))))))))"
  using ops_frameD [OF assms] by (intro bstep_bindx log_bstep bstep_ret)

lemma run_until_teardown_bstep:
  assumes "ops_frame P g"
  shows "bstep (\<lambda>a. P a \<or> is_launch a) (run_until_teardown g i dry)"
  unfolding run_until_teardown_def
  by (rule bstep_bindx [OF bstep_mono [OF launch_bstep] bstep_mono [OF after_launch_bstep [OF assms]]])
     simp_all

lemma run_until_teardown_duration:
  assumes "ops_frame P g" and "i \<noteq> 0"
  shows "keeps_duration (run_until_teardown g i dry)"
  unfolding run_until_teardown_def
  using ops_frameD [OF assms(1)] assms(2)
  by (intro keeps_duration_bindx launch_keeps_duration log_keeps_duration keeps_duration_ret) simp_all

lemma run_until_teardown_launches:
  assumes "ops_frame P g" and noL: "\<And>a. P a \<Longrightarrow> \<not> is_launch a"
    and run: "run_until_teardown g i dry s = (r, s')"
  shows "launches (new_actions s s') =
           (if cfg_get (configs s) ''launcher'' (CStr ''steam'') = CStr ''steam'' then 1 else 0)"
proof -
  obtain r1 s1 where l: "launch s = (r1, s1)" by fastforce
  have step1: "bench_step is_launch s s1" using l by (rule launch_frame)
  show ?thesis
  proof (cases r1)
    case (Inl e)
    with run l have "s' = s1" by (simp add: run_until_teardown_def)
    with l show ?thesis by (simp add: launch_launches)
  next
    case (Inr u)
    let ?rest = "bindx (focus_game_window g) (\<lambda>_. bindx (wait_until_ready g) (\<lambda>_.
           bindx (navigate_to_benchmark g) (\<lambda>_. bindx (start_benchmark g) (\<lambda>_.
           bindx (collect_results g i) (\<lambda>result. bindx (log_measured_duration dry) (\<lambda>_.
           bindx (teardown g) (\<lambda>_. ret result)))))))"
    have "run_until_teardown g i dry s = ?rest s1"
      unfolding run_until_teardown_def using l Inr by (simp only: bindx_Inr)
    with run have rest: "?rest s1 = (r, s')" by simp
    have "bench_step P s1 s'" by (rule rel_presD [OF after_launch_bstep [OF assms(1)] rest])
    then have t2: "trace s' = trace s1 @ new_actions s1 s'" and p2: "list_all P (new_actions s1 s')"
      using bench_step_new_actions by blast+
    have t1: "trace s1 = trace s @ new_actions s s1"
      using bench_step_new_actions [OF step1] by blast
    have "launches (new_actions s1 s') = 0"
      using p2 noL by (intro launches_none) (simp add: list.pred_mono_strong)
    moreover have "new_actions s s' = new_actions s s1 @ new_actions s1 s'"
      by (rule new_actions_trans [OF t1 t2])
    ultimately show ?thesis using launch_launches [OF l] by simp
  qed
qed

lemma run_until_teardown_result:
  assumes ops: "ops_frame P g" and coll: "collect_contract g"
    and run: "run_until_teardown g i dry s = (Inr (Some x), s')"
  shows "r_run_id x = i \<and> r_duration x = duration s'"
proof -
  from run obtain s1 where "bindx (focus_game_window g) (\<lambda>_. bindx (wait_until_ready g) (\<lambda>_.
           bindx (navigate_to_benchmark g) (\<lambda>_. bindx (start_benchmark g) (\<lambda>_.
           bindx (collect_results g i) (\<lambda>result. bindx (log_measured_duration dry) (\<lambda>_.
           bindx (teardown g) (\<lambda>_. ret result))))))) s1 = (Inr (Some x), s')"
    unfolding run_until_teardown_def by (auto elim: bindx_InrE)
  then obtain s5 s6 s7 where c: "collect_results g i s5 = (Inr (Some x), s6)"
      and rest: "bindx (log_measured_duration dry) (\<lambda>_. bindx (teardown g) (\<lambda>_. ret (Some x))) s6
                 = (Inr (Some x), s')"
    by (auto elim!: bindx_InrE)
  have "keeps_duration (bindx (log_measured_duration dry) (\<lambda>_. bindx (teardown g) (\<lambda>_. ret (Some x))))"
    using ops_frameD(11) [OF ops] by (intro keeps_duration_bindx log_keeps_duration) simp_all
  then have "duration s' = duration s6" using rest by (rule rel_presD)
  with c coll show ?thesis by (simp add: collect_contract_def)
qed

text \<open>
  Every run ends in one of two ways: an exception before the result is recorded, which
  loses the result, or the append and save of whatever \<open>collect_results\<close> returned, whose
  failure also gives \<open>None\<close>.
\<close>

lemma execute_decomp:
  assumes "execute_benchmark_run g i dry s = (r, s')"
  obtains (raised) e where "run_until_teardown g i dry s = (Inl e, s')" "r = None"
  | (recorded) x st rr where "run_until_teardown g i dry s = (Inr x, st)"
      "record_result x st = (rr, s')" "r = (if rr = Inr () then x else None)"
proof -
  obtain y st where u: "run_until_teardown g i dry s = (y, st)" by fastforce
  show ?thesis
  proof (cases y)
    case (Inl e)
    with u assms show ?thesis
      by (intro that(1) [of e]) (auto simp: execute_benchmark_run_def run_body_def)
  next
    case (Inr x)
    obtain rr s'' where rec: "record_result x st = (rr, s'')" by fastforce
    have "execute_benchmark_run g i dry s = (if rr = Inr () then x else None, s'')"
      using u Inr rec
      by (cases rr) (auto simp: execute_benchmark_run_def run_body_def)
    with assms have "r = (if rr = Inr () then x else None)" "s'' = s'" by simp_all
    with u Inr rec show ?thesis by (intro that(2)) simp_all
  qed
qed

lemma execute_effect:
  assumes ops: "ops_frame P g" and coll: "collect_contract g"
    and noL: "\<And>a. P a \<Longrightarrow> \<not> is_launch a"
    and run: "execute_benchmark_run g i dry s = (r, s')"
  shows "\<exists>extra. results s' = results s @ extra \<and> length extra \<le> 1 \<and>
           (\<forall>x\<in>set extra. r_run_id x = i \<and> r_duration x = duration s') \<and>
           (\<forall>x. r = Some x \<longrightarrow> extra = [x])"
    and "configs s' = configs s" "disk_ok s' = disk_ok s" "failsafe s' = failsafe s"
    "game_id s' = game_id s" "clock s \<le> clock s'"
    "i \<noteq> 0 \<Longrightarrow> duration s' = duration s"
    "launches (new_actions s s') =
       (if cfg_get (configs s) ''launcher'' (CStr ''steam'') = CStr ''steam'' then 1 else 0)"
    "trace s' = trace s @ new_actions s s'"
proof -
  have frame: "run_until_teardown g i dry s = (y, st) \<Longrightarrow> bench_step (\<lambda>a. P a \<or> is_launch a) s st"
    for y st by (rule rel_presD [OF run_until_teardown_bstep [OF ops]])
  have dur: "i \<noteq> 0 \<Longrightarrow> run_until_teardown g i dry s = (y, st) \<Longrightarrow> duration st = duration s"
    for y st using rel_presD [OF run_until_teardown_duration [OF ops]] by blast
  have la: "run_until_teardown g i dry s = (y, st) \<Longrightarrow> launches (new_actions s st) =
       (if cfg_get (configs s) ''launcher'' (CStr ''steam'') = CStr ''steam'' then 1 else 0)"
    for y st using run_until_teardown_launches [OF ops noL] by blast
  have "(\<exists>extra. results s' = results s @ extra \<and> length extra \<le> 1 \<and>
           (\<forall>x\<in>set extra. r_run_id x = i \<and> r_duration x = duration s') \<and>
           (\<forall>x. r = Some x \<longrightarrow> extra = [x])) \<and>
        configs s' = configs s \<and> disk_ok s' = disk_ok s \<and> failsafe s' = failsafe s \<and>
        game_id s' = game_id s \<and> clock s \<le> clock s' \<and> (i \<noteq> 0 \<longrightarrow> duration s' = duration s) \<and>
        launches (new_actions s s') =
          (if cfg_get (configs s) ''launcher'' (CStr ''steam'') = CStr ''steam'' then 1 else 0) \<and>
        trace s' = trace s @ new_actions s s'"
    using run
  proof (cases rule: execute_decomp)
    case (raised e)
    with frame [OF raised(1)] dur la show ?thesis by (auto simp: bench_step_def new_actions_def)
  next
    case (recorded x st rr)
    note st = frame [OF recorded(1)] and rec = record_result_effect [OF recorded(2)]
    have res: "x = Some y \<Longrightarrow> r_run_id y = i \<and> r_duration y = duration s'" for y
      using run_until_teardown_result [OF ops coll] recorded(1) rec(2) by simp
    obtain xs where xs: "trace s' = trace st @ xs" "list_all (\<lambda>a. \<exists>p. a = WriteFile p) xs"
      using rec(9) by blast
    have "launches xs = 0"
      using xs(2) by (intro launches_none) (auto simp: list_all_iff is_launch_def)
    moreover have "new_actions s s' = new_actions s st @ xs"
      using new_actions_trans [OF conjunct1 [OF bench_step_new_actions [OF st]] xs(1)] .
    ultimately have "launches (new_actions s s') = launches (new_actions s st)" by simp
    moreover have "trace s' = trace s @ new_actions s s'"
      using bench_step_new_actions [OF st] xs(1) \<open>new_actions s s' = new_actions s st @ xs\<close> by simp
    ultimately show ?thesis
      using st rec res la [OF recorded(1)] dur [OF _ recorded(1)] recorded(3)
      by (auto simp: bench_step_def split: option.splits if_splits)
  qed
  then show "\<exists>extra. results s' = results s @ extra \<and> length extra \<le> 1 \<and>
           (\<forall>x\<in>set extra. r_run_id x = i \<and> r_duration x = duration s') \<and>
           (\<forall>x. r = Some x \<longrightarrow> extra = [x])"
    and "configs s' = configs s" "disk_ok s' = disk_ok s" "failsafe s' = failsafe s"
    "game_id s' = game_id s" "clock s \<le> clock s'"
    "i \<noteq> 0 \<Longrightarrow> duration s' = duration s"
    "launches (new_actions s s') =
       (if cfg_get (configs s) ''launcher'' (CStr ''steam'') = CStr ''steam'' then 1 else 0)"
    "trace s' = trace s @ new_actions s s'"
    by blast+
qed

section \<open>Lemmas: the series\<close>

lemma sleep_nonneg [simp]: "0 \<le> d \<Longrightarrow> sleep d s = (Inr (), pass_time d s)"
  by (simp add: sleep_def)

lemma sleep_negative [simp]:
  "d < 0 \<Longrightarrow> sleep d s = (Inl (ValueError ''sleep length must be non-negative''), s)"
  by (simp add: sleep_def)

lemma pass_time_bench [simp]:
  "results (pass_time d s) = results s" "duration (pass_time d s) = duration s"
  "configs (pass_time d s) = configs s" "trace (pass_time d s) = trace s"
  "new_actions s (pass_time d s) = []"
  by (simp_all add: pass_time_def new_actions_def)

lemma perf_runs_effect:
  assumes ops: "ops_frame P g" and coll: "collect_contract g"
    and noL: "\<And>a. P a \<Longrightarrow> \<not> is_launch a"
    and c: "0 \<le> cooldown"
  shows "cfg_get (configs s) ''launcher'' (CStr ''steam'') = CStr ''steam'' \<Longrightarrow>
    0 \<notin> set ids \<Longrightarrow> sorted_wrt (<) ids \<Longrightarrow> perf_runs g n cooldown ids s = (r, s') \<Longrightarrow>
    (\<exists>extra. results s' = results s @ extra \<and> sorted_wrt (<) (map r_run_id extra) \<and>
       set (map r_run_id extra) \<subseteq> set ids \<and> (\<forall>x\<in>set extra. r_duration x = duration s')) \<and>
    duration s' = duration s \<and> configs s' = configs s \<and>
    launches (new_actions s s') = length ids \<and> trace s' = trace s @ new_actions s s'"
proof (induction ids arbitrary: s)
  case Nil
  then show ?case by (auto simp: new_actions_def)
next
  case (Cons i js)
  obtain r1 s1 where ex: "execute_benchmark_run g i False s = (r1, s1)" by fastforce
  note e = execute_effect [OF ops coll noL ex]
  let ?s2 = "if i < n then pass_time (real_of_int cooldown) s1 else s1"
  have i0: "i \<noteq> 0" using Cons.prems(2) by auto
  have rest: "perf_runs g n cooldown js ?s2 = (r, s')"
    using Cons.prems(4) ex c by (auto split: if_splits)
  have steam2: "cfg_get (configs ?s2) ''launcher'' (CStr ''steam'') = CStr ''steam''"
    using Cons.prems(1) e(2) by simp
  have ids2: "0 \<notin> set js" "sorted_wrt (<) js" using Cons.prems(2,3) by auto
  note IH = Cons.IH [OF steam2 ids2 rest]
  obtain extra1 where x1: "results s1 = results s @ extra1" "length extra1 \<le> 1"
      "\<forall>x\<in>set extra1. r_run_id x = i \<and> r_duration x = duration s1"
    using e(1) by blast
  obtain extra2 where x2: "results s' = results ?s2 @ extra2" "sorted_wrt (<) (map r_run_id extra2)"
      "set (map r_run_id extra2) \<subseteq> set js" "\<forall>x\<in>set extra2. r_duration x = duration s'"
    using IH by blast
  have d1: "duration s1 = duration s" using e(7) i0 by blast
  have d: "duration s' = duration s" using IH d1 by simp
  have "sorted_wrt (<) (map r_run_id (extra1 @ extra2))"
  proof -
    have "sorted_wrt (<) (map r_run_id extra1)"
      using x1(2) by (cases extra1) (auto simp: sorted_wrt1)
    moreover have "\<forall>a\<in>set extra1. \<forall>b\<in>set extra2. r_run_id a < r_run_id b"
      using x1(3) x2(3) Cons.prems(3) by fastforce
    ultimately show ?thesis using x2(2) by (auto simp: sorted_wrt_append)
  qed
  moreover have "set (map r_run_id (extra1 @ extra2)) \<subseteq> set (i # js)"
    using x1(3) x2(3) by auto
  moreover have "\<forall>x\<in>set (extra1 @ extra2). r_duration x = duration s'"
    using x1(3) x2(4) d IH d1 by auto
  moreover have na: "new_actions s s' = new_actions s s1 @ new_actions ?s2 s'"
  proof (rule new_actions_trans)
    show "trace s1 = trace s @ new_actions s s1" by (rule e(9))
    show "trace s' = trace s1 @ new_actions ?s2 s'" using IH by simp
  qed
  ultimately have ex12: "\<exists>extra. results s' = results s @ extra \<and>
      sorted_wrt (<) (map r_run_id extra) \<and> set (map r_run_id extra) \<subseteq> set (i # js) \<and>
      (\<forall>x\<in>set extra. r_duration x = duration s')"
    using x1(1) x2(1) by (intro exI [of _ "extra1 @ extra2"]) simp
  have cf: "configs s' = configs s" using IH e(2) by simp
  have la: "launches (new_actions s s') = length (i # js)"
    using na IH e(8) Cons.prems(1) by simp
  have tr: "trace s' = trace s @ new_actions s s'"
    using e(9) IH na by simp
  show ?case using ex12 d cf la tr by blast
qed


lemma perf_runs_returns: "0 \<le> cooldown \<Longrightarrow> fst (perf_runs g n cooldown ids s) = Inr ()"
  by (induction ids arbitrary: s) (auto split: prod.split)

lemma perf_runs_negative:
  "cooldown < 0 \<Longrightarrow> fst (perf_runs g n cooldown ids s) \<in> {Inr (), Inl (ValueError ''sleep length must be non-negative'')}"
  by (induction ids arbitrary: s) (auto split: prod.split)

text \<open>
  The series over any game whose methods keep to the contracts: the run ids of the
  recorded results are increasing and within \<open>0..run_count\<close>, every result carries
  the measured duration, the game is launched once per run (one dry run, then
  \<open>run_count\<close> runs when a duration was measured and the cooldown is a valid sleep
  length), and the series raises exactly when the duration is known and the cooldown
  negative.
\<close>

lemma run_benchmark_series_effect:
  assumes ops: "ops_frame P g" and coll: "collect_contract g"
    and noL: "\<And>a. P a \<Longrightarrow> \<not> is_launch a"
    and steam: "cfg_get (configs s) ''launcher'' (CStr ''steam'') = CStr ''steam''"
    and empty: "results s = []"
    and run: "run_benchmark_series g n cooldown s = (r, s')"
  shows "sorted_wrt (<) (map r_run_id (results s'))"
    and "\<forall>x\<in>set (results s'). 0 \<le> r_run_id x \<and> r_run_id x \<le> max 0 n"
    and "\<forall>x\<in>set (results s'). r_duration x = duration s'"
    and "launches (new_actions s s') =
           (if duration s' = None \<or> cooldown < 0 then 1 else 1 + nat n)"
    and "r = (if duration s' \<noteq> None \<and> cooldown < 0
              then Inl (ValueError ''sleep length must be non-negative'') else Inr (results s'))"
proof -
  obtain r0 s1 where ex: "execute_benchmark_run g 0 True s = (r0, s1)" by fastforce
  note e = execute_effect [OF ops coll noL ex]
  obtain extra0 where x0: "results s1 = extra0" "length extra0 \<le> 1"
      "\<forall>x\<in>set extra0. r_run_id x = 0 \<and> r_duration x = duration s1"
    using e(1) empty by auto
  have l0: "launches (new_actions s s1) = 1" using e(8) steam by simp
  have s0: "sorted_wrt (<) (map r_run_id extra0)"
    using x0(2) by (cases extra0) (auto simp: sorted_wrt1)
  consider (nodur) "duration s1 = None" | (neg) "duration s1 \<noteq> None" "cooldown < 0"
    | (perf) "duration s1 \<noteq> None" "0 \<le> cooldown" by fastforce
  then have "sorted_wrt (<) (map r_run_id (results s')) \<and>
    (\<forall>x\<in>set (results s'). 0 \<le> r_run_id x \<and> r_run_id x \<le> max 0 n) \<and>
    (\<forall>x\<in>set (results s'). r_duration x = duration s') \<and>
    launches (new_actions s s') = (if duration s' = None \<or> cooldown < 0 then 1 else 1 + nat n) \<and>
    r = (if duration s' \<noteq> None \<and> cooldown < 0
         then Inl (ValueError ''sleep length must be non-negative'') else Inr (results s'))"
  proof cases
    case nodur
    then have "r = Inr (results s1)" "s' = s1" using run ex by (auto simp: run_benchmark_series_def)
    then show ?thesis using x0 s0 l0 nodur by auto
  next
    case neg
    then have "r = Inl (ValueError ''sleep length must be non-negative'')" "s' = s1"
      using run ex by (auto simp: run_benchmark_series_def)
    then show ?thesis using x0 s0 l0 neg by auto
  next
    case perf
    let ?s2 = "pass_time (real_of_int cooldown) s1"
    obtain u s3 where pr: "perf_runs g n cooldown [1..n] ?s2 = (u, s3)" by fastforce
    have u: "u = Inr ()" using perf_runs_returns [OF perf(2), of g n "[1..n]" ?s2] pr by simp
    have rs: "r = Inr (results s3)" "s' = s3"
      using run ex perf pr u by (auto simp: run_benchmark_series_def)
    have steam2: "cfg_get (configs ?s2) ''launcher'' (CStr ''steam'') = CStr ''steam''"
      using steam e(2) by simp
    note p = perf_runs_effect [OF ops coll noL perf(2) steam2 _ _ pr]
    have q: "(\<exists>extra. results s3 = results ?s2 @ extra \<and> sorted_wrt (<) (map r_run_id extra) \<and>
       set (map r_run_id extra) \<subseteq> set [1..n] \<and> (\<forall>x\<in>set extra. r_duration x = duration s3)) \<and>
      duration s3 = duration ?s2 \<and> configs s3 = configs ?s2 \<and>
      launches (new_actions ?s2 s3) = length [1..n] \<and> trace s3 = trace ?s2 @ new_actions ?s2 s3"
      by (rule p) simp_all
    then obtain extra where xs: "results s3 = extra0 @ extra" "sorted_wrt (<) (map r_run_id extra)"
        "set (map r_run_id extra) \<subseteq> {1..n}" "\<forall>x\<in>set extra. r_duration x = duration s3"
      using x0(1) by auto
    have d3: "duration s3 = duration s1" using q by simp
    have na: "new_actions s s3 = new_actions s s1 @ new_actions ?s2 s3"
    proof (rule new_actions_trans)
      show "trace s1 = trace s @ new_actions s s1" by (rule e(9))
      show "trace s3 = trace s1 @ new_actions ?s2 s3" using q by simp
    qed
    have srt: "sorted_wrt (<) (map r_run_id (extra0 @ extra))"
      using s0 xs(2,3) x0(3) by (fastforce simp: sorted_wrt_append)
    have rng: "\<forall>x\<in>set (extra0 @ extra). 0 \<le> r_run_id x \<and> r_run_id x \<le> max 0 n"
      using xs(3) x0(3) by fastforce
    have dur: "\<forall>x\<in>set (extra0 @ extra). r_duration x = duration s3"
      using xs(4) x0(3) d3 by auto
    have la: "launches (new_actions s s3) = 1 + nat n"
      using na l0 q by simp
    show ?thesis using rs xs(1) srt rng dur la perf(1,2) d3 by auto
  qed
  then show "sorted_wrt (<) (map r_run_id (results s'))"
    and "\<forall>x\<in>set (results s'). 0 \<le> r_run_id x \<and> r_run_id x \<le> max 0 n"
    and "\<forall>x\<in>set (results s'). r_duration x = duration s'"
    and "launches (new_actions s s') =
           (if duration s' = None \<or> cooldown < 0 then 1 else 1 + nat n)"
    and "r = (if duration s' \<noteq> None \<and> cooldown < 0
              then Inl (ValueError ''sleep length must be non-negative'') else Inr (results s'))"
    by blast+
qed


lemma run_until_teardown_prepare:
  "run_until_teardown g i dry =
     bindx (prepare_run g) (\<lambda>_. bindx (collect_results g i) (\<lambda>result.
       bindx (log_measured_duration dry) (\<lambda>_. bindx (teardown g) (\<lambda>_. ret result))))"
  by (simp add: run_until_teardown_def prepare_run_def bindx_assoc)

lemma prepare_run_bstep:
  assumes "ops_frame P g"
  shows "bstep (\<lambda>a. P a \<or> is_launch a) (prepare_run g)" "keeps_duration (prepare_run g)"
  unfolding prepare_run_def using ops_frameD [OF assms]
  by (intro bstep_bindx keeps_duration_bindx launch_keeps_duration bstep_mono [OF launch_bstep];
      blast intro: bstep_mono)+

lemma execute_records:
  assumes "run_until_teardown g i dry s = (Inr (Some x), st)" "disk_ok st"
    and "execute_benchmark_run g i dry s = (r, s')"
  shows "r = Some x \<and> results s' = results st @ [x]"
  using assms(3)
proof (cases rule: execute_decomp)
  case (raised e)
  then show ?thesis using assms(1) by simp
next
  case (recorded x' st' rr)
  then have "x' = Some x" "st' = st" using assms(1) by simp_all
  then show ?thesis using record_result_effect [OF recorded(2)] recorded(3) assms(2) by simp
qed

lemma bstep_actions:
  "bstep P m \<Longrightarrow> m s = (r, s') \<Longrightarrow> trace s' = trace s @ new_actions s s' \<and> list_all P (new_actions s s')"
  by (rule bench_step_new_actions) (rule rel_presD)

text \<open>
  The dry run of a game whose teardown always leaves a mark \<open>Q\<close> in the trace (and
  whose earlier steps never do): the teardown runs exactly when the run measured a
  duration. When \<open>collect_results(0)\<close> finds nothing, the log line raises and the game is
  never closed.
\<close>

lemma dry_run_until_teardown:
  assumes ops: "ops_frame P g" and noQ: "\<forall>a. is_launch a \<longrightarrow> \<not> Q a"
    and pre: "bstep (\<lambda>a. \<not> Q a) (prepare_run g)" "bstep (\<lambda>a. \<not> Q a) (collect_results g 0)"
    and raise0: "\<forall>s e s'. collect_results g 0 s = (Inl e, s') \<longrightarrow> duration s' = duration s"
    and td: "\<forall>s x s'. teardown g s = (x, s') \<longrightarrow> (\<exists>a\<in>set (new_actions s s'). Q a)"
    and d0: "duration s = None"
    and run: "run_until_teardown g 0 True s = (y, st)"
  shows "(\<exists>a\<in>set (new_actions s st). Q a) \<longleftrightarrow> duration st \<noteq> None"
proof -
  note kd = prepare_run_bstep(2) [OF ops]
  obtain u s1 where p: "prepare_run g s = (u, s1)" by fastforce
  have d1: "duration s1 = None" using rel_presD [OF kd p] d0 by simp
  note a1 = bstep_actions [OF pre(1) p]
  have none: "\<not> (\<exists>a\<in>set (new_actions s s1). Q a)" using a1 by (auto simp: list_all_iff)
  show ?thesis
  proof (cases u)
    case (Inl e)
    then have "st = s1" using run p by (simp add: run_until_teardown_prepare)
    then show ?thesis using none d1 by simp
  next
    case (Inr u')
    obtain c s2 where c: "collect_results g 0 s1 = (c, s2)" by fastforce
    note a2 = bstep_actions [OF pre(2) c]
    have na2: "new_actions s s2 = new_actions s s1 @ new_actions s1 s2"
      using a1 a2 by (intro new_actions_trans [of s1 s]) simp_all
    have none2: "\<not> (\<exists>a\<in>set (new_actions s s2). Q a)"
      using none a2 na2 by (auto simp: list_all_iff)
    show ?thesis
    proof (cases c)
      case (Inl e)
      have "st = s2" using run p \<open>u = Inr u'\<close> c Inl by (auto simp: run_until_teardown_prepare)
      moreover have "duration s2 = None" using raise0 c Inl d1 by auto
      ultimately show ?thesis using none2 by simp
    next
      case (Inr res)
      show ?thesis
      proof (cases "duration s2")
        case None
        then have "st = s2"
          using run p \<open>u = Inr u'\<close> c Inr by (simp add: run_until_teardown_prepare log_measured_duration_def)
        then show ?thesis using none2 None by simp
      next
        case (Some dd)
        obtain t s3 where t: "teardown g s2 = (t, s3)" by fastforce
        have st: "st = s3"
          using run p \<open>u = Inr u'\<close> c Inr Some t
          by (cases t) (simp_all add: run_until_teardown_prepare log_measured_duration_def)
        note a3 = bstep_actions [OF ops_frameD(6) [OF ops] t]
        have "new_actions s s3 = new_actions s s2 @ new_actions s2 s3"
          using a2 na2 a1 a3 by (intro new_actions_trans [of s2 s]) simp_all
        moreover have "\<exists>a\<in>set (new_actions s2 s3). Q a" using td t by blast
        ultimately have "\<exists>a\<in>set (new_actions s s3). Q a" by auto
        moreover have "duration s3 = Some dd" using rel_presD [OF ops_frameD(11) [OF ops] t] Some by simp
        ultimately show ?thesis using st by simp
      qed
    qed
  qed
qed

lemma dry_run_teardown:
  assumes ops: "ops_frame P g" and noQ: "\<forall>a. is_launch a \<longrightarrow> \<not> Q a" "\<forall>p. \<not> Q (WriteFile p)"
    and pre: "bstep (\<lambda>a. \<not> Q a) (prepare_run g)" "bstep (\<lambda>a. \<not> Q a) (collect_results g 0)"
    and raise0: "\<forall>s e s'. collect_results g 0 s = (Inl e, s') \<longrightarrow> duration s' = duration s"
    and td: "\<forall>s x s'. teardown g s = (x, s') \<longrightarrow> (\<exists>a\<in>set (new_actions s s'). Q a)"
    and d0: "duration s = None"
    and run: "execute_benchmark_run g 0 True s = (r, s')"
  shows "(\<exists>a\<in>set (new_actions s s'). Q a) \<longleftrightarrow> duration s' \<noteq> None"
  using run
proof (cases rule: execute_decomp)
  case (raised e)
  show ?thesis by (rule dry_run_until_teardown [OF ops noQ(1) pre raise0 td d0 raised(1)])
next
  case (recorded x st rr)
  note u = dry_run_until_teardown [OF ops noQ(1) pre raise0 td d0 recorded(1)]
  note rec = record_result_effect [OF recorded(2)]
  obtain xs where xs: "trace s' = trace st @ xs" "list_all (\<lambda>a. \<exists>p. a = WriteFile p) xs"
    using rec(9) by blast
  have "new_actions s s' = new_actions s st @ xs"
  proof (rule new_actions_trans [OF _ xs(1)])
    show "trace st = trace s @ new_actions s st"
      using run_until_teardown_bstep [OF ops] recorded(1) by (rule bstep_actions [THEN conjunct1])
  qed
  moreover have "\<not> (\<exists>a\<in>set xs. Q a)" using xs(2) noQ(2) by (auto simp: list_all_iff)
  ultimately show ?thesis using u rec(2) by auto
qed

end
