(* ===== verification/Cs2_Benchmark.thy ===== *)
theory Cs2_Benchmark
  imports Benchmark
begin

text \<open>
  Counter-Strike 2: the constants of \<open>src/katana/games/cs2/config.py\<close> and the six
  methods of \<open>CS2Benchmark\<close> (\<open>src/katana/games/cs2/benchmark.py\<close>), collected as the
  \<open>game_ops\<close> record \<open>cs2_ops\<close> that the lifecycle of \<open>Benchmark\<close> runs.
\<close>

section \<open>Configuration\<close>

definition GAME_ID :: string where "GAME_ID = ''730''"

definition GAME_NAME :: string where "GAME_NAME = ''Counter-Strike 2''"

definition WINDOW_TITLE :: string where "WINDOW_TITLE = ''Counter-Strike 2''"

definition REQUIRED_ASSETS :: "string list" where
  "REQUIRED_ASSETS = [''play_tab.png'', ''workshop_tab.png'', ''cs2_fps_benchmark.png'',
     ''go_button.png'', ''benchmark_first_frame.png'', ''benchmark_end_screen.png'',
     ''power_button.png'', ''quit_button.png'']"

definition CONFIG :: "(string \<times> cfg_val) list" where
  "CONFIG = [(''launcher'', CStr ''steam''), (''launch_wait_time'', CInt 40),
     (''benchmark_map'', CStr ''cs2_fps_benchmark''), (''cooldown'', CInt 120),
     (''default_runs'', CInt 4), (''template_threshold'', CReal 0.8),
     (''template_timeout'', CInt 30), (''process_name'', CStr ''cs2.exe''),
     (''steam_url'', CStr ''steam://install/730''),
     (''store_url'', CStr ''https://store.steampowered.com/app/730/CounterStrike_2/'')]"

section \<open>CS2Benchmark\<close>

text \<open>\<open>CS2Benchmark.__init__\<close> (the asset check only logs).\<close>

definition cs2_init :: "world \<Rightarrow> bench" where
  "cs2_init w = init_bench GAME_ID GAME_NAME (Some WINDOW_TITLE) CONFIG w"

definition cs2_focus_game_window :: "('a bench_scheme, bool) pyfun" where
  "cs2_focus_game_window = lift (\<lambda>s. focus_window (window_title s) s)"

text \<open>
  \<open>wait_until_ready\<close>: three presses of Escape, then wait for the Play tab with the
  timeout \<open>CONFIG.get("template_timeout", 40)\<close>, which is 30.
\<close>

definition cs2_wait_until_ready :: "('a bench_scheme, bool) pyfun" where
  "cs2_wait_until_ready = lift (\<lambda>s.
     (case press_key ''esc'' 3 s of
       (_, s1) \<Rightarrow>
         (case cfg_get CONFIG ''template_timeout'' (CInt 40) of
           CInt t \<Rightarrow> wait_for_template ''play_tab.png'' (real_of_int t) s1
         | _ \<Rightarrow> wait_for_template ''play_tab.png'' 40 s1)))"

text \<open>
  \<open>navigate_to_benchmark\<close>: Play tab (with retries), Workshop tab, benchmark map. A
  failed wait returns \<open>False\<close>; the result of the clicks after a successful wait is
  not looked at.
\<close>

definition cs2_navigate_to_benchmark :: "('a bench_scheme, bool) pyfun" where
  "cs2_navigate_to_benchmark = lift (\<lambda>s.
     (case click_template_with_retry ''play_tab.png'' 3 default_kwargs s of
       (False, s1) \<Rightarrow> (False, s1)
     | (True, s1) \<Rightarrow>
         (case wait_for_template ''workshop_tab.png'' 20 s1 of
           (False, s2) \<Rightarrow> (False, s2)
         | (True, s2) \<Rightarrow>
             (case click_template_default ''workshop_tab.png'' s2 of
               (_, s3) \<Rightarrow>
                 (case wait_for_template ''cs2_fps_benchmark.png'' 20 s3 of
                   (False, s4) \<Rightarrow> (False, s4)
                 | (True, s4) \<Rightarrow>
                     (case click_template_default ''cs2_fps_benchmark.png'' s4 of
                       (_, s5) \<Rightarrow> (True, s5)))))))"

text \<open>
  \<open>start_benchmark\<close>: click GO, then wait for the first frame of the benchmark and
  record its time in \<open>benchmark_start_time\<close>.
\<close>

definition cs2_start_benchmark :: "('a bench_scheme, bool) pyfun" where
  "cs2_start_benchmark = lift (\<lambda>s.
     (case wait_for_template ''go_button.png'' 15 s of
       (False, s1) \<Rightarrow> (False, s1)
     | (True, s1) \<Rightarrow>
         (case click_template_default ''go_button.png'' s1 of
           (_, s2) \<Rightarrow>
             (case wait_for_template ''benchmark_first_frame.png'' 20 s2 of
               (True, s3) \<Rightarrow> (True, s3\<lparr>start_time := Some (clock s3)\<rparr>)
             | (False, s3) \<Rightarrow> (False, s3)))))"

definition shot_name :: "int \<Rightarrow> string \<Rightarrow> string" where
  "shot_name run_id ts = ''cs2_benchmark_result_run'' @ py_str_int run_id @ ''_'' @ ts @ ''.png''"

text \<open>
  \<open>collect_results(run_id)\<close>. Run 0 waits for the end screen and measures
  \<open>benchmark_end_time - benchmark_start_time\<close>, which raises \<open>TypeError\<close> when no start
  was recorded. Later runs sleep the known duration plus 12 seconds and take the
  screenshot, whatever the screen shows.
\<close>

definition cs2_collect_results :: "int \<Rightarrow> ('a bench_scheme, bresult option) pyfun" where
  "cs2_collect_results run_id s =
     (let result = new_result (game_id s) run_id s in
      if run_id = 0 then
        (case wait_for_template ''benchmark_end_screen.png'' 124 s of
          (False, s1) \<Rightarrow> (Inr None, s1)
        | (True, s1) \<Rightarrow>
            (let s2 = s1\<lparr>end_time := Some (clock s1)\<rparr> in
             case start_time s2 of
               None \<Rightarrow> (Inl (TypeError ''unsupported operand type(s) for -: float and NoneType''), s2)
             | Some st \<Rightarrow>
                 (let d = clock s1 - st;
                      s3 = pass_time 12 (s2\<lparr>duration := Some d\<rparr>)
                  in case take_screenshot (Some (shot_name run_id (stamp s3 (clock s3)))) s3 of
                       (shot, s4) \<Rightarrow>
                         (Inr (Some (result\<lparr>r_duration := Some d, r_screenshot_path := shot\<rparr>)), s4))))
      else
        (case duration s of
          None \<Rightarrow> (Inr None, s)
        | Some known \<Rightarrow>
            (case sleep (known + 12) s of
              (Inl e, s1) \<Rightarrow> (Inl e, s1)
            | (Inr _, s1) \<Rightarrow>
                (case take_screenshot (Some (shot_name run_id (stamp s1 (clock s1)))) s1 of
                  (shot, s2) \<Rightarrow>
                    (Inr (Some (result\<lparr>r_screenshot_path := shot, r_duration := Some known\<rparr>)), s2)))))"

text \<open>
  \<open>teardown\<close>: toggle the console, click the power icon and Quit; when Quit is not
  found, Alt+F4 through \<open>pyautogui.hotkey\<close>, which is not inside a \<open>try\<close> and raises
  when the fail-safe is tripped.
\<close>

definition cs2_teardown :: "('a bench_scheme, bool) pyfun" where
  "cs2_teardown s =
     (let s1 = pass_time 10 s;
          s2 = pass_time 4 (snd (press_key ''`'' 1 s1));
          s3 = (case wait_for_template ''power_button.png'' 10 s2 of
                  (True, s') \<Rightarrow> pass_time 2 (snd (click_template_default ''power_button.png'' s'))
                | (False, s') \<Rightarrow> s')
      in case wait_for_template ''quit_button.png'' 10 s3 of
           (True, s4) \<Rightarrow> (Inr True, pass_time 5 (snd (click_template_default ''quit_button.png'' s4)))
         | (False, s4) \<Rightarrow>
             if failsafe s4 then (Inl FailSafeException, s4)
             else (Inr True, pass_time 5 (emit (Hotkey [''alt'', ''f4'']) s4)))"

definition cs2_ops :: "'a bench_scheme game_ops" where
  "cs2_ops =
     \<lparr>focus_game_window = cs2_focus_game_window, wait_until_ready = cs2_wait_until_ready,
      navigate_to_benchmark = cs2_navigate_to_benchmark, start_benchmark = cs2_start_benchmark,
      collect_results = cs2_collect_results, teardown = cs2_teardown\<rparr>"


section \<open>What the CS2 methods do to the world\<close>

text \<open>
  The actions of the CS2 methods: everything but a launch and a result file.
  \<open>quit_look\<close> marks a look for the Quit button, which only the teardown does.
\<close>

definition cs2_action :: "action \<Rightarrow> bool" where
  "cs2_action a = (case a of Popen _ \<Rightarrow> False | WriteFile _ \<Rightarrow> False | _ \<Rightarrow> True)"

definition quit_look :: "action \<Rightarrow> bool" where
  "quit_look a = (case a of Detect n _ \<Rightarrow> n = ''quit_button.png'' | _ \<Rightarrow> False)"

section \<open>Lemmas: the frames of the CS2 methods\<close>

lemma cfg_template_timeout: "cfg_get CONFIG ''template_timeout'' (CInt 40) = CInt 30"
  by (simp add: cfg_get_def CONFIG_def)

lemma cs2_focus_bstep:
  assumes "\<And>t. P (Activate t)"
  shows "bstep P cs2_focus_game_window" "keeps_duration cs2_focus_game_window"
proof -
  have "adv P (\<lambda>s. focus_window (window_title s) s)"
    using assms by (intro advI) (metis adv_focus_window advD prod.collapse)
  then show "bstep P cs2_focus_game_window" "keeps_duration cs2_focus_game_window"
    unfolding cs2_focus_game_window_def by blast+
qed

lemma cs2_wait_until_ready_bstep:
  assumes "\<And>k n. P (Press k n)" "\<And>b. P (Detect ''play_tab.png'' b)"
  shows "bstep P cs2_wait_until_ready" "keeps_duration cs2_wait_until_ready"
proof -
  have "adv P (\<lambda>s. case press_key ''esc'' 3 s of (_, s1) \<Rightarrow> wait_for_template ''play_tab.png'' 30 s1)"
    using assms by (intro adv_intros)
  then show "bstep P cs2_wait_until_ready" "keeps_duration cs2_wait_until_ready"
    unfolding cs2_wait_until_ready_def cfg_template_timeout by auto
qed

lemma cs2_navigate_bstep:
  assumes "\<And>x y. P (Click x y)"
    "\<And>n b. n \<in> {''play_tab.png'', ''workshop_tab.png'', ''cs2_fps_benchmark.png''} \<Longrightarrow> P (Detect n b)"
  shows "bstep P cs2_navigate_to_benchmark" "keeps_duration cs2_navigate_to_benchmark"
proof -
  have "adv P (\<lambda>s. case click_template_with_retry ''play_tab.png'' 3 default_kwargs s of
       (False, s1) \<Rightarrow> (False, s1)
     | (True, s1) \<Rightarrow>
         (case wait_for_template ''workshop_tab.png'' 20 s1 of
           (False, s2) \<Rightarrow> (False, s2)
         | (True, s2) \<Rightarrow>
             (case click_template_default ''workshop_tab.png'' s2 of
               (_, s3) \<Rightarrow>
                 (case wait_for_template ''cs2_fps_benchmark.png'' 20 s3 of
                   (False, s4) \<Rightarrow> (False, s4)
                 | (True, s4) \<Rightarrow>
                     (case click_template_default ''cs2_fps_benchmark.png'' s4 of
                       (_, s5) \<Rightarrow> (True, s5))))))"
    using assms by (intro adv_bind adv_case_bool adv_return adv_click_template_with_retry
        adv_wait_for_template adv_click_template) simp_all
  then show "bstep P cs2_navigate_to_benchmark" "keeps_duration cs2_navigate_to_benchmark"
    unfolding cs2_navigate_to_benchmark_def by blast+
qed

lemma cs2_start_step:
  assumes "\<And>x y. P (Click x y)" "\<And>b. P (Detect ''go_button.png'' b)"
    "\<And>b. P (Detect ''benchmark_first_frame.png'' b)"
  shows "bench_step P s (snd (cs2_start_benchmark s)) \<and> duration (snd (cs2_start_benchmark s)) = duration s"
proof -
  obtain b1 s1 where w1: "wait_for_template ''go_button.png'' 15 s = (b1, s1)" by fastforce
  have a1: "advances P s s1" using w1 assms(2) by (blast intro: advD adv_wait_for_template)
  obtain b2 s2 where c2: "click_template_default ''go_button.png'' s1 = (b2, s2)" by fastforce
  have a2: "advances P s s2" using a1 c2 assms(1,2) by (blast intro: advances_step adv_click_template)
  obtain b3 s3 where w3: "wait_for_template ''benchmark_first_frame.png'' 20 s2 = (b3, s3)" by fastforce
  have a3: "advances P s s3" using a2 w3 assms(3) by (blast intro: advances_step adv_wait_for_template)
  have "bench_step P s s1" "bench_step P s s3" using a1 a3 by (simp_all add: advances_bench_step)
  moreover have "duration s1 = duration s" "duration s3 = duration s" using a1 a3 by (simp_all add: advances_duration)
  ultimately show ?thesis using w1 c2 w3
    by (cases b1; cases b3) (auto simp: cs2_start_benchmark_def lift_def)
qed

lemma cs2_start_bstep:
  assumes "\<And>x y. P (Click x y)" "\<And>b. P (Detect ''go_button.png'' b)"
    "\<And>b. P (Detect ''benchmark_first_frame.png'' b)"
  shows "bstep P cs2_start_benchmark" "keeps_duration cs2_start_benchmark"
  using cs2_start_step [OF assms] unfolding rel_pres_def by blast+


text \<open>
  \<open>collect_results(i)\<close> stays within the frame; only run 0 sets the duration, and a
  raise leaves it alone; a returned result is tagged with run \<open>i\<close> and carries the
  duration held afterwards.
\<close>

lemma cs2_collect_step:
  assumes atoms: "\<And>b. P (Detect ''benchmark_end_screen.png'' b)" "\<And>p. P (Screenshot p)"
    and run: "cs2_collect_results i s = (r, s')"
  shows "bench_step P s s'" "i \<noteq> 0 \<Longrightarrow> duration s' = duration s"
    "\<forall>x. r = Inr (Some x) \<longrightarrow> r_run_id x = i \<and> r_duration x = duration s'"
    "\<forall>e. r = Inl e \<longrightarrow> duration s' = duration s"
proof -
  have shot: "bench_step P w (snd (take_screenshot f w)) \<and> duration (snd (take_screenshot f w)) = duration w"
    for w :: "'a bench_scheme" and f
  proof -
    have "advances P w (snd (take_screenshot f w))"
      using atoms(2) by (metis adv_take_screenshot advD prod.collapse)
    then show ?thesis by (simp add: advances_bench_step advances_duration)
  qed
  have pt: "bench_step P w (pass_time d w) \<and> duration (pass_time d w) = duration w"
    if "0 \<le> d" for w :: "'a bench_scheme" and d
    using that by (simp add: advances_bench_step advances_pass_time)
  have "bench_step P s s' \<and> (i \<noteq> 0 \<longrightarrow> duration s' = duration s) \<and>
    (\<forall>x. r = Inr (Some x) \<longrightarrow> r_run_id x = i \<and> r_duration x = duration s') \<and>
    (\<forall>e. r = Inl e \<longrightarrow> duration s' = duration s)"
  proof (cases "i = 0")
    case True
    obtain b1 s1 where w1: "wait_for_template ''benchmark_end_screen.png'' 124 s = (b1, s1)" by fastforce
    have a1: "advances P s s1" using w1 atoms(1) by (blast intro: advD adv_wait_for_template)
    then have b1: "bench_step P s s1" "duration s1 = duration s"
      by (simp_all add: advances_bench_step advances_duration)
    let ?s2 = "s1\<lparr>end_time := Some (clock s1)\<rparr>"
    have b2: "bench_step P s ?s2" using b1 by blast
    show ?thesis
    proof (cases "b1 \<and> start_time s1 \<noteq> None")
      case False
      then show ?thesis using True run w1 b1 b2
        by (cases b1) (auto simp: cs2_collect_results_def Let_def)
    next
      case bst: True
      then obtain st where st: "b1" "start_time s1 = Some st" by blast
      let ?s3 = "pass_time 12 (?s2\<lparr>duration := Some (clock s1 - st)\<rparr>)"
      have b3: "bench_step P s ?s3" "duration ?s3 = Some (clock s1 - st)"
        using b2 pt [of 12 "?s2\<lparr>duration := Some (clock s1 - st)\<rparr>"]
        by (auto intro: bench_step_trans)
      obtain sh s4 where sh: "take_screenshot (Some (shot_name i (stamp ?s3 (clock ?s3)))) ?s3 = (sh, s4)"
        by fastforce
      have b4: "bench_step P s s4" "duration s4 = Some (clock s1 - st)"
        using shot [of ?s3 "Some (shot_name i (stamp ?s3 (clock ?s3)))"] sh b3
        by (auto intro: bench_step_trans)
      have "r = Inr (Some ((new_result (game_id s) i s)\<lparr>r_duration := Some (clock s1 - st),
               r_screenshot_path := sh\<rparr>))" "s' = s4"
        using True run w1 st sh by (simp_all add: cs2_collect_results_def Let_def)
      then show ?thesis using b4 True by (simp add: new_result_def)
    qed
  next
    case False
    show ?thesis
    proof (cases "duration s")
      case None
      then show ?thesis using False run by (auto simp: cs2_collect_results_def)
    next
      case (Some known)
      show ?thesis
      proof (cases "known + 12 < 0")
        case True
        then show ?thesis using False Some run by (auto simp: cs2_collect_results_def sleep_def)
      next
        case nonneg: False
        let ?s1 = "pass_time (known + 12) s"
        have b1: "bench_step P s ?s1" "duration ?s1 = Some known"
          using pt [of "known + 12" s] nonneg Some by simp_all
        obtain sh s2 where sh: "take_screenshot (Some (shot_name i (stamp ?s1 (clock ?s1)))) ?s1 = (sh, s2)"
          by fastforce
        have b2: "bench_step P s s2" "duration s2 = Some known"
          using shot [of ?s1 "Some (shot_name i (stamp ?s1 (clock ?s1)))"] sh b1
          by (auto intro: bench_step_trans)
        have "r = Inr (Some ((new_result (game_id s) i s)\<lparr>r_screenshot_path := sh,
                 r_duration := Some known\<rparr>))" "s' = s2"
          using False Some nonneg run sh by (simp_all add: cs2_collect_results_def sleep_def)
        then show ?thesis using b2 Some by (simp add: new_result_def)
      qed
    qed
  qed
  then show "bench_step P s s'" "i \<noteq> 0 \<Longrightarrow> duration s' = duration s"
    "\<forall>x. r = Inr (Some x) \<longrightarrow> r_run_id x = i \<and> r_duration x = duration s'"
    "\<forall>e. r = Inl e \<longrightarrow> duration s' = duration s"
    by blast+
qed


text \<open>
  \<open>teardown()\<close> only acts on the world, and always looks for the Quit button once.
\<close>

lemma cs2_teardown_cases:
  fixes s :: "'a bench_scheme"
  obtains s4 bq where "advances (\<lambda>a. a \<noteq> Hotkey [''alt'', ''f4''] \<and> cs2_action a) s s4"
    "\<exists>b. trace s4 = trace s @ new_actions s s4 \<and> Detect ''quit_button.png'' b \<in> set (new_actions s s4)"
    "cs2_teardown s = (if bq then (Inr True, pass_time 5 (snd (click_template_default ''quit_button.png'' s4)))
       else if failsafe s4 then (Inl FailSafeException, s4)
       else (Inr True, pass_time 5 (emit (Hotkey [''alt'', ''f4'']) s4)))"
proof -
  let ?P = "\<lambda>a. a \<noteq> Hotkey [''alt'', ''f4''] \<and> cs2_action a"
  define s1 where "s1 = pass_time 10 s"
  define s2 where "s2 = pass_time 4 (snd (press_key ''`'' 1 s1))"
  obtain bp sp where wp: "wait_for_template ''power_button.png'' 10 s2 = (bp, sp)" by fastforce
  define s3 where "s3 = (if bp then pass_time 2 (snd (click_template_default ''power_button.png'' sp)) else sp)"
  obtain bq s4 where wq: "wait_for_template ''quit_button.png'' 10 s3 = (bq, s4)" by fastforce
  have a2: "advances ?P s s2"
    unfolding s1_def s2_def
    by (intro advances_pass_time_after advances_step_snd [OF _ adv_press_key]) (auto simp: cs2_action_def)
  have ap: "advances ?P s sp"
    using wp by (intro advances_step [OF a2 adv_wait_for_template]) (auto simp: cs2_action_def)
  have a3: "advances ?P s s3"
    unfolding s3_def using ap
    by (auto intro!: advances_pass_time_after advances_step_snd [OF _ adv_click_template] simp: cs2_action_def)
  have a4: "advances ?P s s4"
    using wq by (intro advances_step [OF a3 adv_wait_for_template]) (auto simp: cs2_action_def)
  obtain b where tq: "trace s4 = trace s3 @ [Detect ''quit_button.png'' b]"
    using trace_wait_for_template [of "''quit_button.png''" 10 s3] wq by (metis snd_conv)
  obtain ys where t3: "trace s3 = trace s @ ys" using advances_trace [OF a3] by blast
  have "trace s4 = trace s @ new_actions s s4 \<and> Detect ''quit_button.png'' b \<in> set (new_actions s s4)"
    using tq t3 by (simp add: new_actions_def)
  moreover have "cs2_teardown s = (if bq then (Inr True, pass_time 5 (snd (click_template_default ''quit_button.png'' s4)))
       else if failsafe s4 then (Inl FailSafeException, s4)
       else (Inr True, pass_time 5 (emit (Hotkey [''alt'', ''f4'']) s4)))"
    using wp wq by (cases bp; cases bq) (simp_all add: cs2_teardown_def s1_def s2_def s3_def Let_def)
  ultimately show ?thesis using a4 that by blast
qed


lemma cs2_teardown_advances:
  fixes s :: "'a bench_scheme"
  shows "advances cs2_action s (snd (cs2_teardown s))"
    "\<exists>a\<in>set (new_actions s (snd (cs2_teardown s))). quit_look a"
proof -
  obtain s4 bq where a4: "advances (\<lambda>a. a \<noteq> Hotkey [''alt'', ''f4''] \<and> cs2_action a) s s4"
    and q: "\<exists>b. trace s4 = trace s @ new_actions s s4 \<and> Detect ''quit_button.png'' b \<in> set (new_actions s s4)"
    and td: "cs2_teardown s = (if bq then (Inr True, pass_time 5 (snd (click_template_default ''quit_button.png'' s4)))
       else if failsafe s4 then (Inl FailSafeException, s4)
       else (Inr True, pass_time 5 (emit (Hotkey [''alt'', ''f4'']) s4)))"
    by (rule cs2_teardown_cases)
  have a: "advances cs2_action s s4" using a4 by (rule advances_mono) simp
  have a5: "advances cs2_action s4 (snd (cs2_teardown s))"
    unfolding td
    by (auto intro!: advances_pass_time_after advances_emit_after advances_step_snd [OF _ adv_click_template]
        simp: cs2_action_def)
  show "advances cs2_action s (snd (cs2_teardown s))" using a a5 by (rule advances_trans)
  obtain b where b: "Detect ''quit_button.png'' b \<in> set (new_actions s s4)"
    and t4: "trace s4 = trace s @ new_actions s s4" using q by blast
  obtain ys where "trace (snd (cs2_teardown s)) = trace s4 @ ys"
    using advances_trace [OF a5] by blast
  then have "new_actions s (snd (cs2_teardown s)) = new_actions s s4 @ ys"
    by (rule new_actions_trans [OF t4])
  moreover have "quit_look (Detect ''quit_button.png'' b)" by (simp add: quit_look_def)
  ultimately show "\<exists>a\<in>set (new_actions s (snd (cs2_teardown s))). quit_look a"
    using b by (intro bexI [of _ "Detect ''quit_button.png'' b"]) simp_all
qed


lemma cs2_collect_bstep:
  assumes "\<And>b. P (Detect ''benchmark_end_screen.png'' b)" "\<And>p. P (Screenshot p)"
  shows "bstep P (cs2_collect_results i)" "i \<noteq> 0 \<Longrightarrow> keeps_duration (cs2_collect_results i)"
  using cs2_collect_step(1,2) [OF assms(1,2) surjective_pairing]
  by (auto intro!: rel_presI)

section \<open>CS2Benchmark keeps the contracts of the lifecycle\<close>

lemma cs2_action_atoms:
  "cs2_action (Activate t)" "cs2_action (Press k n)" "cs2_action (Detect m b)" "cs2_action (Click x y)"
  "cs2_action (Screenshot p)" "cs2_action (Hotkey ks)" "cs2_action (Write txt)"
  by (simp_all add: cs2_action_def)

lemma cs2_ops_frame: "ops_frame cs2_action cs2_ops"
proof -
  note f = cs2_focus_bstep [of cs2_action, OF cs2_action_atoms(1)]
    and w = cs2_wait_until_ready_bstep [of cs2_action, OF cs2_action_atoms(2,3)]
    and n = cs2_navigate_bstep [of cs2_action, OF cs2_action_atoms(4,3)]
    and st = cs2_start_bstep [of cs2_action, OF cs2_action_atoms(4,3,3)]
    and c = cs2_collect_bstep [of cs2_action, OF cs2_action_atoms(3,5)]
  have td: "bstep cs2_action cs2_teardown" "keeps_duration cs2_teardown"
    using cs2_teardown_advances(1) by (blast intro: bstep_advances keeps_duration_advances)+
  show ?thesis unfolding ops_frame_def cs2_ops_def using f w n st c td by simp blast
qed

lemma cs2_collect_contract: "collect_contract cs2_ops"
proof -
  have "\<forall>i s x s'. cs2_collect_results i s = (Inr (Some x), s') \<longrightarrow> r_run_id x = i \<and> r_duration x = duration s'"
    using cs2_collect_step(3) [of "\<lambda>_. True", OF TrueI TrueI] by blast
  then show ?thesis by (simp add: collect_contract_def cs2_ops_def)
qed

lemma cs2_action_not_launch: "cs2_action a \<Longrightarrow> \<not> is_launch a"
  by (cases a) (simp_all add: cs2_action_def is_launch_def)

lemma cs2_collect_raise: "cs2_collect_results 0 s = (Inl e, s') \<Longrightarrow> duration s' = duration s"
  using cs2_collect_step(4) [of "\<lambda>_. True", OF TrueI TrueI] by blast

lemma no_quit_atoms:
  "\<not> quit_look (Activate t)" "\<not> quit_look (Press k n)" "\<not> quit_look (Click x y)"
  "\<not> quit_look (Screenshot p)"
  "m \<noteq> ''quit_button.png'' \<Longrightarrow> \<not> quit_look (Detect m b)"
  "m \<in> {''play_tab.png'', ''workshop_tab.png'', ''cs2_fps_benchmark.png''} \<Longrightarrow> \<not> quit_look (Detect m b)"
  by (auto simp: quit_look_def)

lemma cs2_before_teardown_no_quit:
  "bstep (\<lambda>a. \<not> quit_look a) (prepare_run cs2_ops)"
  "bstep (\<lambda>a. \<not> quit_look a) (collect_results cs2_ops 0)"
proof -
  have launch: "bstep (\<lambda>a. \<not> quit_look a) launch"
    by (rule bstep_mono [OF launch_bstep]) (auto simp: is_launch_def quit_look_def split: action.splits)
  note f = cs2_focus_bstep(1) [of "\<lambda>a. \<not> quit_look a", OF no_quit_atoms(1)]
    and w = cs2_wait_until_ready_bstep(1) [of "\<lambda>a. \<not> quit_look a", OF no_quit_atoms(2) no_quit_atoms(5)]
    and n = cs2_navigate_bstep(1) [of "\<lambda>a. \<not> quit_look a", OF no_quit_atoms(3) no_quit_atoms(6)]
    and st = cs2_start_bstep(1) [of "\<lambda>a. \<not> quit_look a", OF no_quit_atoms(3) no_quit_atoms(5) no_quit_atoms(5)]
  show "bstep (\<lambda>a. \<not> quit_look a) (prepare_run cs2_ops)"
    unfolding prepare_run_def cs2_ops_def using f w n st
    by (intro bstep_bindx launch) simp_all
  show "bstep (\<lambda>a. \<not> quit_look a) (collect_results cs2_ops 0)"
    unfolding cs2_ops_def
    using cs2_collect_bstep(1) [of "\<lambda>a. \<not> quit_look a", OF no_quit_atoms(5) no_quit_atoms(4)] by simp
qed


lemma cs2_dry_contracts:
  "\<forall>a. is_launch a \<longrightarrow> \<not> quit_look a" "\<forall>p. \<not> quit_look (WriteFile p)"
  "\<forall>s e s'. collect_results cs2_ops 0 s = (Inl e, s') \<longrightarrow> duration s' = duration s"
  "\<forall>s x s'. teardown cs2_ops s = (x, s') \<longrightarrow> (\<exists>a\<in>set (new_actions s s'). quit_look a)"
proof -
  show "\<forall>a. is_launch a \<longrightarrow> \<not> quit_look a"
    by (auto simp: is_launch_def quit_look_def split: action.splits)
  show "\<forall>p. \<not> quit_look (WriteFile p)" by (simp add: quit_look_def)
  show "\<forall>s e s'. collect_results cs2_ops 0 s = (Inl e, s') \<longrightarrow> duration s' = duration s"
    using cs2_collect_raise by (simp add: cs2_ops_def) blast
  show "\<forall>s x s'. teardown cs2_ops s = (x, s') \<longrightarrow> (\<exists>a\<in>set (new_actions s s'). quit_look a)"
  proof (intro allI impI)
    fix s x s'
    assume "teardown cs2_ops s = (x, s')"
    then have "s' = snd (cs2_teardown s)" by (simp add: cs2_ops_def)
    then show "\<exists>a\<in>set (new_actions s s'). quit_look a" using cs2_teardown_advances(2) by simp
  qed
qed

section \<open>Lemmas: a performance run of CS2 returns\<close>

lemma cs2_prepare_ok:
  assumes "configs s = CONFIG"
  obtains b s1 where "prepare_run cs2_ops s = (Inr b, s1)"
    "bench_step (\<lambda>a. cs2_action a \<or> is_launch a) s s1" "duration s1 = duration s"
proof -
  have l: "launch s = (Inr (), pass_time 40 (emit (Popen (''steam://rungameid/'' @ game_id s)) s))"
    using assms by (intro launch_steam) (simp_all add: CONFIG_def cfg_get_def cfg_seconds_def)
  obtain b s1 where p: "prepare_run cs2_ops s = (Inr b, s1)"
    using l by (simp add: prepare_run_def cs2_ops_def cs2_focus_game_window_def cs2_wait_until_ready_def
        cs2_navigate_to_benchmark_def cs2_start_benchmark_def)
  show ?thesis
    using that [OF p] rel_presD [OF prepare_run_bstep(1) [OF cs2_ops_frame] p]
      rel_presD [OF prepare_run_bstep(2) [OF cs2_ops_frame] p] by simp
qed

lemma cs2_collect_perf:
  assumes "i \<noteq> 0" "duration s = Some d" "0 \<le> d"
  obtains x s' where "cs2_collect_results i s = (Inr (Some x), s')" "r_run_id x = i" "r_duration x = Some d"
proof -
  let ?s1 = "pass_time (d + 12) s"
  obtain sh s' where sh: "take_screenshot (Some (shot_name i (stamp ?s1 (clock ?s1)))) ?s1 = (sh, s')"
    by fastforce
  show ?thesis
    by (rule that [of "(new_result (game_id s) i s)\<lparr>r_screenshot_path := sh, r_duration := Some d\<rparr>" s'])
       (use assms sh in \<open>simp_all add: cs2_collect_results_def sleep_def new_result_def\<close>)
qed

lemma cs2_teardown_ok:
  assumes "\<not> failsafe s"
  obtains s' where "cs2_teardown s = (Inr True, s')"
proof -
  obtain s4 bq where a: "advances (\<lambda>a. a \<noteq> Hotkey [''alt'', ''f4''] \<and> cs2_action a) s s4"
    and td: "cs2_teardown s = (if bq then (Inr True, pass_time 5 (snd (click_template_default ''quit_button.png'' s4)))
       else if failsafe s4 then (Inl FailSafeException, s4)
       else (Inr True, pass_time 5 (emit (Hotkey [''alt'', ''f4'']) s4)))"
    by (rule cs2_teardown_cases)
  have "\<not> failsafe s4" using assms advancesD(3) [OF a] by simp
  then show ?thesis using td that by (cases bq) auto
qed


section \<open>Lemmas: the CS2 benchmark series\<close>

lemma cs2_init_fields:
  "configs (cs2_init w) = CONFIG" "results (cs2_init w) = []" "duration (cs2_init w) = None"
  "failsafe (cs2_init w) = failsafe w" "disk_ok (cs2_init w) = disk_ok w" "trace (cs2_init w) = trace w"
  "cfg_get CONFIG ''launcher'' (CStr ''steam'') = CStr ''steam''"
  by (simp_all add: cs2_init_def init_bench_def world.extend_def cfg_get_def CONFIG_def)

lemmas cs2_eval_simps = execute_benchmark_run_def run_body_def run_until_teardown_def cs2_ops_def
  cs2_init_def init_bench_def launch_def launch_steam_game_def cfg_get_def CONFIG_def cfg_seconds_def
  GAME_ID_def WINDOW_TITLE_def GAME_NAME_def sleep_def emit_def pass_time_def
  cs2_focus_game_window_def focus_window_def cs2_wait_until_ready_def press_key_def wait_for_template_def
  next_sighting_def cs2_navigate_to_benchmark_def click_template_with_retry_def click_template_def
  find_template_def cs2_start_benchmark_def cs2_collect_results_def log_measured_duration_def
  cs2_teardown_def record_result_def py_in.simps world.extend_def bindx_def lift_def ret_def click_def
  take_screenshot_def save_result_def new_result_def run_benchmark_series_def upto.simps Let_def
  default_kwargs_def

end
