(* ===== verification/Config_Patch.thy ===== *)
theory Config_Patch
  imports Katana_Prelude
begin

text \<open>
  The text patching of \<open>CS2PresetAdapter.apply_preset\<close>
  (\<open>src/katana/games/cs2/presets.py\<close>, lines 153 to 182): each setting of a preset is
  looked up in the video config with the regular expression \<open>"key"\s+"[^"]*"\<close> and
  replaced through \<open>re.sub\<close>, or added before every closing brace with
  \<open>str.replace\<close>. The theory holds the match of the pattern at a position
  (\<open>match_at\<close>), \<open>re.search\<close>, \<open>re.sub\<close> with Python's replacement template language,
  \<open>str.replace\<close> and the loop over the preset's settings.

  The key is pasted into the pattern unescaped: a dot in it is the wildcard of
  \<open>re\<close> (any character but a newline), every other character but the metacharacters
  of \<open>re\<close> is matched literally. Keys with other metacharacters (\<open>re_meta\<close>) are outside
  the model, and every theorem on the matcher assumes \<open>re_literal_key\<close> of its key.
\<close>

section \<open>Characters\<close>

abbreviation dquote :: char where "dquote \<equiv> CHR 0x22"
abbreviation bslash :: char where "bslash \<equiv> CHR 0x5C"
abbreviation tab :: char where "tab \<equiv> CHR 0x09"
abbreviation newline :: char where "newline \<equiv> CHR 0x0A"
abbreviation rbrace :: char where "rbrace \<equiv> CHR 0x7D"

definition py_isdigit :: "char \<Rightarrow> bool" where
  "py_isdigit c \<longleftrightarrow> 48 \<le> (of_char c :: nat) \<and> (of_char c :: nat) \<le> 57"

definition py_isoctdigit :: "char \<Rightarrow> bool" where
  "py_isoctdigit c \<longleftrightarrow> 48 \<le> (of_char c :: nat) \<and> (of_char c :: nat) \<le> 55"

definition digit_val :: "char \<Rightarrow> nat" where
  "digit_val c = of_char c - 48"

definition ascii_letter :: "char \<Rightarrow> bool" where
  "ascii_letter c \<longleftrightarrow> (let n = of_char c :: nat in (65 \<le> n \<and> n \<le> 90) \<or> (97 \<le> n \<and> n \<le> 122))"

text \<open>\<open>str.isidentifier\<close> on code points below 256 (letters of Latin-1 included).\<close>

definition id_start :: "char \<Rightarrow> bool" where
  "id_start c \<longleftrightarrow> ascii_letter c \<or> c = CHR ''_'' \<or>
     (let n = of_char c :: nat in n = 170 \<or> n = 181 \<or> n = 186 \<or> (192 \<le> n \<and> n \<le> 214) \<or>
        (216 \<le> n \<and> n \<le> 246) \<or> 248 \<le> n)"

definition py_isidentifier :: "string \<Rightarrow> bool" where
  "py_isidentifier s \<longleftrightarrow> s \<noteq> [] \<and> id_start (hd s) \<and> list_all (\<lambda>c. id_start c \<or> py_isdigit c) (tl s)"

section \<open>The setting pattern\<close>

text \<open>
  The metacharacters of \<open>re\<close> besides the dot. A key holding one of them turns the
  pattern into a different regular expression (a quantifier, a class, a group, an anchor,
  an alternation or an escape) or into a \<open>re.error\<close>; such keys are outside the model.
\<close>

definition re_meta :: "char \<Rightarrow> bool" where
  "re_meta c \<longleftrightarrow> c = bslash \<or> c \<in> set ''^$*+?{}[]|()''"

definition re_literal_key :: "string \<Rightarrow> bool" where
  "re_literal_key key \<longleftrightarrow> list_all (\<lambda>c. \<not> re_meta c) key"

text \<open>
  \<open>rf'"{key}"\s+"[^"]*"'\<close> for a key with \<open>re_literal_key\<close>: the key is pasted
  unescaped, so each of its dots is the wildcard of \<open>re\<close> (any character but a newline)
  and every other character matches itself. Python's backtracking matcher finds at most
  one match at a position, since the whitespace run and the value are greedy and each
  is followed by a quote that it cannot contain: \<open>key_match\<close> and \<open>match_at\<close> compute
  it in one pass.
\<close>

fun key_match :: "string \<Rightarrow> string \<Rightarrow> bool" where
  "key_match [] s = True"
| "key_match (k # ks) [] = False"
| "key_match (k # ks) (x # xs) = ((if k = CHR ''.'' then x \<noteq> newline else x = k) \<and> key_match ks xs)"

text \<open>The match of the setting pattern at the start of \<open>s\<close>, as its length.\<close>

definition match_at :: "string \<Rightarrow> string \<Rightarrow> nat option" where
  "match_at key s =
     (case s of
       q1 # t \<Rightarrow>
         if q1 = dquote \<and> key_match key t then
           (case drop (length key) t of
             q2 # u \<Rightarrow>
               (let ws = takeWhile py_isspace u; u2 = dropWhile py_isspace u in
                if q2 = dquote \<and> ws \<noteq> [] then
                  (case u2 of
                    q3 # u3 \<Rightarrow>
                      (let v = takeWhile (\<lambda>c. c \<noteq> dquote) u3; u4 = dropWhile (\<lambda>c. c \<noteq> dquote) u3 in
                       if q3 = dquote \<and> u4 \<noteq> [] then Some (length key + length ws + length v + 4) else None)
                  | [] \<Rightarrow> None)
                else None)
           | [] \<Rightarrow> None)
         else None
     | [] \<Rightarrow> None)"

text \<open>\<open>re.search(pattern, s)\<close>: the leftmost match, as its start and length.\<close>

fun re_search :: "string \<Rightarrow> string \<Rightarrow> (nat \<times> nat) option" where
  "re_search key [] = None"
| "re_search key (c # cs) =
     (case match_at key (c # cs) of
       Some n \<Rightarrow> Some (0, n)
     | None \<Rightarrow> map_option (\<lambda>(i, n). (Suc i, n)) (re_search key cs))"

section \<open>Replacement templates\<close>

text \<open>
  A parsed replacement template of \<open>re.sub\<close>: literal characters and references to
  the whole match (\<open>\g<0>\<close>); the pattern has no groups, so every other group
  reference is an error.
\<close>

datatype tpiece = TLit char | TMatch

definition escape_char :: "char \<Rightarrow> char option" where
  "escape_char c =
     (if c = CHR ''a'' then Some (CHR 0x07) else if c = CHR ''b'' then Some (CHR 0x08)
      else if c = CHR ''f'' then Some (CHR 0x0C) else if c = CHR ''n'' then Some newline
      else if c = CHR ''r'' then Some (CHR 0x0D) else if c = CHR ''t'' then Some tab
      else if c = CHR ''v'' then Some (CHR 0x0B) else if c = bslash then Some bslash else None)"

definition tcons :: "tpiece list \<Rightarrow> py_exc + tpiece list \<Rightarrow> py_exc + tpiece list" where
  "tcons ps r = (case r of Inl e \<Rightarrow> Inl e | Inr qs \<Rightarrow> Inr (ps @ qs))"

text \<open>
  \<open>re._parser.parse_template\<close> for a pattern without groups. The group name of
  \<open>\g<...>\<close> is read up to the first \<open>>\<close>.
\<close>

function parse_template :: "string \<Rightarrow> py_exc + tpiece list" where
  "parse_template [] = Inr []"
| "parse_template [c] =
     (if c = bslash then Inl (ReError ''bad escape (end of pattern)'') else Inr [TLit c])"
| "parse_template (c # d # rest) =
     (if c \<noteq> bslash then tcons [TLit c] (parse_template (d # rest))
      else if d = CHR ''g'' then
        (case rest of
          x # r2 \<Rightarrow>
            if x \<noteq> CHR ''<'' then Inl (ReError ''missing <'')
            else
              (let name = takeWhile (\<lambda>y. y \<noteq> CHR ''>'') r2; r3 = dropWhile (\<lambda>y. y \<noteq> CHR ''>'') r2 in
               if r3 = [] then Inl (ReError ''missing >, unterminated name'')
               else if name = [] then Inl (ReError ''missing group name'')
               else if list_all py_isdigit name then
                 (if list_all (\<lambda>y. y = CHR ''0'') name then tcons [TMatch] (parse_template (tl r3))
                  else Inl (ReError ''invalid group reference''))
               else if py_isidentifier name then Inl (IndexError ''unknown group name'')
               else Inl (ReError ''bad character in group name''))
        | [] \<Rightarrow> Inl (ReError ''missing <''))
      else if d = CHR ''0'' then
        (case rest of
          x # y # r2 \<Rightarrow>
            if py_isoctdigit x \<and> py_isoctdigit y
            then tcons [TLit (char_of (8 * digit_val x + digit_val y))] (parse_template r2)
            else if py_isoctdigit x then tcons [TLit (char_of (digit_val x))] (parse_template (y # r2))
            else tcons [TLit (CHR 0x00)] (parse_template (x # y # r2))
        | [x] \<Rightarrow>
            if py_isoctdigit x then Inr [TLit (char_of (digit_val x))] else tcons [TLit (CHR 0x00)] (parse_template [x])
        | [] \<Rightarrow> Inr [TLit (CHR 0x00)])
      else if py_isdigit d then
        (case rest of
          x # y # r2 \<Rightarrow>
            if py_isoctdigit d \<and> py_isoctdigit x \<and> py_isoctdigit y then
              (let v = 64 * digit_val d + 8 * digit_val x + digit_val y in
               if v > 255 then Inl (ReError ''octal escape value outside of range 0-0o377'')
               else tcons [TLit (char_of v)] (parse_template r2))
            else Inl (ReError ''invalid group reference'')
        | _ \<Rightarrow> Inl (ReError ''invalid group reference''))
      else
        (case escape_char d of
          Some e \<Rightarrow> tcons [TLit e] (parse_template rest)
        | None \<Rightarrow>
            if ascii_letter d then Inl (ReError ''bad escape'')
            else tcons [TLit bslash, TLit d] (parse_template rest)))"
  by pat_completeness auto

termination
  by (relation "measure length") (auto, metis diff_le_self le_imp_less_Suc length_dropWhile_le less_SucI order.trans)

definition expand :: "tpiece list \<Rightarrow> string \<Rightarrow> string" where
  "expand ps m = concat (map (\<lambda>p. case p of TLit c \<Rightarrow> [c] | TMatch \<Rightarrow> m) ps)"

section \<open>re.sub and str.replace\<close>

text \<open>
  The scan of \<open>re.sub\<close>: every non-overlapping match, from left to right, is replaced
  by the expanded template. The setting pattern never matches the empty string, so the
  scan moves forward at every step.
\<close>

function sub_scan :: "string \<Rightarrow> tpiece list \<Rightarrow> string \<Rightarrow> string" where
  "sub_scan key ps s =
     (case match_at key s of
       Some n \<Rightarrow> (if n = 0 then s else expand ps (take n s) @ sub_scan key ps (drop n s))
     | None \<Rightarrow> (case s of [] \<Rightarrow> [] | c # cs \<Rightarrow> c # sub_scan key ps cs))"
  by pat_completeness auto

termination
proof (relation "measure (\<lambda>(key, ps, s). length s)")
  fix key ps s n
  assume "match_at key s = Some n" "n \<noteq> 0"
  moreover have "match_at key s = Some n \<Longrightarrow> s \<noteq> []"
    by (auto simp: match_at_def split: list.splits)
  ultimately show "((key, ps, drop n s), key, ps, s) \<in> measure (\<lambda>(key, ps, s). length s)"
    by simp
qed auto

declare sub_scan.simps [simp del]

text \<open>\<open>re.sub(pattern, repl, s)\<close>: the template is parsed before the scan.\<close>

definition re_sub :: "string \<Rightarrow> string \<Rightarrow> string \<Rightarrow> py_exc + string" where
  "re_sub key repl s = (case parse_template repl of Inl e \<Rightarrow> Inl e | Inr ps \<Rightarrow> Inr (sub_scan key ps s))"

text \<open>\<open>s.replace(c, new)\<close> for a one-character \<open>c\<close>: every occurrence is replaced.\<close>

definition py_replace_char :: "char \<Rightarrow> string \<Rightarrow> string \<Rightarrow> string" where
  "py_replace_char c new s = concat (map (\<lambda>x. if x = c then new else [x]) s)"

section \<open>The settings loop of apply_preset\<close>

text \<open>A value of a preset's JSON: \<open>str()\<close> of it, with booleans written as 1 and 0.\<close>

datatype pval = PBool bool | PInt int | PStr string | PNull

fun pval_str :: "pval \<Rightarrow> string" where
  "pval_str (PBool b) = (if b then ''1'' else ''0'')"
| "pval_str (PInt i) = py_str_int i"
| "pval_str (PStr s) = s"
| "pval_str PNull = ''None''"

text \<open>\<open>f'"{key}"\t\t"{value}"'\<close>.\<close>

definition setting_line :: "string \<Rightarrow> string \<Rightarrow> string" where
  "setting_line key v = [dquote] @ key @ [dquote, tab, tab, dquote] @ v @ [dquote]"

text \<open>
  One pass of the loop: the content so far and the number of settings applied. The
  current value is compared with the first match only; a difference replaces every
  match. A missing setting is added before every closing brace.
\<close>

definition apply_setting :: "string \<times> pval \<Rightarrow> string \<times> nat \<Rightarrow> py_exc + string \<times> nat" where
  "apply_setting kv acc =
     (case kv of (key, val) \<Rightarrow> case acc of (content, applied) \<Rightarrow>
       if key = ''name'' \<or> key = ''description'' then Inr (content, applied)
       else
         (let r = setting_line key (pval_str val) in
          case re_search key content of
            Some (i, n) \<Rightarrow>
              if take n (drop i content) \<noteq> r then
                (case re_sub key r content of
                  Inl e \<Rightarrow> Inl e
                | Inr content' \<Rightarrow> Inr (content', applied + 1))
              else Inr (content, applied)
          | None \<Rightarrow> Inr (py_replace_char rbrace ([tab] @ r @ [newline, rbrace]) content, applied + 1)))"

fun apply_settings :: "(string \<times> pval) list \<Rightarrow> string \<times> nat \<Rightarrow> py_exc + string \<times> nat" where
  "apply_settings [] acc = Inr acc"
| "apply_settings (kv # kvs) acc =
     (case apply_setting kv acc of Inl e \<Rightarrow> Inl e | Inr acc' \<Rightarrow> apply_settings kvs acc')"

text \<open>
  \<open>get_setting key s\<close>: the value the first match of the setting pattern holds, the
  text between its last two quotes.
\<close>

definition get_setting :: "string \<Rightarrow> string \<Rightarrow> string option" where
  "get_setting key s =
     (case re_search key s of
       None \<Rightarrow> None
     | Some (i, n) \<Rightarrow> Some (rev (takeWhile (\<lambda>c. c \<noteq> dquote) (tl (rev (take n (drop i s)))))))"

text \<open>
  The keys and values for which the patcher is shown to round-trip: a key without
  quotes, whitespace or metacharacters of \<open>re\<close> (the dot included), and a value without
  quotes or backslashes.
\<close>

definition plain_key :: "string \<Rightarrow> bool" where
  "plain_key key \<longleftrightarrow>
     list_all (\<lambda>c. c \<noteq> dquote \<and> c \<noteq> CHR ''.'' \<and> \<not> re_meta c \<and> \<not> py_isspace c) key"

definition safe_value :: "string \<Rightarrow> bool" where
  "safe_value v \<longleftrightarrow> list_all (\<lambda>c. c \<noteq> dquote \<and> c \<noteq> bslash) v"

section \<open>Lemmas: the single-pass matcher implements the pattern\<close>

lemma not_isspace_dquote [simp]: "\<not> py_isspace dquote"
  by (simp add: py_isspace_def)

lemma key_match_iff: "key_match key t \<longleftrightarrow> length key \<le> length t \<and>
    list_all2 (\<lambda>k x. if k = CHR ''.'' then x \<noteq> newline else x = k) key (take (length key) t)"
proof (induction key arbitrary: t)
  case Nil
  then show ?case by simp
next
  case (Cons k ks)
  then show ?case by (cases t) auto
qed

lemma key_match_append: "length k' = length key \<Longrightarrow> key_match key (k' @ t) = key_match key k'"
  by (simp add: key_match_iff)

lemma key_match_self: "key_match key key"
  by (induction key) auto

lemma key_match_plain: "CHR ''.'' \<notin> set key \<Longrightarrow> length k' = length key \<Longrightarrow> key_match key k' \<longleftrightarrow> k' = key"
proof
  assume nd: "CHR ''.'' \<notin> set key" and l: "length k' = length key" and km: "key_match key k'"
  show "k' = key"
  proof (rule nth_equalityI)
    show "length k' = length key" by (rule l)
    fix i assume i: "i < length k'"
    then have "key ! i \<noteq> CHR ''.''" using nd l nth_mem by fastforce
    moreover have "if key ! i = CHR ''.'' then k' ! i \<noteq> newline else k' ! i = key ! i"
      using km l i by (simp add: key_match_iff list_all2_conv_all_nth)
    ultimately show "k' ! i = key ! i" by simp
  qed
next
  assume "k' = key"
  then show "key_match key k'" by (simp add: key_match_self)
qed

text \<open>A match of the setting pattern, taken apart.\<close>

lemma match_at_Some_iff:
  "match_at key s = Some n \<longleftrightarrow>
   (\<exists>k' ws v rest. s = [dquote] @ k' @ [dquote] @ ws @ [dquote] @ v @ [dquote] @ rest \<and>
      length k' = length key \<and> key_match key k' \<and> ws \<noteq> [] \<and> list_all py_isspace ws \<and>
      dquote \<notin> set v \<and> n = length key + length ws + length v + 4)"
  (is "?l \<longleftrightarrow> ?r")
proof
  assume l: ?l
  obtain q1 t where s: "s = q1 # t" using l by (cases s) (simp_all add: match_at_def)
  have h1: "q1 = dquote" "key_match key t" using l s by (simp_all add: match_at_def split: if_splits)
  obtain q2 u where u: "drop (length key) t = q2 # u"
    using l s h1 by (cases "drop (length key) t") (simp_all add: match_at_def)
  have h2: "q2 = dquote" "takeWhile py_isspace u \<noteq> []"
    using l s h1 u by (simp_all add: match_at_def Let_def split: if_splits)
  obtain q3 u3 where u3: "dropWhile py_isspace u = q3 # u3"
    using l s h1 h2 u by (cases "dropWhile py_isspace u") (simp_all add: match_at_def Let_def del: dropWhile_eq_Nil_conv)
  have h3: "q3 = dquote" "dropWhile (\<lambda>c. c \<noteq> dquote) u3 \<noteq> []"
    and n: "n = length key + length (takeWhile py_isspace u) + length (takeWhile (\<lambda>c. c \<noteq> dquote) u3) + 4"
    using l s h1 h2 u u3 by (simp_all add: match_at_def Let_def split: if_splits del: dropWhile_eq_Nil_conv)
  obtain q4 u4 where u4: "dropWhile (\<lambda>c. c \<noteq> dquote) u3 = q4 # u4"
    using h3(2) by (cases "dropWhile (\<lambda>c. c \<noteq> dquote) u3") simp_all
  have q4: "q4 = dquote" using u4 by (simp add: dropWhile_eq_Cons_conv)
  have len: "length key \<le> length t" using h1(2) by (simp add: key_match_iff)
  let ?k' = "take (length key) t" and ?ws = "takeWhile py_isspace u"
    and ?v = "takeWhile (\<lambda>c. c \<noteq> dquote) u3"
  have "t = ?k' @ dquote # u" using u h2(1) by (metis append_take_drop_id)
  moreover have "u = ?ws @ dquote # u3" using u3 h3(1) by (metis takeWhile_dropWhile_id)
  moreover have "u3 = ?v @ dquote # u4" using u4 q4 by (metis takeWhile_dropWhile_id)
  moreover have "key_match key ?k'"
    using h1(2) len key_match_append [of ?k' key "drop (length key) t"] by simp
  moreover have "list_all py_isspace ?ws" "dquote \<notin> set ?v"
    by (auto simp: list_all_iff dest: set_takeWhileD)
  ultimately show ?r
    using s h1(1) n h2(2) len
    by (intro exI [of _ ?k'] exI [of _ ?ws] exI [of _ ?v] exI [of _ u4]) simp
next
  assume ?r
  then obtain k' ws v rest where s: "s = [dquote] @ k' @ [dquote] @ ws @ [dquote] @ v @ [dquote] @ rest"
    and k: "length k' = length key" "key_match key k'" and ws: "ws \<noteq> []" "list_all py_isspace ws"
    and v: "dquote \<notin> set v" and n: "n = length key + length ws + length v + 4" by blast
  have tw: "takeWhile py_isspace (ws @ dquote # v @ dquote # rest) = ws"
    "dropWhile py_isspace (ws @ dquote # v @ dquote # rest) = dquote # v @ dquote # rest"
    using ws(2) by (simp_all add: list_all_iff takeWhile_append dropWhile_append)
  have tv: "takeWhile (\<lambda>c. c \<noteq> dquote) (v @ dquote # rest) = v"
    "dropWhile (\<lambda>c. c \<noteq> dquote) (v @ dquote # rest) = dquote # rest"
    using v by (auto simp: takeWhile_append dropWhile_append)
  show ?l
    using s k ws n tw tv by (simp add: match_at_def key_match_append Let_def)
qed

section \<open>Lemmas: re.search, re.sub and the read-back of a setting\<close>

lemma re_search_Some_iff:
  "re_search key s = Some (i, n) \<longleftrightarrow>
     i < length s \<and> match_at key (drop i s) = Some n \<and> (\<forall>j<i. match_at key (drop j s) = None)"
proof (induction s arbitrary: i)
  case Nil
  then show ?case by simp
next
  case (Cons c cs)
  show ?case
  proof (cases "match_at key (c # cs)")
    case (Some m)
    then show ?thesis by (cases i) auto
  next
    case None
    show ?thesis
    proof (cases i)
      case 0
      then show ?thesis using None by (auto split: option.splits)
    next
      case (Suc i')
      have "(\<forall>j<Suc i'. match_at key (drop j (c # cs)) = None) \<longleftrightarrow>
            (\<forall>j<i'. match_at key (drop j cs) = None)"
        using None by (auto simp: less_Suc_eq_0_disj)
      then show ?thesis using None Suc Cons.IH [of i'] by (auto split: option.splits)
    qed
  qed
qed

lemma re_search_None_iff: "re_search key s = None \<longleftrightarrow> (\<forall>j<length s. match_at key (drop j s) = None)"
proof (induction s)
  case Nil
  then show ?case by simp
next
  case (Cons c cs)
  then show ?case by (auto simp: less_Suc_eq_0_disj split: option.splits)
qed

lemma match_at_pos: "match_at key s = Some n \<Longrightarrow> 4 \<le> n \<and> n \<le> length s"
  by (auto simp: match_at_Some_iff)

lemma match_at_prefix:
  assumes "match_at key s = Some n"
  shows "match_at key (take n s @ t) = Some n"
proof -
  obtain k' ws v rest where s: "s = [dquote] @ k' @ [dquote] @ ws @ [dquote] @ v @ [dquote] @ rest"
    and c: "length k' = length key" "key_match key k'" "ws \<noteq> []" "list_all py_isspace ws"
      "dquote \<notin> set v" and n: "n = length key + length ws + length v + 4"
    using assms by (auto simp: match_at_Some_iff)
  define x where "x = [dquote] @ k' @ [dquote] @ ws @ [dquote] @ v @ [dquote]"
  have "length x = n" using n c(1) by (simp add: x_def)
  moreover have "s = x @ rest" using s by (simp add: x_def)
  ultimately have "take n s = x" by (metis append_eq_conv_conj)
  then have "take n s @ t = [dquote] @ k' @ [dquote] @ ws @ [dquote] @ v @ [dquote] @ t"
    by (simp add: x_def)
  then show ?thesis unfolding match_at_Some_iff using c n by blast
qed

lemma sub_scan_match:
  "match_at key s = Some n \<Longrightarrow> sub_scan key ps s = expand ps (take n s) @ sub_scan key ps (drop n s)"
  using match_at_pos [of key s n] by (simp add: sub_scan.simps [of key ps s])

lemma sub_scan_skip:
  "\<forall>j<length a. match_at key (drop j (a @ t)) = None \<Longrightarrow> sub_scan key ps (a @ t) = a @ sub_scan key ps t"
proof (induction a)
  case Nil
  then show ?case by simp
next
  case (Cons c a)
  have "match_at key (c # a @ t) = None" using Cons.prems by (metis drop0 length_Cons zero_less_Suc append_Cons)
  moreover have "\<forall>j<length a. match_at key (drop j (a @ t)) = None"
    using Cons.prems by (metis Suc_mono drop_Suc_Cons length_Cons append_Cons)
  ultimately show ?case using Cons.IH by (simp add: sub_scan.simps [of key ps "c # a @ t"])
qed

lemma parse_template_plain: "bslash \<notin> set r \<Longrightarrow> parse_template r = Inr (map TLit r)"
proof (induction r rule: parse_template.induct)
  case (3 c d rest)
  then have c: "c \<noteq> bslash" and r: "bslash \<notin> set (d # rest)" by auto
  then have "parse_template (d # rest) = Inr (map TLit (d # rest))" using "3.IH"(1) by blast
  then show ?case using c by (simp add: tcons_def)
qed simp_all

lemma expand_plain: "expand (map TLit r) m = r"
  by (induction r) (simp_all add: expand_def)


lemma split_at_quote:
  assumes "q \<notin> set u" and "a @ q # b = u @ q # c"
  shows "(a = u \<and> b = c) \<or> (\<exists>a'. a = u @ q # a' \<and> a' @ q # b = c)"
  using assms
proof (induction u arbitrary: a)
  case Nil
  then show ?case by (cases a) auto
next
  case (Cons x u)
  then show ?case by (cases a) auto
qed

lemma match_at_plain_iff:
  assumes "plain_key key"
  shows "match_at key s = Some n \<longleftrightarrow>
   (\<exists>ws v rest. s = dquote # key @ dquote # ws @ dquote # v @ dquote # rest \<and>
      ws \<noteq> [] \<and> list_all py_isspace ws \<and> dquote \<notin> set v \<and> n = length key + length ws + length v + 4)"
proof
  have nd: "CHR ''.'' \<notin> set key" using assms by (auto simp: plain_key_def list_all_iff)
  assume "match_at key s = Some n"
  then obtain k' ws v rest where s: "s = [dquote] @ k' @ [dquote] @ ws @ [dquote] @ v @ [dquote] @ rest"
    and c: "length k' = length key" "key_match key k'" "ws \<noteq> []" "list_all py_isspace ws"
      "dquote \<notin> set v" "n = length key + length ws + length v + 4"
    unfolding match_at_Some_iff by blast
  have "k' = key" using c(1,2) key_match_plain [OF nd] by blast
  then show "\<exists>ws v rest. s = dquote # key @ dquote # ws @ dquote # v @ dquote # rest \<and>
      ws \<noteq> [] \<and> list_all py_isspace ws \<and> dquote \<notin> set v \<and> n = length key + length ws + length v + 4"
    using s c by auto
next
  assume "\<exists>ws v rest. s = dquote # key @ dquote # ws @ dquote # v @ dquote # rest \<and>
      ws \<noteq> [] \<and> list_all py_isspace ws \<and> dquote \<notin> set v \<and> n = length key + length ws + length v + 4"
  then obtain ws v rest where s: "s = dquote # key @ dquote # ws @ dquote # v @ dquote # rest"
    and c: "ws \<noteq> []" "list_all py_isspace ws" "dquote \<notin> set v" "n = length key + length ws + length v + 4"
    by blast
  show "match_at key s = Some n"
    unfolding match_at_Some_iff
    by (intro exI [of _ key] exI [of _ ws] exI [of _ v] exI [of _ rest]) (simp add: s c key_match_self)
qed


text \<open>
  Replacing the first match by a fresh setting line creates no match further left:
  a match that reached into the line would, by the positions of its quotes, end
  within the line's \<open>"key"\<close>, which the old match began with as well.
\<close>

lemma no_match_before_line:
  assumes pk: "plain_key key" and sv: "safe_value v"
    and old: "\<forall>j<length a. match_at key (drop j (a @ m @ R)) = None"
    and mm: "match_at key (m @ R) = Some (length m)"
    and j: "j < length a"
  shows "match_at key (drop j (a @ setting_line key v @ R')) = None"
proof (rule ccontr)
  let ?q = dquote
  have kq: "?q \<notin> set key" and ksp: "\<forall>c\<in>set key. \<not> py_isspace c"
    using pk by (auto simp: plain_key_def list_all_iff)
  obtain wsm vm rm where mR: "m @ R = ?q # key @ ?q # wsm @ ?q # vm @ ?q # rm"
    and lm: "length m = length key + length wsm + length vm + 4"
    using mm match_at_plain_iff [OF pk, of "m @ R" "length m"] by blast
  define wm where "wm = wsm @ ?q # vm @ [?q]"
  have "m @ R = (?q # key @ ?q # wm) @ rm" using mR by (simp add: wm_def)
  moreover have "length (?q # key @ ?q # wm) = length m" using lm by (simp add: wm_def)
  ultimately have m: "m = ?q # key @ ?q # wm" by (metis append_eq_append_conv)
  define A where "A = drop j a"
  have A: "A \<noteq> []" "drop j (a @ m @ R) = A @ m @ R" "drop j (a @ setting_line key v @ R') = A @ setting_line key v @ R'"
    using j by (simp_all add: A_def)
  have oldj: "match_at key (A @ m @ R) = None" using old j A(2) by metis
  assume "match_at key (drop j (a @ setting_line key v @ R')) \<noteq> None"
  then obtain n' where "match_at key (A @ setting_line key v @ R') = Some n'" using A(3) by auto
  then obtain ws v' rest where e: "A @ setting_line key v @ R' = ?q # key @ ?q # ws @ ?q # v' @ ?q # rest"
    and ws: "ws \<noteq> []" "list_all py_isspace ws" and v': "?q \<notin> set v'"
    using match_at_plain_iff [OF pk] by blast
  obtain A' where A': "A = ?q # A'" using A(1) e by (cases A) auto
  have e2: "A' @ ?q # (key @ ?q # tab # tab # ?q # v @ ?q # R') = key @ ?q # (ws @ ?q # v' @ ?q # rest)"
    using e A' by (simp add: setting_line_def)
  have "\<exists>ws v' rest. A @ m @ R = ?q # key @ ?q # ws @ ?q # v' @ ?q # rest \<and>
      ws \<noteq> [] \<and> list_all py_isspace ws \<and> ?q \<notin> set v'"
  proof (cases "A' = key")
    case True
    then have "key @ ?q # tab # tab # ?q # v @ ?q # R' = ws @ ?q # v' @ ?q # rest" using e2 by simp
    then have False using ws ksp by (cases ws; cases key) auto
    then show ?thesis ..
  next
    case False
    then obtain a1 where a1: "A' = key @ ?q # a1" and e3: "a1 @ ?q # key @ ?q # tab # tab # ?q # v @ ?q # R' =
        ws @ ?q # v' @ ?q # rest"
      using split_at_quote [OF kq e2] by auto
    have wq: "?q \<notin> set ws" using ws(2) by (auto simp: list_all_iff)
    show ?thesis
    proof (cases "a1 = ws")
      case True
      then have "key @ ?q # tab # tab # ?q # v @ ?q # R' = v' @ ?q # rest" using e3 by simp
      then have "v' = key \<or> (\<exists>a'. key = v' @ ?q # a')"
        using split_at_quote [OF v', of key "tab # tab # ?q # v @ ?q # R'" rest] by blast
      then have "v' = key" using kq by auto
      then have "A @ m @ R = ?q # key @ ?q # ws @ ?q # v' @ ?q # wm @ R"
        using A' a1 True m by simp
      then show ?thesis using ws v' by blast
    next
      case False
      then obtain a2 where a2: "a1 = ws @ ?q # a2" and e4: "a2 @ ?q # key @ ?q # tab # tab # ?q # v @ ?q # R' =
          v' @ ?q # rest"
        using split_at_quote [OF wq e3] by auto
      show ?thesis
      proof (cases "a2 = v'")
        case True
        then have "A @ m @ R = ?q # key @ ?q # ws @ ?q # v' @ ?q # key @ ?q # wm @ R"
          using A' a1 a2 m by simp
        then show ?thesis using ws v' by blast
      next
        case False
        then obtain a3 where "a2 = v' @ ?q # a3" using split_at_quote [OF v' e4] by auto
        then have "A @ m @ R = ?q # key @ ?q # ws @ ?q # v' @ ?q # a3 @ m @ R"
          using A' a1 a2 by simp
        then show ?thesis using ws v' by blast
      qed
    qed
  qed
  then have "match_at key (A @ m @ R) \<noteq> None"
    using match_at_plain_iff [OF pk, of "A @ m @ R"] by blast
  then show False using oldj by simp
qed


lemma py_isspace_tab [simp]: "py_isspace tab"
  by (simp add: py_isspace_def)

lemma setting_line_match:
  assumes "plain_key key" "safe_value v"
  shows "match_at key (setting_line key v @ t) = Some (length (setting_line key v))"
proof -
  have e: "setting_line key v @ t = dquote # key @ dquote # [tab, tab] @ dquote # v @ dquote # t"
    by (simp add: setting_line_def)
  have v: "dquote \<notin> set v" using assms(2) by (auto simp: safe_value_def list_all_iff)
  have l: "length (setting_line key v) = length key + length [tab, tab] + length v + 4"
    by (simp add: setting_line_def)
  show ?thesis
    unfolding match_at_plain_iff [OF assms(1)]
    by (rule exI [of _ "[tab, tab]"], rule exI [of _ v], rule exI [of _ t]) (simp only: e v l, simp)
qed

lemma setting_line_value:
  assumes "safe_value v"
  shows "rev (takeWhile (\<lambda>c. c \<noteq> dquote) (tl (rev (setting_line key v)))) = v"
proof -
  have v: "\<forall>x\<in>set (rev v). x \<noteq> dquote" using assms by (auto simp: safe_value_def list_all_iff)
  have "tl (rev (setting_line key v)) = rev v @ dquote # rev ([dquote] @ key @ [dquote, tab, tab])"
    by (simp add: setting_line_def)
  moreover have "takeWhile (\<lambda>c. c \<noteq> dquote) (rev v @ dquote # z) = rev v" for z
    using v by (simp add: takeWhile_append)
  ultimately show ?thesis by simp
qed

lemma get_setting_at:
  "re_search key s = Some (i, n) \<Longrightarrow> take n (drop i s) = setting_line key v \<Longrightarrow> safe_value v \<Longrightarrow>
   get_setting key s = Some v"
  by (simp add: get_setting_def setting_line_value)

lemma no_bslash_line: "plain_key key \<Longrightarrow> safe_value v \<Longrightarrow> bslash \<notin> set (setting_line key v)"
  by (auto simp: plain_key_def re_meta_def safe_value_def list_all_iff setting_line_def)


text \<open>
  C7. Applying a setting whose key is already in the config (a key without quotes, dots,
  backslashes or whitespace, a value without quotes or backslashes) succeeds, and reading
  the setting back from the patched config gives the new value.
\<close>

theorem apply_setting_read_back:
  assumes pk: "plain_key key" and sv: "safe_value (pval_str val)"
    and meta: "key \<noteq> ''name''" "key \<noteq> ''description''"
    and found: "re_search key content \<noteq> None"
  shows "\<exists>c' k'. apply_setting (key, val) (content, k) = Inr (c', k') \<and>
           get_setting key c' = Some (pval_str val)"
proof -
  let ?r = "setting_line key (pval_str val)"
  obtain i n where s: "re_search key content = Some (i, n)" using found by auto
  then have i: "i < length content" and mi: "match_at key (drop i content) = Some n"
    and left: "\<forall>j<i. match_at key (drop j content) = None"
    by (simp_all add: re_search_Some_iff)
  define a where "a = take i content"
  define m where "m = take n (drop i content)"
  define R where "R = drop n (drop i content)"
  have c: "content = a @ m @ R"
    unfolding a_def m_def R_def by (metis append_take_drop_id)
  have la: "length a = i" using i by (simp add: a_def)
  have mR: "m @ R = drop i content" unfolding m_def R_def by (rule append_take_drop_id)
  have lm: "length m = n" using match_at_pos [OF mi] by (simp add: m_def)
  have mm: "match_at key (m @ R) = Some (length m)" using mi mR lm by simp
  have old: "\<forall>j<length a. match_at key (drop j (a @ m @ R)) = None" using left la c by simp
  show ?thesis
  proof (cases "m = ?r")
    case True
    then have "apply_setting (key, val) (content, k) = Inr (content, k)"
      using s meta by (simp add: apply_setting_def m_def Let_def)
    moreover have "get_setting key content = Some (pval_str val)"
      using get_setting_at [OF s _ sv] True by (simp add: m_def)
    ultimately show ?thesis by blast
  next
    case False
    have pt: "parse_template ?r = Inr (map TLit ?r)" by (rule parse_template_plain [OF no_bslash_line [OF pk sv]])
    define R' where "R' = sub_scan key (map TLit ?r) R"
    have "sub_scan key (map TLit ?r) content = a @ ?r @ R'"
      using sub_scan_skip [OF old, of "map TLit ?r"] sub_scan_match [OF mm, of "map TLit ?r"]
      by (simp add: c R'_def expand_plain)
    then have ap: "apply_setting (key, val) (content, k) = Inr (a @ ?r @ R', Suc k)"
      using s meta False pt by (simp add: apply_setting_def re_sub_def m_def Let_def)
    have "re_search key (a @ ?r @ R') = Some (length a, length ?r)"
      unfolding re_search_Some_iff
      using setting_line_match [OF pk sv, of R'] no_match_before_line [OF pk sv old mm] i la
      by (simp add: setting_line_def)
    then have "get_setting key (a @ ?r @ R') = Some (pval_str val)"
      by (rule get_setting_at) (simp_all add: sv)
    then show ?thesis using ap by blast
  qed
qed

theorem apply_setting_read_back_witness:
  "plain_key ''fps'' \<and> safe_value (pval_str (PInt 3)) \<and> ''fps'' \<noteq> ''name'' \<and> ''fps'' \<noteq> ''description'' \<and>
   re_search ''fps'' (setting_line ''fps'' ''1'' @ [rbrace]) \<noteq> None \<and>
   (\<exists>c' k'. apply_setting (''fps'', PInt 3) (setting_line ''fps'' ''1'' @ [rbrace], 0) = Inr (c', k') \<and>
      get_setting ''fps'' c' = Some (pval_str (PInt 3)))"
proof -
  have h1: "plain_key ''fps''" by (simp add: plain_key_def re_meta_def py_isspace_def)
  have h2: "safe_value (pval_str (PInt 3))"
    by (simp add: safe_value_def py_str_int_def nat_digits.simps)
  have h5: "re_search ''fps'' (setting_line ''fps'' ''1'' @ [rbrace]) \<noteq> None"
    by (simp add: setting_line_def match_at_def py_isspace_def)
  show ?thesis using apply_setting_read_back [OF h1 h2 _ _ h5] h1 h2 h5 by simp
qed

lemma py_replace_char_absent: "c \<notin> set s \<Longrightarrow> py_replace_char c new s = s"
  by (induction s) (auto simp: py_replace_char_def)

lemma key_match_shared_prefix: "key_match (k1 @ ks) (k1 @ t) = key_match ks t"
  by (induction k1) auto

text \<open>
  C13. A setting missing from a config that has no closing brace is counted as applied,
  although \<open>str.replace\<close> leaves the config unchanged.
\<close>

theorem apply_setting_absent_no_brace:
  assumes "re_literal_key key" "key \<noteq> ''name''" "key \<noteq> ''description''"
    and "re_search key content = None" and "rbrace \<notin> set content"
  shows "apply_setting (key, val) (content, k) = Inr (content, Suc k)"
  using assms by (simp add: apply_setting_def py_replace_char_absent)

theorem apply_setting_absent_no_brace_witness:
  "re_literal_key ''fps'' \<and> ''fps'' \<noteq> ''name'' \<and> ''fps'' \<noteq> ''description'' \<and>
   re_search ''fps'' ''x'' = None \<and> rbrace \<notin> set ''x'' \<and>
   apply_setting (''fps'', PInt 3) (''x'', 0) = Inr (''x'', 1)"
proof -
  have h: "re_literal_key ''fps''" "re_search ''fps'' ''x'' = None" "rbrace \<notin> set ''x''"
    by (simp_all add: match_at_def re_literal_key_def re_meta_def)
  show ?thesis using apply_setting_absent_no_brace [OF h(1) _ _ h(2,3), of "PInt 3" 0] h by simp
qed

text \<open>
  C14. The key is put into the pattern unescaped, so a dot in it matches any character
  but a newline: applying a setting \<open>k1.k2\<close> to a config whose first setting is a
  different key \<open>k1 x k2\<close> overwrites that other setting's line with its own.
\<close>

theorem apply_setting_dot_wildcard:
  assumes lit: "re_literal_key (k1 @ CHR ''.'' # k2)"
    and meta: "k1 @ CHR ''.'' # k2 \<noteq> ''name''" "k1 @ CHR ''.'' # k2 \<noteq> ''description''"
    and x: "x \<noteq> newline" "x \<noteq> CHR ''.''"
    and sv: "safe_value (pval_str val)" "safe_value old"
  shows "\<exists>R'. apply_setting (k1 @ CHR ''.'' # k2, val) (setting_line (k1 @ x # k2) old @ R, k) =
           Inr (setting_line (k1 @ CHR ''.'' # k2) (pval_str val) @ R', Suc k)"
proof -
  let ?key = "k1 @ CHR ''.'' # k2" and ?k' = "k1 @ x # k2"
  let ?r = "setting_line ?key (pval_str val)" and ?L = "setting_line ?k' old"
  have km: "key_match ?key ?k'" using x by (simp add: key_match_shared_prefix key_match_self)
  have "dquote \<notin> set old" using sv(2) by (auto simp: safe_value_def list_all_iff)
  then have mL: "match_at ?key (?L @ R) = Some (length ?L)"
    unfolding match_at_Some_iff using km
    by (intro exI [of _ ?k'] exI [of _ "[tab, tab]"] exI [of _ old] exI [of _ R])
      (simp add: setting_line_def py_isspace_def)
  then have rs: "re_search ?key (?L @ R) = Some (0, length ?L)"
    by (simp add: re_search_Some_iff setting_line_def)
  have "take (length ?key) (tl ?L) \<noteq> take (length ?key) (tl ?r)"
    using x by (simp add: setting_line_def)
  then have ne: "?L \<noteq> ?r" by metis
  have "bslash \<notin> set ?r"
    using lit sv(1) by (auto simp: re_literal_key_def re_meta_def safe_value_def list_all_iff setting_line_def)
  then have pt: "parse_template ?r = Inr (map TLit ?r)" by (rule parse_template_plain)
  have "sub_scan ?key (map TLit ?r) (?L @ R) = ?r @ sub_scan ?key (map TLit ?r) R"
    using sub_scan_match [OF mL, of "map TLit ?r"] by (simp add: expand_plain)
  then show ?thesis using rs ne pt meta by (simp add: apply_setting_def re_sub_def Let_def)
qed

text \<open>\<open>a.b\<close> overwrites the setting \<open>aXb\<close>.\<close>

theorem apply_setting_dot_wildcard_witness:
  "apply_setting (''a.b'', PInt 1) (setting_line ''aXb'' ''0'' @ [rbrace], 0) =
     Inr (setting_line ''a.b'' ''1'' @ [rbrace], 1)"
proof -
  have h: "re_literal_key (''a'' @ CHR ''.'' # ''b'')" "safe_value (pval_str (PInt 1))" "safe_value ''0''"
    by (simp_all add: re_literal_key_def re_meta_def safe_value_def py_str_int_def nat_digits.simps)
  obtain R' where "apply_setting (''a'' @ CHR ''.'' # ''b'', PInt 1) (setting_line (''a'' @ CHR ''X'' # ''b'') ''0'' @ [rbrace], 0) =
      Inr (setting_line (''a'' @ CHR ''.'' # ''b'') (pval_str (PInt 1)) @ R', Suc 0)"
    using apply_setting_dot_wildcard [OF h(1) _ _ _ _ h(2,3), of "CHR ''X''" "[rbrace]" 0] by auto
  moreover have "R' = [rbrace]"
    using calculation by (simp add: apply_setting_def setting_line_def match_at_def re_sub_def sub_scan.simps
        expand_def py_str_int_def nat_digits.simps escape_char_def tcons_def py_isspace_def)
  ultimately show ?thesis by (simp add: py_str_int_def nat_digits.simps)
qed

end
