(* ===== verification/Presets.thy ===== *)
theory Presets
  imports Config_Patch
begin

text \<open>
  Graphics presets: \<open>PresetManager\<close> (\<open>src/katana/core/presets.py\<close>), the
  \<open>PresetAdapter\<close> interface through which it calls a game's adapter, and the CS2
  adapter's file operations (\<open>src/katana/games/cs2/presets.py\<close>): reading the preset
  index and preset files, patching the video config with the settings loop of
  \<open>Config_Patch\<close>, and the copy-based backup and restore.

  The file system is a store from path strings to text, a set of directories, whether
  writes succeed, and the current \<open>time.strftime\<close> stamp. \<open>json.load\<close> is a library the
  sources only call: it is a parameter (\<open>json_lib\<close>) that gives a preset index or a
  preset's settings for a text, or \<open>None\<close> where \<open>json.load\<close> raises; every lemma holds for
  any such parser. A preset's values are JSON scalars (\<open>pval\<close>).
\<close>

section \<open>The file store\<close>

record pstore =
  files :: "string \<Rightarrow> string option"
  dirs :: "string set"
  writable :: bool
  fstamp :: string

definition pjoin :: "string \<Rightarrow> string \<Rightarrow> string" where
  "pjoin d f = d @ ''/'' @ f"

definition exists :: "pstore \<Rightarrow> string \<Rightarrow> bool" where
  "exists st p \<longleftrightarrow> files st p \<noteq> None \<or> p \<in> dirs st"

text \<open>\<open>shutil.copy2(src, dst)\<close>; \<open>OSError\<close> when the disk refuses or the source is gone.\<close>

definition copy2 :: "string \<Rightarrow> string \<Rightarrow> pstore \<Rightarrow> bool \<times> pstore" where
  "copy2 src dst st =
     (case files st src of
       None \<Rightarrow> (False, st)
     | Some c \<Rightarrow> if writable st then (True, st\<lparr>files := (files st)(dst \<mapsto> c)\<rparr>) else (False, st))"

record json_lib =
  load_index :: "string \<Rightarrow> (string \<times> string) list option"
  load_preset :: "string \<Rightarrow> (string \<times> pval) list option"

section \<open>PresetManager\<close>

text \<open>
  The manager: its presets directory and the adapters registered by game id. The
  repository has one adapter, \<open>CS2PresetAdapter\<close>, given by its config path as the pair
  of the directory and the file name (\<open>None\<close> when the path was not found).
\<close>

type_synonym cfg_path = "string \<times> string"

definition cfg_file :: "cfg_path \<Rightarrow> string" where
  "cfg_file p = pjoin (fst p) (snd p)"

text \<open>
  \<open>PresetAdapter\<close>, the interface a game's adapter implements: its config path and
  its three methods. \<open>PresetManager\<close> only calls \<open>apply_preset\<close>.
\<close>

record preset_adapter =
  adapter_config :: "cfg_path option"
  ad_apply_preset :: "(string \<times> pval) list \<Rightarrow> bool \<Rightarrow> pstore \<Rightarrow> bool \<times> pstore"
  ad_backup_config :: "string option \<Rightarrow> pstore \<Rightarrow> string option \<times> pstore"
  ad_restore_backup :: "string \<Rightarrow> pstore \<Rightarrow> bool \<times> pstore"

record pmanager =
  presets_dir :: string
  adapters :: "string \<Rightarrow> preset_adapter option"

text \<open>
  \<open>PresetManager(presets_dir)\<close>: without a directory (or with an empty one) the
  presets are read from \<open>katana/presets\<close> beside the package's modules.
\<close>

definition new_preset_manager :: "string option \<Rightarrow> pmanager" where
  "new_preset_manager d =
     \<lparr>presets_dir = (case d of None \<Rightarrow> pjoin ''katana'' ''presets''
                    | Some p \<Rightarrow> if p = [] then pjoin ''katana'' ''presets'' else p),
      adapters = Map.empty\<rparr>"

definition register_adapter :: "string \<Rightarrow> preset_adapter \<Rightarrow> pmanager \<Rightarrow> pmanager" where
  "register_adapter game_id adapter m = m\<lparr>adapters := (adapters m)(game_id \<mapsto> adapter)\<rparr>"

definition preset_file :: "pmanager \<Rightarrow> string \<Rightarrow> string \<Rightarrow> string" where
  "preset_file m game_id preset_id = pjoin (pjoin (presets_dir m) game_id) (preset_id @ ''.json'')"

text \<open>
  \<open>get_available_presets(game_id)\<close>: the entries of the index whose preset file exists;
  a missing directory or index, or an index \<open>json.load\<close> rejects, gives none.
\<close>

definition get_available_presets :: "json_lib \<Rightarrow> pmanager \<Rightarrow> string \<Rightarrow> pstore \<Rightarrow> (string \<times> string) list" where
  "get_available_presets js m game_id st =
     (let d = pjoin (presets_dir m) game_id in
      if \<not> exists st d then []
      else case files st (pjoin d ''presets.json'') of
        None \<Rightarrow> []
      | Some txt \<Rightarrow>
          (case load_index js txt of
            None \<Rightarrow> []
          | Some presets \<Rightarrow> filter (\<lambda>(pid, _). exists st (pjoin d (pid @ ''.json''))) presets))"

definition get_preset_data :: "json_lib \<Rightarrow> pmanager \<Rightarrow> string \<Rightarrow> string \<Rightarrow> pstore \<Rightarrow> (string \<times> pval) list" where
  "get_preset_data js m game_id preset_id st =
     (case files st (preset_file m game_id preset_id) of
       None \<Rightarrow> []
     | Some txt \<Rightarrow> (case load_preset js txt of None \<Rightarrow> [] | Some d \<Rightarrow> d))"

section \<open>CS2PresetAdapter\<close>

text \<open>
  \<open>backup_config(backup_path)\<close>: a copy at the given path or, by default, named
  \<open><name>.backup_<timestamp>\<close> beside the config.
\<close>

definition backup_name :: "cfg_path \<Rightarrow> string \<Rightarrow> string" where
  "backup_name p ts = pjoin (fst p) (snd p @ ''.backup_'' @ ts)"

definition backup_config :: "cfg_path option \<Rightarrow> string option \<Rightarrow> pstore \<Rightarrow> string option \<times> pstore" where
  "backup_config cp backup_path st =
     (case cp of
       None \<Rightarrow> (None, st)
     | Some p \<Rightarrow>
         if \<not> exists st (cfg_file p) then (None, st)
         else
           (let bp = (case backup_path of None \<Rightarrow> backup_name p (fstamp st) | Some b \<Rightarrow> b) in
            case copy2 (cfg_file p) bp st of
              (True, st') \<Rightarrow> (Some bp, st')
            | (False, st') \<Rightarrow> (None, st')))"

text \<open>
  \<open>restore_backup(backup_path)\<close>: copy the backup over the config; with no config path
  \<open>copy2\<close> raises \<open>TypeError\<close>, which is caught like every other failure.
\<close>

definition restore_backup :: "cfg_path option \<Rightarrow> string \<Rightarrow> pstore \<Rightarrow> bool \<times> pstore" where
  "restore_backup cp bp st =
     (if \<not> exists st bp then (False, st)
      else case cp of
        None \<Rightarrow> (False, st)
      | Some p \<Rightarrow> copy2 bp (cfg_file p) st)"

definition required_settings :: "string list" where
  "required_settings = [''setting.defaultres'', ''setting.defaultresheight'']"

text \<open>
  \<open>apply_preset(preset_data, backup)\<close>: the guards, the backup, then the \<open>try\<close> block
  (read, settings loop, write when a setting was applied); on an exception the backup,
  when one was made, is restored.
\<close>

definition cs2_apply_preset ::
  "cfg_path option \<Rightarrow> (string \<times> pval) list \<Rightarrow> bool \<Rightarrow> pstore \<Rightarrow> bool \<times> pstore" where
  "cs2_apply_preset cp preset_data backup st =
     (case cp of
       None \<Rightarrow> (False, st)
     | Some p \<Rightarrow>
         if \<not> exists st (cfg_file p) then (False, st)
         else if preset_data = [] then (False, st)
         else if \<not> list_all (\<lambda>s. s \<in> set (map fst preset_data)) required_settings then (False, st)
         else
           (let (bp, st1) = (if backup then backup_config cp None st else (None, st)) in
            if backup \<and> bp = None then (False, st1)
            else
              (let failed = (\<lambda>st2. if backup then (False, snd (restore_backup cp (the bp) st2)) else (False, st2)) in
               case files st1 (cfg_file p) of
                 None \<Rightarrow> failed st1
               | Some content \<Rightarrow>
                   (case apply_settings preset_data (content, 0) of
                     Inl e \<Rightarrow> failed st1
                   | Inr (content', applied) \<Rightarrow>
                       if applied > 0 then
                         (if writable st1 then (True, st1\<lparr>files := (files st1)(cfg_file p \<mapsto> content')\<rparr>)
                          else failed st1)
                       else (True, st1)))))"

text \<open>\<open>CS2PresetAdapter\<close> as a \<open>PresetAdapter\<close>, given its config path.\<close>

definition cs2_preset_adapter :: "cfg_path option \<Rightarrow> preset_adapter" where
  "cs2_preset_adapter cp =
     \<lparr>adapter_config = cp, ad_apply_preset = cs2_apply_preset cp,
      ad_backup_config = backup_config cp, ad_restore_backup = restore_backup cp\<rparr>"

text \<open>
  \<open>PresetManager.apply_preset(game_id, preset_id, backup)\<close>: the registered adapter
  applies the preset's data; a missing preset file only lists the available presets.
\<close>

definition apply_preset ::
  "json_lib \<Rightarrow> pmanager \<Rightarrow> string \<Rightarrow> string \<Rightarrow> bool \<Rightarrow> pstore \<Rightarrow> bool \<times> pstore" where
  "apply_preset js m game_id preset_id backup st =
     (case adapters m game_id of
       None \<Rightarrow> (False, st)
     | Some adapter \<Rightarrow>
         if \<not> exists st (preset_file m game_id preset_id) then (False, st)
         else
           (let preset_data = get_preset_data js m game_id preset_id st in
            if preset_data = [] then (False, st)
            else ad_apply_preset adapter preset_data backup st))"

section \<open>Lemmas: backups, the write of the patch, and what else is left alone\<close>

lemmas preset_eval_simps = cs2_apply_preset_def backup_config_def restore_backup_def copy2_def exists_def
  cfg_file_def backup_name_def pjoin_def required_settings_def Let_def apply_setting_def setting_line_def
  match_at_def re_sub_def sub_scan.simps expand_def py_str_int_def nat_digits.simps
  escape_char_def tcons_def py_isspace_def py_replace_char_def

lemma backup_name_ne_cfg [simp]: "backup_name p ts \<noteq> cfg_file p" "cfg_file p \<noteq> backup_name p ts"
  by (auto simp: backup_name_def cfg_file_def pjoin_def dest: arg_cong [of _ _ length])

lemma exists_Some: "files st q = Some c \<Longrightarrow> exists st q"
  by (simp add: exists_def)

lemma backup_config_ok:
  assumes "files st (cfg_file p) = Some c" "writable st"
  shows "backup_config (Some p) None st =
           (Some (backup_name p (fstamp st)), st\<lparr>files := (files st)(backup_name p (fstamp st) \<mapsto> c)\<rparr>)"
  using assms by (simp add: backup_config_def copy2_def exists_Some Let_def)

lemma backup_config_fails:
  assumes "\<not> writable st"
  shows "backup_config cp bpath st = (None, st)"
  using assms by (auto simp: backup_config_def copy2_def Let_def split: option.splits)

lemma backup_config_result:
  assumes "backup_config cp None st = (bp, st')"
  shows "bp = None \<Longrightarrow> st' = st"
    and "bp = Some b \<Longrightarrow> \<exists>p c. cp = Some p \<and> files st (cfg_file p) = Some c \<and> writable st \<and>
            b = backup_name p (fstamp st) \<and> st' = st\<lparr>files := (files st)(b \<mapsto> c)\<rparr>"
  using assms by (auto simp: backup_config_def copy2_def Let_def split: option.splits if_splits)

lemma restore_backup_ok:
  assumes "files st bp = Some c" "writable st"
  shows "restore_backup (Some p) bp st = (True, st\<lparr>files := (files st)(cfg_file p \<mapsto> c)\<rparr>)"
  using assms by (simp add: restore_backup_def copy2_def exists_Some)

text \<open>
  C10. A backup made by \<open>backup_config\<close> restores the config: as long as the backup file is
  unchanged and the disk accepts writes, \<open>restore_backup\<close> succeeds and the config has
  the text it had when the backup was made, whatever was written to it in between.
\<close>

theorem backup_restore_roundtrip:
  assumes b: "backup_config (Some p) None st = (Some bp, st1)"
    and keep: "files st2 bp = files st1 bp" and w: "writable st2"
  shows "\<exists>st3. restore_backup (Some p) bp st2 = (True, st3) \<and> files st3 (cfg_file p) = files st (cfg_file p)"
proof -
  obtain c where c: "files st (cfg_file p) = Some c" and st1: "st1 = st\<lparr>files := (files st)(bp \<mapsto> c)\<rparr>"
    using backup_config_result(2) [OF b] by auto
  have "files st2 bp = Some c" using keep st1 by simp
  then show ?thesis using restore_backup_ok [OF _ w] c by simp
qed


theorem backup_restore_roundtrip_witness:
  "backup_config (Some (''cfg'', ''v'')) None \<lparr>files = [''cfg/v'' \<mapsto> ''a''], dirs = {}, writable = True, fstamp = ''t''\<rparr> =
     (Some ''cfg/v.backup_t'', \<lparr>files = [''cfg/v'' \<mapsto> ''a'', ''cfg/v.backup_t'' \<mapsto> ''a''], dirs = {}, writable = True, fstamp = ''t''\<rparr>) \<and>
   files \<lparr>files = [''cfg/v'' \<mapsto> ''b'', ''cfg/v.backup_t'' \<mapsto> ''a''], dirs = {}, writable = True, fstamp = ''u''\<rparr> ''cfg/v.backup_t'' =
     files \<lparr>files = [''cfg/v'' \<mapsto> ''a'', ''cfg/v.backup_t'' \<mapsto> ''a''], dirs = {}, writable = True, fstamp = ''t''\<rparr> ''cfg/v.backup_t'' \<and>
   (\<exists>st3. restore_backup (Some (''cfg'', ''v'')) ''cfg/v.backup_t''
        \<lparr>files = [''cfg/v'' \<mapsto> ''b'', ''cfg/v.backup_t'' \<mapsto> ''a''], dirs = {}, writable = True, fstamp = ''u''\<rparr> = (True, st3) \<and>
      files st3 (cfg_file (''cfg'', ''v'')) = Some ''a'')"
proof -
  have h1: "backup_config (Some (''cfg'', ''v'')) None \<lparr>files = [''cfg/v'' \<mapsto> ''a''], dirs = {}, writable = True, fstamp = ''t''\<rparr> =
     (Some ''cfg/v.backup_t'', \<lparr>files = [''cfg/v'' \<mapsto> ''a'', ''cfg/v.backup_t'' \<mapsto> ''a''], dirs = {}, writable = True, fstamp = ''t''\<rparr>)"
    by (simp add: preset_eval_simps)
  have h2: "files \<lparr>files = [''cfg/v'' \<mapsto> ''b'', ''cfg/v.backup_t'' \<mapsto> ''a''], dirs = {}, writable = True, fstamp = ''u''\<rparr> ''cfg/v.backup_t'' =
     files \<lparr>files = [''cfg/v'' \<mapsto> ''a'', ''cfg/v.backup_t'' \<mapsto> ''a''], dirs = {}, writable = True, fstamp = ''t''\<rparr> ''cfg/v.backup_t''"
    by simp
  show ?thesis using backup_restore_roundtrip [OF h1 h2] h1 h2 by (simp add: cfg_file_def pjoin_def)
qed

lemma required_nonempty: "list_all (\<lambda>s. s \<in> set (map fst d)) required_settings \<Longrightarrow> d \<noteq> []"
  by (auto simp: required_settings_def)

text \<open>
  C8. On an existing config and a preset with both resolution settings, when the settings
  loop succeeds, the CS2 adapter returns True, writes the patched text to the config (or
  leaves it when nothing was applied) and, with backup requested, a copy of the old text
  to the timestamped backup file; nothing else changes.
\<close>

theorem cs2_apply_preset_writes_patch:
  assumes c: "files st (cfg_file p) = Some c" and w: "writable st"
    and req: "list_all (\<lambda>s. s \<in> set (map fst d)) required_settings"
    and run: "apply_settings d (c, 0) = Inr (c', n)"
  shows "cs2_apply_preset (Some p) d b st =
     (True, st\<lparr>files := ((if b then (files st)(backup_name p (fstamp st) \<mapsto> c) else files st))
                (cfg_file p \<mapsto> (if 0 < n then c' else c))\<rparr>)"
  using c w req run required_nonempty [OF req]
  by (cases b) (auto simp: cs2_apply_preset_def backup_config_ok exists_Some fun_upd_idem)

theorem cs2_apply_preset_writes_patch_witness:
  "files \<lparr>files = [''cfg/video.txt'' \<mapsto> ''{}''], dirs = {}, writable = True, fstamp = ''t''\<rparr>
      (cfg_file (''cfg'', ''video.txt'')) = Some ''{}'' \<and>
   writable \<lparr>files = [''cfg/video.txt'' \<mapsto> ''{}''], dirs = {}, writable = True, fstamp = ''t''\<rparr> \<and>
   list_all (\<lambda>s. s \<in> set (map fst [(''setting.defaultres'', PInt 8), (''setting.defaultresheight'', PInt 6)]))
     required_settings \<and>
   apply_settings [(''setting.defaultres'', PInt 8), (''setting.defaultresheight'', PInt 6)] (''{}'', 0) =
     Inr (''{'' @ [tab] @ setting_line ''setting.defaultres'' ''8'' @ [newline, tab] @
          setting_line ''setting.defaultresheight'' ''6'' @ [newline, rbrace], 2) \<and>
   cs2_apply_preset (Some (''cfg'', ''video.txt''))
     [(''setting.defaultres'', PInt 8), (''setting.defaultresheight'', PInt 6)] True
     \<lparr>files = [''cfg/video.txt'' \<mapsto> ''{}''], dirs = {}, writable = True, fstamp = ''t''\<rparr> =
   (True, \<lparr>files = [''cfg/video.txt'' \<mapsto> ''{}'', backup_name (''cfg'', ''video.txt'') ''t'' \<mapsto> ''{}'',
       cfg_file (''cfg'', ''video.txt'') \<mapsto>
         ''{'' @ [tab] @ setting_line ''setting.defaultres'' ''8'' @ [newline, tab] @
          setting_line ''setting.defaultresheight'' ''6'' @ [newline, rbrace]],
       dirs = {}, writable = True, fstamp = ''t''\<rparr>)"
proof -
  have h1: "files \<lparr>files = [''cfg/video.txt'' \<mapsto> ''{}''], dirs = {}, writable = True, fstamp = ''t''\<rparr>
      (cfg_file (''cfg'', ''video.txt'')) = Some ''{}''" by (simp add: cfg_file_def pjoin_def)
  have h3: "list_all (\<lambda>s. s \<in> set (map fst [(''setting.defaultres'', PInt 8), (''setting.defaultresheight'', PInt 6)]))
     required_settings" by (simp add: required_settings_def)
  have h4: "apply_settings [(''setting.defaultres'', PInt 8), (''setting.defaultresheight'', PInt 6)] (''{}'', 0) =
     Inr (''{'' @ [tab] @ setting_line ''setting.defaultres'' ''8'' @ [newline, tab] @
          setting_line ''setting.defaultresheight'' ''6'' @ [newline, rbrace], 2)"
    by (simp add: preset_eval_simps)
  show ?thesis using cs2_apply_preset_writes_patch [OF h1 _ h3 h4, of True] h1 h3 h4 by simp
qed

text \<open>
  C9. When the settings loop raises (a template error of \<open>re.sub\<close>), the adapter returns
  False and the config keeps its old text; the backup file, when requested, stays behind.
\<close>

theorem cs2_apply_preset_error_restores:
  assumes c: "files st (cfg_file p) = Some c" and w: "writable st"
    and req: "list_all (\<lambda>s. s \<in> set (map fst d)) required_settings"
    and run: "apply_settings d (c, 0) = Inl e"
  shows "cs2_apply_preset (Some p) d b st =
     (False, st\<lparr>files := (if b then (files st)(backup_name p (fstamp st) \<mapsto> c) else files st)\<rparr>)"
proof -
  have idem: "(files st)(cfg_file p \<mapsto> c) = files st" using c by (simp add: fun_upd_idem)
  have twist: "(files st)(backup_name p (fstamp st) \<mapsto> c, cfg_file p \<mapsto> c) =
      (files st)(backup_name p (fstamp st) \<mapsto> c)"
    using idem by (metis backup_name_ne_cfg(1) fun_upd_twist)
  show ?thesis
    using c w req run required_nonempty [OF req] idem twist
    by (cases b) (auto simp: cs2_apply_preset_def backup_config_ok restore_backup_ok exists_Some)
qed


theorem cs2_apply_preset_error_restores_witness:
  "files \<lparr>files = [''cfg/video.txt'' \<mapsto> setting_line ''setting.defaultres'' ''0''], dirs = {}, writable = True, fstamp = ''t''\<rparr>
      (cfg_file (''cfg'', ''video.txt'')) = Some (setting_line ''setting.defaultres'' ''0'') \<and>
   list_all (\<lambda>s. s \<in> set (map fst [(''setting.defaultres'', PStr [bslash, CHR ''q'']), (''setting.defaultresheight'', PInt 6)]))
     required_settings \<and>
   apply_settings [(''setting.defaultres'', PStr [bslash, CHR ''q'']), (''setting.defaultresheight'', PInt 6)]
     (setting_line ''setting.defaultres'' ''0'', 0) = Inl (ReError ''bad escape'') \<and>
   cs2_apply_preset (Some (''cfg'', ''video.txt''))
     [(''setting.defaultres'', PStr [bslash, CHR ''q'']), (''setting.defaultresheight'', PInt 6)] True
     \<lparr>files = [''cfg/video.txt'' \<mapsto> setting_line ''setting.defaultres'' ''0''], dirs = {}, writable = True, fstamp = ''t''\<rparr> =
   (False, \<lparr>files = [''cfg/video.txt'' \<mapsto> setting_line ''setting.defaultres'' ''0'',
       backup_name (''cfg'', ''video.txt'') ''t'' \<mapsto> setting_line ''setting.defaultres'' ''0''],
       dirs = {}, writable = True, fstamp = ''t''\<rparr>)"
proof -
  have h1: "files \<lparr>files = [''cfg/video.txt'' \<mapsto> setting_line ''setting.defaultres'' ''0''], dirs = {}, writable = True, fstamp = ''t''\<rparr>
      (cfg_file (''cfg'', ''video.txt'')) = Some (setting_line ''setting.defaultres'' ''0'')"
    by (simp add: cfg_file_def pjoin_def)
  have h3: "list_all (\<lambda>s. s \<in> set (map fst [(''setting.defaultres'', PStr [bslash, CHR ''q'']), (''setting.defaultresheight'', PInt 6)]))
     required_settings" by (simp add: required_settings_def)
  have h4: "apply_settings [(''setting.defaultres'', PStr [bslash, CHR ''q'']), (''setting.defaultresheight'', PInt 6)]
     (setting_line ''setting.defaultres'' ''0'', 0) = Inl (ReError ''bad escape'')"
    by (simp add: preset_eval_simps ascii_letter_def py_isdigit_def)
  show ?thesis using cs2_apply_preset_error_restores [OF h1 _ h3 h4, of True] h1 h3 h4 by simp
qed

lemma copy2_frame: "copy2 src dst st = (r, st') \<Longrightarrow> q \<noteq> dst \<Longrightarrow> files st' q = files st q"
  by (auto simp: copy2_def split: option.splits if_splits)

lemma backup_config_frame:
  "backup_config (Some p) None st = (r, st') \<Longrightarrow> q \<noteq> backup_name p (fstamp st) \<Longrightarrow> files st' q = files st q"
  by (auto simp: backup_config_def Let_def split: if_splits bool.splits prod.splits dest: copy2_frame)

lemma restore_backup_frame:
  "restore_backup (Some p) bp st = (r, st') \<Longrightarrow> q \<noteq> cfg_file p \<Longrightarrow> files st' q = files st q"
  by (auto simp: restore_backup_def split: if_splits dest: copy2_frame)

lemma restore_backup_frame_snd:
  "q \<noteq> cfg_file p \<Longrightarrow> files (snd (restore_backup (Some p) bp st)) q = files st q"
  by (metis restore_backup_frame prod.collapse)

lemma backup_config_stamp: "backup_config cp bpath st = (r, st') \<Longrightarrow> fstamp st' = fstamp st"
  by (auto simp: backup_config_def copy2_def Let_def split: option.splits if_splits bool.splits prod.splits)

lemma cs2_apply_preset_files:
  assumes run: "cs2_apply_preset cp d b st = (r, st')"
    and q: "\<And>p. cp = Some p \<Longrightarrow> q \<noteq> cfg_file p \<and> q \<noteq> backup_name p (fstamp st)"
  shows "files st' q = files st q"
proof (cases cp)
  case None
  then show ?thesis using run by (simp add: cs2_apply_preset_def)
next
  case (Some p)
  obtain bp st1 where b1: "(if b then backup_config (Some p) None st else (None, st)) = (bp, st1)" by fastforce
  have f1: "files st1 q = files st q"
    using b1 q [OF Some] by (auto split: if_splits dest: backup_config_frame)
  have "files st' q = files st1 q \<or> st' = st"
    using run q [OF Some] b1 Some
    by (auto simp: cs2_apply_preset_def Let_def restore_backup_frame_snd
        split: if_splits option.splits sum.splits prod.splits)
  then show ?thesis using f1 by auto
qed

text \<open>
  C11. Applying a preset writes at most two files: the config and its backup named with the
  current timestamp; every other file is left as it was, whether it succeeds or fails.
\<close>

theorem cs2_apply_preset_frame:
  assumes "cs2_apply_preset (Some p) d b st = (r, st')"
    and "q \<noteq> cfg_file p" and "q \<noteq> backup_name p (fstamp st)"
  shows "files st' q = files st q"
  using cs2_apply_preset_files [OF assms(1)] assms(2,3) by blast


theorem cs2_apply_preset_frame_witness:
  "''cfg/other'' \<noteq> cfg_file (''cfg'', ''v'') \<and> ''cfg/other'' \<noteq> backup_name (''cfg'', ''v'') ''t'' \<and>
   cs2_apply_preset (Some (''cfg'', ''v'')) [(''setting.defaultres'', PInt 8), (''setting.defaultresheight'', PInt 6)] True
     \<lparr>files = [''cfg/v'' \<mapsto> ''{}'', ''cfg/other'' \<mapsto> ''x''], dirs = {}, writable = True, fstamp = ''t''\<rparr> =
   (fst (cs2_apply_preset (Some (''cfg'', ''v'')) [(''setting.defaultres'', PInt 8), (''setting.defaultresheight'', PInt 6)] True
     \<lparr>files = [''cfg/v'' \<mapsto> ''{}'', ''cfg/other'' \<mapsto> ''x''], dirs = {}, writable = True, fstamp = ''t''\<rparr>),
    snd (cs2_apply_preset (Some (''cfg'', ''v'')) [(''setting.defaultres'', PInt 8), (''setting.defaultresheight'', PInt 6)] True
     \<lparr>files = [''cfg/v'' \<mapsto> ''{}'', ''cfg/other'' \<mapsto> ''x''], dirs = {}, writable = True, fstamp = ''t''\<rparr>)) \<and>
   files (snd (cs2_apply_preset (Some (''cfg'', ''v'')) [(''setting.defaultres'', PInt 8), (''setting.defaultresheight'', PInt 6)] True
     \<lparr>files = [''cfg/v'' \<mapsto> ''{}'', ''cfg/other'' \<mapsto> ''x''], dirs = {}, writable = True, fstamp = ''t''\<rparr>)) ''cfg/other'' = Some ''x''"
proof -
  have h2: "''cfg/other'' \<noteq> cfg_file (''cfg'', ''v'')" by (simp add: cfg_file_def pjoin_def)
  have h3: "''cfg/other'' \<noteq> backup_name (''cfg'', ''v'') ''t''" by (simp add: backup_name_def pjoin_def)
  show ?thesis
    using cs2_apply_preset_frame [where st = "\<lparr>files = [''cfg/v'' \<mapsto> ''{}'', ''cfg/other'' \<mapsto> ''x''], dirs = {},
        writable = True, fstamp = ''t''\<rparr>" and d = "[(''setting.defaultres'', PInt 8), (''setting.defaultresheight'', PInt 6)]"
        and b = True, OF surjective_pairing h2] h2 h3
    by simp
qed

lemma copy2_keeps: "copy2 src dst st = (r, st') \<Longrightarrow> fstamp st' = fstamp st \<and> writable st' = writable st"
  by (auto simp: copy2_def split: option.splits if_splits)

lemma restore_backup_keeps:
  "fstamp (snd (restore_backup cp bp st)) = fstamp st \<and> writable (snd (restore_backup cp bp st)) = writable st"
  by (auto simp: restore_backup_def copy2_def split: option.splits if_splits)

lemma backup_config_keeps: "backup_config cp bpath st = (r, st') \<Longrightarrow> fstamp st' = fstamp st \<and> writable st' = writable st"
  by (auto simp: backup_config_def copy2_def Let_def split: option.splits if_splits bool.splits prod.splits)

lemma cs2_apply_preset_keeps:
  "cs2_apply_preset cp d b st = (r, st') \<Longrightarrow> fstamp st' = fstamp st \<and> writable st' = writable st"
  by (auto simp: cs2_apply_preset_def Let_def restore_backup_keeps
      split: if_splits option.splits sum.splits prod.splits dest!: backup_config_keeps)

lemma cs2_apply_preset_backup_holds:
  assumes c: "files st (cfg_file p) = Some c" and w: "writable st"
    and req: "list_all (\<lambda>s. s \<in> set (map fst d)) required_settings"
    and run: "cs2_apply_preset (Some p) d True st = (r, st')"
  shows "files st' (backup_name p (fstamp st)) = Some c"
  using run c w req required_nonempty [OF req]
  by (auto simp: cs2_apply_preset_def backup_config_ok exists_Some Let_def restore_backup_frame_snd
      split: option.splits sum.splits prod.splits if_splits)

text \<open>
  C12. Two applications of a preset within the same second share a backup name: the second
  backup overwrites the first with the already patched config, so the original text is
  lost.
\<close>

theorem cs2_second_backup_overwrites_first:
  assumes first: "cs2_apply_preset (Some p) d True st = (True, st1)"
    and c1: "files st1 (cfg_file p) = Some c1" and w: "writable st"
    and req: "list_all (\<lambda>s. s \<in> set (map fst d2)) required_settings"
    and second: "cs2_apply_preset (Some p) d2 True st1 = (r, st2)"
  shows "files st2 (backup_name p (fstamp st)) = files st1 (cfg_file p)"
proof -
  have k: "fstamp st1 = fstamp st" "writable st1" using cs2_apply_preset_keeps [OF first] w by simp_all
  show ?thesis using cs2_apply_preset_backup_holds [OF c1 k(2) req second] k(1) c1 by simp
qed


theorem cs2_second_backup_overwrites_first_witness:
  "cs2_apply_preset (Some (''cfg'', ''v'')) [(''setting.defaultres'', PInt 8), (''setting.defaultresheight'', PInt 6)] True
     \<lparr>files = [''cfg/v'' \<mapsto> ''{}''], dirs = {}, writable = True, fstamp = ''t''\<rparr> =
   (True, \<lparr>files = [''cfg/v'' \<mapsto> ''{}'', ''cfg/v.backup_t'' \<mapsto> ''{}'',
       ''cfg/v'' \<mapsto> ''{'' @ [tab] @ setting_line ''setting.defaultres'' ''8'' @ [newline, tab] @
          setting_line ''setting.defaultresheight'' ''6'' @ [newline, rbrace]], dirs = {}, writable = True, fstamp = ''t''\<rparr>) \<and>
   files \<lparr>files = [''cfg/v'' \<mapsto> ''{}'', ''cfg/v.backup_t'' \<mapsto> ''{}'',
       ''cfg/v'' \<mapsto> ''{'' @ [tab] @ setting_line ''setting.defaultres'' ''8'' @ [newline, tab] @
          setting_line ''setting.defaultresheight'' ''6'' @ [newline, rbrace]], dirs = {}, writable = True, fstamp = ''t''\<rparr>
     (cfg_file (''cfg'', ''v'')) = Some (''{'' @ [tab] @ setting_line ''setting.defaultres'' ''8'' @ [newline, tab] @
          setting_line ''setting.defaultresheight'' ''6'' @ [newline, rbrace]) \<and>
   files (snd (cs2_apply_preset (Some (''cfg'', ''v''))
       [(''setting.defaultres'', PInt 8), (''setting.defaultresheight'', PInt 6)] True
       \<lparr>files = [''cfg/v'' \<mapsto> ''{}'', ''cfg/v.backup_t'' \<mapsto> ''{}'',
         ''cfg/v'' \<mapsto> ''{'' @ [tab] @ setting_line ''setting.defaultres'' ''8'' @ [newline, tab] @
          setting_line ''setting.defaultresheight'' ''6'' @ [newline, rbrace]], dirs = {}, writable = True, fstamp = ''t''\<rparr>))
     (backup_name (''cfg'', ''v'') ''t'') \<noteq> Some ''{}''"
proof -
  have first: "cs2_apply_preset (Some (''cfg'', ''v'')) [(''setting.defaultres'', PInt 8), (''setting.defaultresheight'', PInt 6)] True
     \<lparr>files = [''cfg/v'' \<mapsto> ''{}''], dirs = {}, writable = True, fstamp = ''t''\<rparr> =
   (True, \<lparr>files = [''cfg/v'' \<mapsto> ''{}'', ''cfg/v.backup_t'' \<mapsto> ''{}'',
       ''cfg/v'' \<mapsto> ''{'' @ [tab] @ setting_line ''setting.defaultres'' ''8'' @ [newline, tab] @
          setting_line ''setting.defaultresheight'' ''6'' @ [newline, rbrace]], dirs = {}, writable = True, fstamp = ''t''\<rparr>)"
    by (simp add: preset_eval_simps)
  have c1: "files \<lparr>files = [''cfg/v'' \<mapsto> ''{}'', ''cfg/v.backup_t'' \<mapsto> ''{}'',
       ''cfg/v'' \<mapsto> ''{'' @ [tab] @ setting_line ''setting.defaultres'' ''8'' @ [newline, tab] @
          setting_line ''setting.defaultresheight'' ''6'' @ [newline, rbrace]], dirs = {}, writable = True, fstamp = ''t''\<rparr>
     (cfg_file (''cfg'', ''v'')) = Some (''{'' @ [tab] @ setting_line ''setting.defaultres'' ''8'' @ [newline, tab] @
          setting_line ''setting.defaultresheight'' ''6'' @ [newline, rbrace])"
    by (simp add: cfg_file_def pjoin_def)
  have req: "list_all (\<lambda>s. s \<in> set (map fst [(''setting.defaultres'', PInt 8), (''setting.defaultresheight'', PInt 6)]))
     required_settings" by (simp add: required_settings_def)
  show ?thesis
    using cs2_second_backup_overwrites_first [OF first c1 _ req surjective_pairing] first c1
    by simp
qed

text \<open>
  C15. \<open>PresetManager.apply_preset\<close> returns False and changes no file when no adapter is
  registered for the game or the preset file does not exist.
\<close>

theorem apply_preset_refused:
  assumes "adapters m game_id = None \<or> \<not> exists st (preset_file m game_id preset_id)"
  shows "apply_preset js m game_id preset_id backup st = (False, st)"
  using assms by (auto simp: apply_preset_def split: option.splits)

theorem apply_preset_refused_witness:
  "(adapters \<lparr>presets_dir = ''presets'', adapters = Map.empty\<rparr> ''cs2'' = None \<or>
    \<not> exists \<lparr>files = Map.empty, dirs = {}, writable = True, fstamp = ''t''\<rparr>
        (preset_file \<lparr>presets_dir = ''presets'', adapters = Map.empty\<rparr> ''cs2'' ''low'')) \<and>
   apply_preset \<lparr>load_index = \<lambda>_. None, load_preset = \<lambda>_. None\<rparr> \<lparr>presets_dir = ''presets'', adapters = Map.empty\<rparr>
     ''cs2'' ''low'' True \<lparr>files = Map.empty, dirs = {}, writable = True, fstamp = ''t''\<rparr> =
     (False, \<lparr>files = Map.empty, dirs = {}, writable = True, fstamp = ''t''\<rparr>)"
proof -
  have h: "adapters \<lparr>presets_dir = ''presets'', adapters = Map.empty\<rparr> ''cs2'' = None \<or>
    \<not> exists \<lparr>files = Map.empty, dirs = {}, writable = True, fstamp = ''t''\<rparr>
        (preset_file \<lparr>presets_dir = ''presets'', adapters = Map.empty\<rparr> ''cs2'' ''low'')" by simp
  show ?thesis using apply_preset_refused [OF h] h by blast
qed

text \<open>
  C16. Every preset that \<open>get_available_presets\<close> lists has its preset file on disk.
\<close>

theorem get_available_presets_exist:
  "(pid, name) \<in> set (get_available_presets js m game_id st) \<Longrightarrow> exists st (preset_file m game_id pid)"
  by (auto simp: get_available_presets_def preset_file_def Let_def split: option.splits if_splits)

theorem get_available_presets_exist_witness:
  "(''low'', ''Low'') \<in> set (get_available_presets
      \<lparr>load_index = \<lambda>_. Some [(''low'', ''Low''), (''high'', ''High'')], load_preset = \<lambda>_. None\<rparr>
      \<lparr>presets_dir = ''p'', adapters = Map.empty\<rparr> ''cs2''
      \<lparr>files = [''p/cs2/presets.json'' \<mapsto> ''i'', ''p/cs2/low.json'' \<mapsto> ''l''], dirs = {''p/cs2''}, writable = True, fstamp = ''t''\<rparr>) \<and>
   exists \<lparr>files = [''p/cs2/presets.json'' \<mapsto> ''i'', ''p/cs2/low.json'' \<mapsto> ''l''], dirs = {''p/cs2''}, writable = True, fstamp = ''t''\<rparr>
     (preset_file \<lparr>presets_dir = ''p'', adapters = Map.empty\<rparr> ''cs2'' ''low'')"
proof -
  have h: "(''low'', ''Low'') \<in> set (get_available_presets
      \<lparr>load_index = \<lambda>_. Some [(''low'', ''Low''), (''high'', ''High'')], load_preset = \<lambda>_. None\<rparr>
      \<lparr>presets_dir = ''p'', adapters = Map.empty\<rparr> ''cs2''
      \<lparr>files = [''p/cs2/presets.json'' \<mapsto> ''i'', ''p/cs2/low.json'' \<mapsto> ''l''], dirs = {''p/cs2''}, writable = True, fstamp = ''t''\<rparr>)"
    by (simp add: get_available_presets_def exists_def pjoin_def)
  show ?thesis using get_available_presets_exist [OF h] h by blast
qed

end
