(* ===== verification/Factory.thy ===== *)
theory Factory
  imports Presets
begin

text \<open>
  \<open>GameFactory\<close> (\<open>src/katana/factory.py\<close>): the games found in the \<open>games\<close> directory,
  the creation of a game's benchmark object by importing its module and looking its class
  up by name, and the factory's own preset helpers.

  \<open>importlib.import_module\<close> is a parameter: a map from module paths to the module's
  \<open>__dict__\<close>, in insertion order, or \<open>None\<close> where the import raises \<open>ImportError\<close>. The
  objects of a module are classes (with whether they are abstract), functions and other
  values. The modules of the repository are given by the names their sources bind.
  Python's case mappings are modelled on ASCII letters, which game identifiers consist of.
\<close>

section \<open>Python's case mappings on ASCII\<close>

abbreviation squote :: char where "squote \<equiv> CHR 0x27"

definition py_lower_char :: "char \<Rightarrow> char" where
  "py_lower_char c = (let n = of_char c :: nat in if 65 \<le> n \<and> n \<le> 90 then char_of (n + 32) else c)"

definition py_upper_char :: "char \<Rightarrow> char" where
  "py_upper_char c = (let n = of_char c :: nat in if 97 \<le> n \<and> n \<le> 122 then char_of (n - 32) else c)"

definition py_lower :: "string \<Rightarrow> string" where
  "py_lower s = map py_lower_char s"

definition py_upper :: "string \<Rightarrow> string" where
  "py_upper s = map py_upper_char s"

text \<open>
  \<open>str.title\<close>: a letter is upper-cased when the character before it is not a letter,
  lower-cased otherwise; the flag says whether the previous character was a letter.
\<close>

fun title_from :: "bool \<Rightarrow> string \<Rightarrow> string" where
  "title_from prev [] = []"
| "title_from prev (c # cs) =
     (if ascii_letter c then (if prev then py_lower_char c else py_upper_char c) # title_from True cs
      else c # title_from False cs)"

definition py_title :: "string \<Rightarrow> string" where
  "py_title s = title_from False s"

section \<open>Modules, classes and their instances\<close>

datatype pyobj = PyClass string bool | PyFunction string | PyValue

type_synonym pymodule = "(string \<times> pyobj) list"

definition hasattr :: "pymodule \<Rightarrow> string \<Rightarrow> bool" where
  "hasattr md n \<longleftrightarrow> map_of md n \<noteq> None"

definition is_type :: "pyobj \<Rightarrow> bool" where
  "is_type obj = (case obj of PyClass _ _ \<Rightarrow> True | _ \<Rightarrow> False)"

text \<open>
  \<open>benchmark_class()\<close>: a class is instantiated, and an abstract one raises
  \<open>TypeError\<close>; a function is called; any other object is not callable. The result is
  named by the class or function.
\<close>

definition instantiate :: "pyobj \<Rightarrow> py_exc + string" where
  "instantiate obj =
     (case obj of
       PyClass n abstract \<Rightarrow>
         if abstract then Inl (TypeError (''Can'' @ [squote] @ ''t instantiate abstract class '' @ n)) else Inr n
     | PyFunction n \<Rightarrow> Inr n
     | PyValue \<Rightarrow> Inl (TypeError ''object is not callable''))"

section \<open>GameFactory\<close>

text \<open>
  \<open>get_available_games()\<close>: the entries of the games directory, in the order
  \<open>iterdir\<close> yields them, that are directories holding a \<open>benchmark.py\<close>.
\<close>

definition get_available_games :: "pstore \<Rightarrow> string \<Rightarrow> string list \<Rightarrow> string list" where
  "get_available_games st games_dir entries =
     filter (\<lambda>name. pjoin games_dir name \<in> dirs st \<and> exists st (pjoin (pjoin games_dir name) ''benchmark.py''))
       entries"

definition benchmark_module_path :: "string \<Rightarrow> string" where
  "benchmark_module_path game_id = ''katana.games.'' @ game_id @ ''.benchmark''"

text \<open>The fallback loop: the first class of the module whose name contains \<open>Benchmark\<close>.\<close>

definition first_benchmark_class :: "pymodule \<Rightarrow> pyobj option" where
  "first_benchmark_class md = map_option snd (find (\<lambda>(name, obj). is_type obj \<and> py_in ''Benchmark'' name) md)"

text \<open>
  \<open>create_benchmark(game_id)\<close>: the class is looked up as \<open>GAMEIDBenchmark\<close>, then
  \<open>GameidBenchmark\<close>, then as the first class with \<open>Benchmark\<close> in its name. A failed
  import becomes \<open>ValueError\<close>; every other exception is re-raised.
\<close>

definition create_benchmark :: "(string \<Rightarrow> pymodule option) \<Rightarrow> string \<Rightarrow> py_exc + string" where
  "create_benchmark modules game_id0 =
     (let game_id = py_lower game_id0; module_path = benchmark_module_path game_id in
      case modules module_path of
        None \<Rightarrow> Inl (ValueError (''Game '' @ [squote] @ game_id @ [squote] @
                   '' not supported or implementation not found''))
      | Some md \<Rightarrow>
          (let class_name = (if hasattr md (py_upper game_id @ ''Benchmark'') then py_upper game_id @ ''Benchmark''
                             else py_title game_id @ ''Benchmark'') in
           case map_of md class_name of
             Some cls \<Rightarrow> instantiate cls
           | None \<Rightarrow>
               (case first_benchmark_class md of
                 Some cls \<Rightarrow> instantiate cls
               | None \<Rightarrow> Inl (ValueError (''No benchmark class found in module '' @ module_path)))))"

text \<open>
  The factory's preset helpers read \<open>presets/<game_id>\<close> beside the package
  (\<open>pkg\<close>), with the game id lower-cased; unlike \<open>PresetManager\<close> they do not check
  that the listed preset files exist.
\<close>

definition factory_get_available_presets :: "json_lib \<Rightarrow> string \<Rightarrow> string \<Rightarrow> pstore \<Rightarrow> (string \<times> string) list" where
  "factory_get_available_presets js pkg game_id0 st =
     (let presets_dir = pjoin (pjoin pkg ''presets'') (py_lower game_id0);
          presets_file = pjoin presets_dir ''presets.json'' in
      if \<not> exists st presets_dir then []
      else if \<not> exists st presets_file then []
      else case files st presets_file of
        None \<Rightarrow> []
      | Some txt \<Rightarrow> (case load_index js txt of None \<Rightarrow> [] | Some presets \<Rightarrow> presets))"

definition factory_get_preset_data ::
  "json_lib \<Rightarrow> string \<Rightarrow> string \<Rightarrow> string \<Rightarrow> pstore \<Rightarrow> (string \<times> pval) list" where
  "factory_get_preset_data js pkg game_id0 preset_id st =
     (let preset_file = pjoin (pjoin (pjoin pkg ''presets'') (py_lower game_id0)) (preset_id @ ''.json'') in
      if \<not> exists st preset_file then []
      else case files st preset_file of
        None \<Rightarrow> []
      | Some txt \<Rightarrow> (case load_preset js txt of None \<Rightarrow> [] | Some d \<Rightarrow> d))"

text \<open>
  \<open>GameFactory.apply_preset(game_id, preset_id, benchmark)\<close>: the benchmark object
  (given by its attribute names) is used when it has an \<open>apply_preset\<close> attribute,
  otherwise the function \<open>apply_preset\<close> of the game's \<open>presets\<close> module; \<open>call\<close> gives
  what the called code returns.
\<close>

definition factory_apply_preset ::
  "json_lib \<Rightarrow> string \<Rightarrow> (string \<Rightarrow> pymodule option) \<Rightarrow> (string \<Rightarrow> (string \<times> pval) list \<Rightarrow> bool) \<Rightarrow>
   string \<Rightarrow> string \<Rightarrow> string list option \<Rightarrow> pstore \<Rightarrow> bool" where
  "factory_apply_preset js pkg modules call game_id preset_id benchmark st =
     (let preset_data = factory_get_preset_data js pkg game_id preset_id st in
      if preset_data = [] then False
      else if (case benchmark of Some attrs \<Rightarrow> ''apply_preset'' \<in> set attrs | None \<Rightarrow> False)
      then call ''benchmark.apply_preset'' preset_data
      else
        (case modules (''katana.games.'' @ game_id @ ''.presets'') of
          None \<Rightarrow> False
        | Some md \<Rightarrow> if hasattr md ''apply_preset'' then call ''apply_preset'' preset_data else False))"

section \<open>The modules of the repository\<close>

definition module_dunders :: pymodule where
  "module_dunders = map (\<lambda>n. (n, PyValue))
     [''__name__'', ''__doc__'', ''__package__'', ''__loader__'', ''__spec__'', ''__file__'',
      ''__cached__'', ''__builtins__'']"

text \<open>
  The names \<open>games/cs2/benchmark.py\<close> binds, in order: its imports, including the
  abstract \<open>GameBenchmark\<close>, the logger, and the class \<open>CS2Benchmark\<close>.
\<close>

definition cs2_benchmark_imports :: pymodule where
  "cs2_benchmark_imports = module_dunders @
     [(''time'', PyValue), (''logging'', PyValue), (''pyautogui'', PyValue), (''Path'', PyClass ''Path'' False),
      (''GameBenchmark'', PyClass ''GameBenchmark'' True), (''BenchmarkResult'', PyClass ''BenchmarkResult'' False),
      (''ImageDetector'', PyClass ''ImageDetector'' False), (''GameInteractor'', PyClass ''GameInteractor'' False),
      (''GAME_ID'', PyValue), (''GAME_NAME'', PyValue), (''WINDOW_TITLE'', PyValue),
      (''REQUIRED_ASSETS'', PyValue), (''CONFIG'', PyValue), (''logger'', PyValue)]"

text \<open>
  A game module laid out as CS2's: the same imports, then the game's benchmark class.
\<close>

definition game_benchmark_module :: "string \<Rightarrow> pymodule" where
  "game_benchmark_module cls = cs2_benchmark_imports @ [(cls, PyClass cls False)]"

definition cs2_presets_module :: pymodule where
  "cs2_presets_module = module_dunders @
     [(''time'', PyValue), (''logging'', PyValue), (''re'', PyValue), (''shutil'', PyValue),
      (''Path'', PyClass ''Path'' False), (''PresetAdapter'', PyClass ''PresetAdapter'' True),
      (''logger'', PyValue), (''CS2PresetAdapter'', PyClass ''CS2PresetAdapter'' False)]"

definition katana_modules :: "string \<Rightarrow> pymodule option" where
  "katana_modules = [''katana.games.cs2.benchmark'' \<mapsto> game_benchmark_module ''CS2Benchmark'',
                     ''katana.games.cs2.presets'' \<mapsto> cs2_presets_module]"

text \<open>The attributes of a \<open>CS2Benchmark\<close> object: the fields \<open>__init__\<close> sets and the methods.\<close>

definition cs2_benchmark_attrs :: "string list" where
  "cs2_benchmark_attrs =
     [''game_id'', ''game_name'', ''window_title'', ''assets_dir'', ''configs'', ''results'',
      ''benchmark_start_time'', ''benchmark_end_time'', ''benchmark_duration'', ''screenshot_dir'',
      ''detector'', ''interactor'', ''check_assets'', ''launch_steam_game'', ''launch'',
      ''focus_game_window'', ''wait_until_ready'', ''navigate_to_benchmark'', ''start_benchmark'',
      ''collect_results'', ''teardown'', ''execute_benchmark_run'', ''run_benchmark_series'']"

section \<open>Lemmas: class lookup and the repository's modules\<close>

lemmas case_eval_simps = py_lower_def py_lower_char_def py_upper_def py_upper_char_def py_title_def
  char_of_def bit_simps

lemma map_of_suffix:
  "map_of md (z @ s) = map_of (filter (\<lambda>(n, _). drop (length n - length s) n = s) md) (z @ s)"
  by (induction md) auto

lemma imports_lookup_Benchmark:
  "map_of cs2_benchmark_imports (z @ ''Benchmark'') =
     (if z = ''Game'' then Some (PyClass ''GameBenchmark'' True) else None)"
proof -
  have "filter (\<lambda>(n, _). drop (length n - length ''Benchmark'') n = ''Benchmark'') cs2_benchmark_imports =
      [(''GameBenchmark'', PyClass ''GameBenchmark'' True)]"
    by (simp add: cs2_benchmark_imports_def module_dunders_def)
  then show ?thesis by (auto simp: map_of_suffix [of _ z])
qed

lemma layout_lookup:
  "cls \<noteq> z @ ''Benchmark'' \<Longrightarrow> map_of (game_benchmark_module cls) (z @ ''Benchmark'') =
     (if z = ''Game'' then Some (PyClass ''GameBenchmark'' True) else None)"
  using imports_lookup_Benchmark [of z] imports_lookup_Benchmark [of "''Game''", simplified]
  by (auto simp: game_benchmark_module_def map_of_append map_add_def split: option.splits)

lemma layout_first_class: "first_benchmark_class (game_benchmark_module cls) = Some (PyClass ''GameBenchmark'' True)"
  by (simp add: first_benchmark_class_def game_benchmark_module_def cs2_benchmark_imports_def module_dunders_def
      is_type_def)

text \<open>
  C20. For a game module laid out as CS2's (its imports, with the abstract
  \<open>GameBenchmark\<close> first, then the game's class), when the class is named neither
  \<open>GAMEIDBenchmark\<close> nor \<open>GameidBenchmark\<close>, the fallback picks \<open>GameBenchmark\<close>
  and \<open>create_benchmark\<close> raises \<open>TypeError\<close> instead of finding the game's class.
\<close>

theorem create_benchmark_layout_abstract:
  assumes m: "modules (benchmark_module_path (py_lower g)) = Some (game_benchmark_module cls)"
    and u: "cls \<noteq> py_upper (py_lower g) @ ''Benchmark''" and t: "cls \<noteq> py_title (py_lower g) @ ''Benchmark''"
  shows "create_benchmark modules g = Inl (TypeError (''Can'' @ [squote] @ ''t instantiate abstract class GameBenchmark''))"
  using m layout_lookup [OF u] layout_lookup [OF t] layout_first_class
  by (simp add: create_benchmark_def hasattr_def instantiate_def Let_def split: if_splits)

theorem create_benchmark_layout_abstract_witness:
  "[''katana.games.cod_mw.benchmark'' \<mapsto> game_benchmark_module ''CodMWBenchmark'']
      (benchmark_module_path (py_lower ''cod_mw'')) = Some (game_benchmark_module ''CodMWBenchmark'') \<and>
   ''CodMWBenchmark'' \<noteq> py_upper (py_lower ''cod_mw'') @ ''Benchmark'' \<and>
   ''CodMWBenchmark'' \<noteq> py_title (py_lower ''cod_mw'') @ ''Benchmark'' \<and>
   create_benchmark [''katana.games.cod_mw.benchmark'' \<mapsto> game_benchmark_module ''CodMWBenchmark''] ''cod_mw'' =
     Inl (TypeError (''Can'' @ [squote] @ ''t instantiate abstract class GameBenchmark''))"
proof -
  have h: "[''katana.games.cod_mw.benchmark'' \<mapsto> game_benchmark_module ''CodMWBenchmark'']
      (benchmark_module_path (py_lower ''cod_mw'')) = Some (game_benchmark_module ''CodMWBenchmark'')"
      "''CodMWBenchmark'' \<noteq> py_upper (py_lower ''cod_mw'') @ ''Benchmark''"
      "''CodMWBenchmark'' \<noteq> py_title (py_lower ''cod_mw'') @ ''Benchmark''"
    by (simp_all add: case_eval_simps benchmark_module_path_def ascii_letter_def)
  show ?thesis using create_benchmark_layout_abstract [where modules = "[''katana.games.cod_mw.benchmark'' \<mapsto> game_benchmark_module ''CodMWBenchmark'']" and g = "''cod_mw''" and cls = "''CodMWBenchmark''", OF h] h by simp
qed

lemma path_cs2_iff: "benchmark_module_path x = ''katana.games.cs2.benchmark'' \<longleftrightarrow> x = ''cs2''"
  by (auto simp: benchmark_module_path_def)

lemma path_not_presets: "benchmark_module_path x \<noteq> ''katana.games.cs2.presets''"
proof
  assume "benchmark_module_path x = ''katana.games.cs2.presets''"
  then have "drop (length (benchmark_module_path x) - 10) (benchmark_module_path x) =
      drop (length ''katana.games.cs2.presets'' - 10) ''katana.games.cs2.presets''" by simp
  then show False by (simp add: benchmark_module_path_def)
qed

lemma create_benchmark_katana_cs2:
  assumes "py_lower g = ''cs2''"
  shows "create_benchmark katana_modules g = Inr ''CS2Benchmark''"
proof -
  have "py_upper ''cs2'' = ''CS2''" by (simp add: case_eval_simps)
  then show ?thesis using assms
    by (simp add: create_benchmark_def katana_modules_def benchmark_module_path_def hasattr_def
        game_benchmark_module_def map_of_append map_add_def instantiate_def
        imports_lookup_Benchmark [of "''CS2''", simplified])
qed

text \<open>
  C19. With the repository's modules, \<open>create_benchmark\<close> creates \<open>CS2Benchmark\<close>
  for every capitalisation of \<open>cs2\<close> and raises the "not supported" \<open>ValueError\<close>
  for every other game id.
\<close>

theorem create_benchmark_repository:
  "create_benchmark katana_modules g =
     (if py_lower g = ''cs2'' then Inr ''CS2Benchmark''
      else Inl (ValueError (''Game '' @ [squote] @ py_lower g @ [squote] @ '' not supported or implementation not found'')))"
proof (cases "py_lower g = ''cs2''")
  case True
  then show ?thesis by (simp add: create_benchmark_katana_cs2)
next
  case False
  then show ?thesis by (simp add: create_benchmark_def katana_modules_def path_cs2_iff path_not_presets)
qed

text \<open>
  C21. \<open>GameFactory.apply_preset\<close> never applies a preset with the repository's
  modules: neither a CS2 benchmark object nor the CS2 presets module has an
  \<open>apply_preset\<close> attribute, so it returns False for every game, preset and store.
\<close>

theorem factory_apply_preset_cs2_never:
  "factory_apply_preset js pkg katana_modules call g pid None st = False \<and>
   factory_apply_preset js pkg katana_modules call g pid (Some cs2_benchmark_attrs) st = False"
proof -
  have mod: "katana_modules (''katana.games.'' @ g @ ''.presets'') = None \<or>
      katana_modules (''katana.games.'' @ g @ ''.presets'') = Some cs2_presets_module"
    by (auto simp: katana_modules_def)
  have "\<not> hasattr cs2_presets_module ''apply_preset''"
    by (simp add: hasattr_def cs2_presets_module_def module_dunders_def)
  moreover have "''apply_preset'' \<notin> set cs2_benchmark_attrs" by (simp add: cs2_benchmark_attrs_def)
  ultimately show ?thesis using mod
    by (auto simp: factory_apply_preset_def Let_def)
qed

end
