(* ===== verification/Cs2_Paths.thy ===== *)
theory Cs2_Paths
  imports Presets
begin

text \<open>
  How \<open>CS2PresetAdapter()\<close> (\<open>src/katana/games/cs2/presets.py\<close>, lines 19 to 113) finds
  the CS2 video settings file when it is given no path: \<open>_find_steam_path\<close> asks the
  Windows registry, then tries six common install locations; \<open>_find_config_path\<close> looks
  under \<open>userdata\<close> of the Steam directory, user by user in the order
  \<open>Path.iterdir\<close> yields them, for \<open>730/local/cfg/cs2_video.txt\<close>, then
  \<open>video.cfg\<close>, then \<open>video.txt\<close>.

  The host is a record: \<open>os.name\<close>, the registry's \<open>SteamPath\<close> (\<open>None\<close> where
  \<open>winreg\<close> raises, which the code catches), \<open>Path.home()\<close> (\<open>None\<close> where it raises,
  which the outer \<open>try\<close> catches) and the names \<open>iterdir\<close> yields for a directory. The
  files and directories are the store of \<open>Presets\<close>. \<open>iterdir\<close> on a path that is a
  file raises \<open>NotADirectoryError\<close>, which nothing in \<open>_find_config_path\<close> catches.
\<close>

section \<open>The host\<close>

record host =
  os_name :: string
  registry_steam :: "string option"
  home_dir :: "string option"
  listdir :: "string \<Rightarrow> string list"

section \<open>_find_steam_path\<close>

definition steam_common_paths :: "string \<Rightarrow> string list" where
  "steam_common_paths h =
     [pjoin h ''.steam/steam'', pjoin h ''Library/Application Support/Steam'',
      ''C:/Program Files (x86)/Steam'', ''C:/Program Files/Steam'',
      ''D:/Program Files (x86)/Steam'', ''D:/Program Files/Steam'']"

text \<open>
  The registry's path is returned as it is, whether or not it exists; otherwise the
  first common location that exists. Building the list calls \<open>Path.home()\<close>: when it
  raises, the outer handler logs and returns \<open>None\<close>.
\<close>

definition find_steam_path :: "host \<Rightarrow> pstore \<Rightarrow> string option" where
  "find_steam_path hst st =
     (case (if os_name hst = ''nt'' then registry_steam hst else None) of
       Some p \<Rightarrow> Some p
     | None \<Rightarrow> (case home_dir hst of
                 None \<Rightarrow> None
               | Some h \<Rightarrow> find (exists st) (steam_common_paths h)))"

section \<open>_find_config_path\<close>

definition cfg_names :: "string list" where
  "cfg_names = [''cs2_video.txt'', ''video.cfg'', ''video.txt'']"

definition user_cfg_dir :: "string \<Rightarrow> string \<Rightarrow> string" where
  "user_cfg_dir ud u = pjoin (pjoin (pjoin (pjoin ud u) ''730'') ''local'') ''cfg''"

text \<open>
  The loop over the entries of \<open>userdata\<close>: an entry that is not a directory is
  skipped; in a user's directory the first of the three names that exists is the
  result.
\<close>

fun scan_user_dirs :: "pstore \<Rightarrow> string \<Rightarrow> string list \<Rightarrow> cfg_path option" where
  "scan_user_dirs st ud [] = None"
| "scan_user_dirs st ud (u # us) =
     (if pjoin ud u \<notin> dirs st then scan_user_dirs st ud us
      else case find (\<lambda>n. exists st (pjoin (user_cfg_dir ud u) n)) cfg_names of
             Some n \<Rightarrow> Some (user_cfg_dir ud u, n)
           | None \<Rightarrow> scan_user_dirs st ud us)"

definition find_config_path :: "host \<Rightarrow> pstore \<Rightarrow> py_exc + cfg_path option" where
  "find_config_path hst st =
     (case find_steam_path hst st of
       None \<Rightarrow> Inr None
     | Some sp \<Rightarrow>
         (let ud = pjoin sp ''userdata'' in
          if \<not> exists st ud then Inr None
          else if ud \<notin> dirs st then Inl (OSError ''NotADirectoryError'')
          else Inr (scan_user_dirs st ud (listdir hst ud))))"

text \<open>
  \<open>CS2PresetAdapter(config_path)\<close>: a given path is kept; without one, the path is
  searched for. The repository constructs it without a path only.
\<close>

definition cs2_adapter_config :: "host \<Rightarrow> pstore \<Rightarrow> cfg_path option \<Rightarrow> py_exc + cfg_path option" where
  "cs2_adapter_config hst st config_path =
     (case config_path of Some p \<Rightarrow> Inr (Some p) | None \<Rightarrow> find_config_path hst st)"



section \<open>Lemmas: the scan of the user directories\<close>

lemma find_cfg_name: "find (\<lambda>n. exists st (pjoin d n)) cfg_names = Some n \<Longrightarrow>
   exists st (pjoin d n) \<and> n \<in> set cfg_names"
  by (auto simp: find_Some_iff in_set_conv_nth)

lemma scan_user_dirs_sound:
  "scan_user_dirs st ud us = Some p \<Longrightarrow>
   exists st (cfg_file p) \<and> snd p \<in> set cfg_names \<and>
   (\<exists>u\<in>set us. pjoin ud u \<in> dirs st \<and> fst p = user_cfg_dir ud u)"
  by (induction us) (auto simp: cfg_file_def dest!: find_cfg_name split: if_splits option.splits)

lemma scan_user_dirs_complete:
  "u \<in> set us \<Longrightarrow> pjoin ud u \<in> dirs st \<Longrightarrow> n \<in> set cfg_names \<Longrightarrow>
   exists st (pjoin (user_cfg_dir ud u) n) \<Longrightarrow> scan_user_dirs st ud us \<noteq> None"
  by (induction us) (auto split: option.splits simp: find_None_iff)


lemma find_config_path_cases:
  "find_config_path hst st = Inr (Some p) \<Longrightarrow>
   \<exists>sp. find_steam_path hst st = Some sp \<and> pjoin sp ''userdata'' \<in> dirs st \<and>
     scan_user_dirs st (pjoin sp ''userdata'') (listdir hst (pjoin sp ''userdata'')) = Some p"
  by (auto simp: find_config_path_def Let_def split: option.splits if_splits)

section \<open>Properties of the path discovery\<close>

text \<open>
  C24. A configuration path the search returns names a file or directory that exists,
  with one of the three names the code looks for, in \<open>730/local/cfg\<close> of a user
  directory listed under \<open>userdata\<close> of the Steam path found.
\<close>

theorem find_config_path_sound:
  assumes "find_config_path hst st = Inr (Some p)"
  shows "exists st (cfg_file p) \<and> snd p \<in> set cfg_names \<and>
    (\<exists>sp u. find_steam_path hst st = Some sp \<and> u \<in> set (listdir hst (pjoin sp ''userdata'')) \<and>
       pjoin (pjoin sp ''userdata'') u \<in> dirs st \<and> fst p = user_cfg_dir (pjoin sp ''userdata'') u)"
  using find_config_path_cases [OF assms] by (blast dest: scan_user_dirs_sound)

theorem find_config_path_sound_witness:
  "find_config_path \<lparr>os_name = ''posix'', registry_steam = None, home_dir = Some ''/home/p'',
       listdir = (\<lambda>_. [''42''])\<rparr>
     \<lparr>files = [''/home/p/.steam/steam/userdata/42/730/local/cfg/video.txt'' \<mapsto> ''v''],
      dirs = {''/home/p/.steam/steam'', ''/home/p/.steam/steam/userdata'', ''/home/p/.steam/steam/userdata/42''},
      writable = True, fstamp = ''t''\<rparr> = Inr (Some (''/home/p/.steam/steam/userdata/42/730/local/cfg'', ''video.txt'')) \<and>
   snd (''/home/p/.steam/steam/userdata/42/730/local/cfg'', ''video.txt'') \<in> set cfg_names"
proof -
  have h: "find_config_path \<lparr>os_name = ''posix'', registry_steam = None, home_dir = Some ''/home/p'',
       listdir = (\<lambda>_. [''42''])\<rparr>
     \<lparr>files = [''/home/p/.steam/steam/userdata/42/730/local/cfg/video.txt'' \<mapsto> ''v''],
      dirs = {''/home/p/.steam/steam'', ''/home/p/.steam/steam/userdata'', ''/home/p/.steam/steam/userdata/42''},
      writable = True, fstamp = ''t''\<rparr> = Inr (Some (''/home/p/.steam/steam/userdata/42/730/local/cfg'', ''video.txt''))"
    by (simp add: find_config_path_def find_steam_path_def steam_common_paths_def exists_def pjoin_def
        cfg_names_def user_cfg_dir_def)
  show ?thesis using find_config_path_sound [OF h] h by simp
qed

text \<open>
  C25. The search finds a configuration whenever one exists where it looks: if the
  Steam path is found, its \<open>userdata\<close> is a directory, and a directory listed there
  holds one of the three names in \<open>730/local/cfg\<close>, a path is returned.
\<close>

theorem find_config_path_complete:
  assumes "find_steam_path hst st = Some sp" "pjoin sp ''userdata'' \<in> dirs st"
    "u \<in> set (listdir hst (pjoin sp ''userdata''))" "pjoin (pjoin sp ''userdata'') u \<in> dirs st"
    "n \<in> set cfg_names" "exists st (pjoin (user_cfg_dir (pjoin sp ''userdata'') u) n)"
  shows "\<exists>p. find_config_path hst st = Inr (Some p)"
  using scan_user_dirs_complete [OF assms(3-6)] assms(1,2)
  by (auto simp: find_config_path_def exists_def)

theorem find_config_path_complete_witness:
  "\<exists>p. find_config_path \<lparr>os_name = ''posix'', registry_steam = None, home_dir = Some ''/home/p'',
       listdir = (\<lambda>_. [''7'', ''42''])\<rparr>
     \<lparr>files = [''/home/p/.steam/steam/userdata/7'' \<mapsto> ''x'',
               ''/home/p/.steam/steam/userdata/42/730/local/cfg/video.cfg'' \<mapsto> ''v''],
      dirs = {''/home/p/.steam/steam'', ''/home/p/.steam/steam/userdata'', ''/home/p/.steam/steam/userdata/42''},
      writable = True, fstamp = ''t''\<rparr> = Inr (Some p)"
  by (rule find_config_path_complete [where sp = "''/home/p/.steam/steam''" and u = "''42''" and n = "''video.cfg''"])
    (simp_all add: find_steam_path_def steam_common_paths_def exists_def pjoin_def cfg_names_def user_cfg_dir_def)

text \<open>
  C26. When \<open>userdata\<close> under the Steam path is a file, \<open>iterdir\<close> raises
  \<open>NotADirectoryError\<close> and nothing in \<open>_find_config_path\<close> catches it: the search
  raises instead of reporting that no path was found.
\<close>

theorem find_config_path_userdata_file:
  assumes "find_steam_path hst st = Some sp" "files st (pjoin sp ''userdata'') \<noteq> None"
    "pjoin sp ''userdata'' \<notin> dirs st"
  shows "find_config_path hst st = Inl (OSError ''NotADirectoryError'')"
  using assms by (auto simp: find_config_path_def exists_def Let_def)

theorem find_config_path_userdata_file_witness:
  "find_config_path \<lparr>os_name = ''posix'', registry_steam = None, home_dir = Some ''/home/p'',
       listdir = (\<lambda>_. [])\<rparr>
     \<lparr>files = [''/home/p/.steam/steam/userdata'' \<mapsto> ''x''], dirs = {''/home/p/.steam/steam''},
      writable = True, fstamp = ''t''\<rparr> = Inl (OSError ''NotADirectoryError'')"
  by (rule find_config_path_userdata_file [where sp = "''/home/p/.steam/steam''"])
    (simp_all add: find_steam_path_def steam_common_paths_def exists_def pjoin_def)

text \<open>
  C27. On Windows the registry's \<open>SteamPath\<close> is returned without checking that it
  exists: whenever the registry names a Steam folder without a \<open>userdata\<close> entry (a stale
  entry of a moved installation), the search finds no configuration, whatever the
  common locations hold.
\<close>

theorem find_config_path_stale_registry:
  assumes "os_name hst = ''nt''" and "registry_steam hst = Some r"
    and "\<not> exists st (pjoin r ''userdata'')"
  shows "find_config_path hst st = Inr None"
  using assms by (simp add: find_config_path_def find_steam_path_def)

text \<open>
  A stale registry entry \<open>E:/Steam\<close> hides the configuration of the installation in
  \<open>C:/Program Files (x86)/Steam\<close>, which the search finds once the registry entry is gone.
\<close>

theorem find_config_path_stale_registry_witness:
  "find_config_path \<lparr>os_name = ''nt'', registry_steam = Some ''E:/Steam'', home_dir = Some ''C:/Users/p'',
       listdir = (\<lambda>_. [''42''])\<rparr>
     \<lparr>files = [''C:/Program Files (x86)/Steam/userdata/42/730/local/cfg/cs2_video.txt'' \<mapsto> ''v''],
      dirs = {''C:/Program Files (x86)/Steam'', ''C:/Program Files (x86)/Steam/userdata'',
              ''C:/Program Files (x86)/Steam/userdata/42''},
      writable = True, fstamp = ''t''\<rparr> = Inr None \<and>
   find_config_path \<lparr>os_name = ''nt'', registry_steam = None, home_dir = Some ''C:/Users/p'',
       listdir = (\<lambda>_. [''42''])\<rparr>
     \<lparr>files = [''C:/Program Files (x86)/Steam/userdata/42/730/local/cfg/cs2_video.txt'' \<mapsto> ''v''],
      dirs = {''C:/Program Files (x86)/Steam'', ''C:/Program Files (x86)/Steam/userdata'',
              ''C:/Program Files (x86)/Steam/userdata/42''},
      writable = True, fstamp = ''t''\<rparr> =
     Inr (Some (''C:/Program Files (x86)/Steam/userdata/42/730/local/cfg'', ''cs2_video.txt''))"
proof -
  have h: "\<not> exists \<lparr>files = [''C:/Program Files (x86)/Steam/userdata/42/730/local/cfg/cs2_video.txt'' \<mapsto> ''v''],
      dirs = {''C:/Program Files (x86)/Steam'', ''C:/Program Files (x86)/Steam/userdata'',
              ''C:/Program Files (x86)/Steam/userdata/42''},
      writable = True, fstamp = ''t''\<rparr> (pjoin ''E:/Steam'' ''userdata'')"
    by (simp add: exists_def pjoin_def)
  have "find_config_path \<lparr>os_name = ''nt'', registry_steam = None, home_dir = Some ''C:/Users/p'',
       listdir = (\<lambda>_. [''42''])\<rparr>
     \<lparr>files = [''C:/Program Files (x86)/Steam/userdata/42/730/local/cfg/cs2_video.txt'' \<mapsto> ''v''],
      dirs = {''C:/Program Files (x86)/Steam'', ''C:/Program Files (x86)/Steam/userdata'',
              ''C:/Program Files (x86)/Steam/userdata/42''},
      writable = True, fstamp = ''t''\<rparr> =
     Inr (Some (''C:/Program Files (x86)/Steam/userdata/42/730/local/cfg'', ''cs2_video.txt''))"
    by (simp add: find_config_path_def find_steam_path_def steam_common_paths_def exists_def pjoin_def
        cfg_names_def user_cfg_dir_def)
  then show ?thesis using find_config_path_stale_registry [OF _ _ h] by simp
qed

end
