(* ===== verification/Cli.thy ===== *)
theory Cli
  imports Factory Cs2_Benchmark Cs2_Paths
begin

text \<open>
  The command-line entry point (\<open>src/katana/main.py\<close>): Python's \<open>int()\<close> of the
  console's answers, the four prompts, the preset manager set up for the chosen game, and
  \<open>main()\<close>, which chooses the game and the preset, applies the preset, creates the
  benchmark through the factory and runs the series.

  The console is the list of lines still to be read; \<open>input()\<close> at its end raises
  \<open>EOFError\<close>. Each prompt reads one line per iteration, so it ends on every console.
  What is printed is not modelled. \<open>argparse\<close> is a library the sources only call: its
  result is the record \<open>cli_args\<close>, with the \<open>choices\<close> check of \<open>--game\<close>, whose failure
  is exit status 2. The environment gives what \<open>main\<close> finds on the machine: the games
  \<open>GameFactory.get_available_games()\<close> lists, the JSON parser, the host on which
  \<open>CS2PresetAdapter()\<close> searches for the video config (\<open>Cs2_Paths\<close>) and the desktop
  world the benchmark runs on.
\<close>

section \<open>int() of a string\<close>

text \<open>Decimal digits with single underscores between them, as \<open>int()\<close> accepts them.\<close>

fun digits_ok :: "string \<Rightarrow> bool" where
  "digits_ok [] = False"
| "digits_ok [c] = py_isdigit c"
| "digits_ok (c # d # r) = (py_isdigit c \<and> (if d = CHR ''_'' then digits_ok r else digits_ok (d # r)))"

definition digits_value :: "string \<Rightarrow> nat" where
  "digits_value s = foldl (\<lambda>acc c. 10 * acc + digit_val c) 0 (filter py_isdigit s)"

text \<open>\<open>int(s)\<close>: surrounding whitespace, an optional sign, then the digits; \<open>None\<close> where it raises \<open>ValueError\<close>.\<close>

definition py_int :: "string \<Rightarrow> int option" where
  "py_int s0 =
     (let s = py_strip s0 in
      case s of
        [] \<Rightarrow> None
      | c # r \<Rightarrow>
          if c = CHR ''-'' then (if digits_ok r then Some (- int (digits_value r)) else None)
          else if c = CHR ''+'' then (if digits_ok r then Some (int (digits_value r)) else None)
          else if digits_ok s then Some (int (digits_value s)) else None)"

section \<open>The prompts\<close>

text \<open>\<open>prompt_for_game(available_games)\<close>: a number between 1 and the number of games.\<close>

fun prompt_for_game :: "string list \<Rightarrow> string list \<Rightarrow> (py_exc + string) \<times> string list" where
  "prompt_for_game games [] = (Inl EOFError, [])"
| "prompt_for_game games (l # ls) =
     (case py_int (py_strip l) of
       None \<Rightarrow> prompt_for_game games ls
     | Some k \<Rightarrow>
         (let index = k - 1 in
          if 0 \<le> index \<and> index < int (length games) then (Inr (games ! nat index), ls)
          else prompt_for_game games ls))"

text \<open>\<open>prompt_for_runs()\<close>: a positive number.\<close>

fun prompt_for_runs :: "string list \<Rightarrow> (py_exc + int) \<times> string list" where
  "prompt_for_runs [] = (Inl EOFError, [])"
| "prompt_for_runs (l # ls) =
     (case py_int (py_strip l) of
       None \<Rightarrow> prompt_for_runs ls
     | Some runs \<Rightarrow> if runs > 0 then (Inr runs, ls) else prompt_for_runs ls)"

text \<open>\<open>prompt_for_cooldown()\<close>: a non-negative number.\<close>

fun prompt_for_cooldown :: "string list \<Rightarrow> (py_exc + int) \<times> string list" where
  "prompt_for_cooldown [] = (Inl EOFError, [])"
| "prompt_for_cooldown (l # ls) =
     (case py_int (py_strip l) of
       None \<Rightarrow> prompt_for_cooldown ls
     | Some cooldown \<Rightarrow> if cooldown \<ge> 0 then (Inr cooldown, ls) else prompt_for_cooldown ls)"

text \<open>
  The loop of \<open>prompt_for_preset\<close>: 0 keeps the current settings; a listed number whose
  preset file has gone also gives \<open>None\<close>.
\<close>

fun preset_choice :: "pmanager \<Rightarrow> string \<Rightarrow> string list \<Rightarrow> pstore \<Rightarrow> string list \<Rightarrow>
    (py_exc + string option) \<times> string list" where
  "preset_choice m gid ids st [] = (Inl EOFError, [])"
| "preset_choice m gid ids st (l # ls) =
     (let choice = py_strip l in
      if choice = ''0'' then (Inr None, ls)
      else
        (case py_int choice of
          None \<Rightarrow> preset_choice m gid ids st ls
        | Some k \<Rightarrow>
            (let index = k - 1 in
             if 0 \<le> index \<and> index < int (length ids) then
               (let preset_id = ids ! nat index in
                if \<not> exists st (preset_file m gid preset_id) then (Inr None, ls)
                else (Inr (Some preset_id), ls))
             else preset_choice m gid ids st ls)))"

definition prompt_for_preset :: "json_lib \<Rightarrow> pmanager \<Rightarrow> string \<Rightarrow> pstore \<Rightarrow> string list \<Rightarrow>
    (py_exc + string option) \<times> string list" where
  "prompt_for_preset js m gid st inp =
     (let presets = get_available_presets js m gid st in
      if presets = [] then (Inr None, inp)
      else preset_choice m gid (map fst presets) st inp)"

text \<open>
  \<open>get_preset_manager(game_id)\<close>: the CS2 adapter is registered for \<open>cs2\<close> only.
  Constructing it searches for the video settings file (\<open>Cs2_Paths\<close>); an exception of
  that search propagates.
\<close>

definition get_preset_manager :: "host \<Rightarrow> pstore \<Rightarrow> string \<Rightarrow> py_exc + pmanager" where
  "get_preset_manager hst st gid =
     (let pm = new_preset_manager None in
      if py_lower gid = ''cs2'' then
        (case cs2_adapter_config hst st None of
          Inl e \<Rightarrow> Inl e
        | Inr c \<Rightarrow> Inr (register_adapter ''cs2'' (cs2_preset_adapter c) pm))
      else Inr pm)"

section \<open>main()\<close>

record cli_args =
  arg_game :: "string option"
  arg_runs :: "int option"
  arg_cooldown :: "int option"
  arg_list :: bool
  arg_preset :: "string option"
  arg_list_presets :: bool

record cli_env =
  env_games :: "string list"
  env_json :: json_lib
  env_host :: host
  env_world :: world

record cli_state =
  console :: "string list"
  fstore :: pstore
  bench_run :: "bench option"

text \<open>
  The object \<open>benchmark_class()\<close> creates, for the classes of the repository's modules:
  \<open>CS2Benchmark()\<close> on the environment's desktop, with the CS2 methods.
\<close>

definition instance_of_class :: "string \<Rightarrow> world \<Rightarrow> (bench game_ops \<times> bench) option" where
  "instance_of_class cls w = (if cls = ''CS2Benchmark'' then Some (cs2_ops, cs2_init w) else None)"

text \<open>A configuration value passed on as \<open>run_count\<close> or \<open>cooldown\<close>: an integer.\<close>

definition cfg_int :: "cfg_val \<Rightarrow> py_exc + int" where
  "cfg_int v = (case v of CInt i \<Rightarrow> Inr i
                 | CReal _ \<Rightarrow> Inl (TypeError ''float object cannot be interpreted as an integer'')
                 | CStr _ \<Rightarrow> Inl (TypeError ''str object cannot be interpreted as an integer''))"

text \<open>
  A parameter of the series: the command-line value, else the benchmark's config value
  under \<open>key\<close>, else the answer to \<open>prompt\<close>.
\<close>

definition series_param :: "int option \<Rightarrow> (string \<times> cfg_val) list \<Rightarrow> string \<Rightarrow>
    (string list \<Rightarrow> (py_exc + int) \<times> string list) \<Rightarrow> string list \<Rightarrow> (py_exc + int) \<times> string list" where
  "series_param arg cfgs key prompt inp =
     (case arg of
       Some v \<Rightarrow> (Inr v, inp)
     | None \<Rightarrow> (case map_of cfgs key of Some v \<Rightarrow> (cfg_int v, inp) | None \<Rightarrow> prompt inp))"

text \<open>
  The \<open>try\<close> block of \<open>main\<close>: create the benchmark, get the number of runs and the
  cooldown, run the series. Every exception, \<open>EOFError\<close> of the prompts included, is
  caught and gives exit status 1.
\<close>

definition main_run :: "cli_env \<Rightarrow> cli_args \<Rightarrow> string \<Rightarrow> cli_state \<Rightarrow> (py_exc + int) \<times> cli_state" where
  "main_run env args gid cs =
     (case create_benchmark katana_modules gid of
       Inl _ \<Rightarrow> (Inr 1, cs)
     | Inr cls \<Rightarrow>
         (case instance_of_class cls (env_world env) of
           None \<Rightarrow> (Inr 1, cs)
         | Some (ops, b) \<Rightarrow>
             (case series_param (arg_runs args) (configs b) ''default_runs'' prompt_for_runs (console cs) of
               (Inl _, inp1) \<Rightarrow> (Inr 1, cs\<lparr>console := inp1\<rparr>)
             | (Inr runs, inp1) \<Rightarrow>
                 (case series_param (arg_cooldown args) (configs b) ''cooldown'' prompt_for_cooldown inp1 of
                   (Inl _, inp2) \<Rightarrow> (Inr 1, cs\<lparr>console := inp2\<rparr>)
                 | (Inr cooldown, inp2) \<Rightarrow>
                     (case run_benchmark_series ops runs cooldown b of
                       (Inl _, b') \<Rightarrow> (Inr 1, cs\<lparr>console := inp2, bench_run := Some b'\<rparr>)
                     | (Inr _, b') \<Rightarrow> (Inr 0, cs\<lparr>console := inp2, bench_run := Some b'\<rparr>))))))"

text \<open>
  \<open>main()\<close>: the exit status, or the exception a prompt before the \<open>try\<close> block raises.
  A preset is applied, with backup, when one is given or chosen and is not empty; when it
  fails, \<open>main\<close> stops with status 1.
\<close>

definition main :: "cli_env \<Rightarrow> cli_args \<Rightarrow> cli_state \<Rightarrow> (py_exc + int) \<times> cli_state" where
  "main env args cs =
     (if (case arg_game args of Some g \<Rightarrow> g \<notin> set (env_games env) | None \<Rightarrow> False) then (Inr 2, cs)
      else if arg_list args then (Inr 0, cs)
      else if env_games env = [] then (Inr 1, cs)
      else
        (case (case arg_game args of Some g \<Rightarrow> (Inr g, console cs)
                | None \<Rightarrow> prompt_for_game (env_games env) (console cs)) of
          (Inl e, inp) \<Rightarrow> (Inl e, cs\<lparr>console := inp\<rparr>)
        | (Inr gid, inp) \<Rightarrow>
            (case get_preset_manager (env_host env) (fstore cs) gid of
              Inl e \<Rightarrow> (Inl e, cs\<lparr>console := inp\<rparr>)
            | Inr pm \<Rightarrow>
             if arg_list_presets args then (Inr 0, cs\<lparr>console := inp\<rparr>)
             else
               (case (case arg_preset args of Some p \<Rightarrow> (Inr (Some p), inp)
                       | None \<Rightarrow> prompt_for_preset (env_json env) pm gid (fstore cs) inp) of
                 (Inl e, inp') \<Rightarrow> (Inl e, cs\<lparr>console := inp'\<rparr>)
               | (Inr preset_id, inp') \<Rightarrow>
                   (let cs1 = cs\<lparr>console := inp'\<rparr> in
                    case preset_id of
                      Some p \<Rightarrow>
                        if p = [] then main_run env args gid cs1
                        else
                          (case apply_preset (env_json env) pm gid p True (fstore cs1) of
                            (False, st') \<Rightarrow> (Inr 1, cs1\<lparr>fstore := st'\<rparr>)
                          | (True, st') \<Rightarrow> main_run env args gid (cs1\<lparr>fstore := st'\<rparr>))
                    | None \<Rightarrow> main_run env args gid cs1)))))"

section \<open>Lemmas: the prompts and the paths of main\<close>

text \<open>
  C22. \<open>prompt_for_runs\<close> ends on every console: it returns the first answer that
  \<open>int()\<close> reads as a positive number, with the lines after it still to be read, and
  raises \<open>EOFError\<close> when no such answer comes before the input ends.
\<close>

theorem prompt_for_runs_first_positive:
  "prompt_for_runs inp =
     (case dropWhile (\<lambda>l. case py_int (py_strip l) of Some n \<Rightarrow> \<not> 0 < n | None \<Rightarrow> True) inp of
       [] \<Rightarrow> (Inl EOFError, [])
     | l # rest \<Rightarrow> (Inr (the (py_int (py_strip l))), rest))"
  by (induction inp) (auto split: option.splits)

lemma prompt_for_game_in: "prompt_for_game games inp = (Inr g, rest) \<Longrightarrow> g \<in> set games"
  by (induction inp) (auto simp: Let_def split: option.splits if_splits intro!: nth_mem)

lemma main_run_bench: "main_run env args g cs = (r, cs') \<Longrightarrow> bench_run cs' \<noteq> bench_run cs \<Longrightarrow>
    (\<exists>b'. bench_run cs' = Some b')"
  by (auto simp: main_run_def split: sum.splits option.splits prod.splits)

lemma main_run_exI:
  "main_run env args g cs1 = x \<Longrightarrow> g \<in> S \<Longrightarrow> bench_run cs1 = b \<Longrightarrow>
    \<exists>g. g \<in> S \<and> (\<exists>cs1. bench_run cs1 = b \<and> main_run env args g cs1 = x)"
  by blast

lemma main_bench_created:
  assumes "main env args cs = (r, cs')" "bench_run cs' \<noteq> bench_run cs"
  shows "\<exists>g cs1. g \<in> set (env_games env) \<and> bench_run cs1 = bench_run cs \<and> main_run env args g cs1 = (r, cs')"
  using assms
  apply (auto simp: main_def Let_def split: option.splits if_splits prod.splits sum.splits bool.splits)
  apply (rule main_run_exI, assumption, (fastforce dest: prompt_for_game_in), simp)+
  done

lemma main_run_cs2:
  assumes "py_lower g = ''cs2''" "arg_runs args = None" "arg_cooldown args = None"
  shows "main_run env args g cs =
    (case run_benchmark_series cs2_ops 4 120 (cs2_init (env_world env)) of
      (Inl _, b') \<Rightarrow> (Inr 1, cs\<lparr>bench_run := Some b'\<rparr>)
    | (Inr _, b') \<Rightarrow> (Inr 0, cs\<lparr>bench_run := Some b'\<rparr>))"
proof -
  have c: "map_of (configs (cs2_init w)) ''default_runs'' = Some (CInt 4)"
    "map_of (configs (cs2_init w)) ''cooldown'' = Some (CInt 120)" for w
    by (simp_all add: cs2_init_fields CONFIG_def)
  show ?thesis
    using assms by (simp add: main_run_def create_benchmark_katana_cs2 instance_of_class_def series_param_def
        cfg_int_def c split: prod.split sum.split)
qed


lemma main_with_preset:
  assumes "arg_game args = Some g" "g \<in> set (env_games env)" "\<not> arg_list args" "\<not> arg_list_presets args"
    and "arg_preset args = Some p"
    and "get_preset_manager (env_host env) (fstore cs) g = Inr pm"
  shows "main env args cs =
    (if p = [] then main_run env args g cs
     else case apply_preset (env_json env) pm g p True (fstore cs) of
       (False, st') \<Rightarrow> (Inr 1, cs\<lparr>fstore := st'\<rparr>)
     | (True, st') \<Rightarrow> main_run env args g (cs\<lparr>fstore := st'\<rparr>))"
  using assms by (auto simp: main_def Let_def split: prod.split bool.split)

lemma main_preset_manager_error:
  assumes "arg_game args = Some g" "g \<in> set (env_games env)" "\<not> arg_list args"
    and "get_preset_manager (env_host env) (fstore cs) g = Inl e"
  shows "main env args cs = (Inl e, cs)"
  using assms by (auto simp: main_def)

end
