(* ===== verification/Bench_Output.thy ===== *)
theory Bench_Output
  imports Factory Cs2_Benchmark
begin

text \<open>
  What a benchmark writes and what it checks before it runs
  (\<open>src/katana/core/benchmark.py\<close>, \<open>src/katana/games/cs2/benchmark.py\<close>): the JSON
  document of \<open>BenchmarkResult.to_json\<close> and \<open>GameBenchmark.check_assets\<close> with the
  assets directory of \<open>__init__\<close>.

  JSON values are a datatype; \<open>json.dumps\<close> only renders the value as text and is not
  modelled. The asset files are the store of \<open>Presets\<close>.
\<close>

section \<open>BenchmarkResult.to_json\<close>

datatype jval = JNull | JBool bool | JInt int | JFloat real | JStr string | JObj "(string \<times> jval) list"

definition json_num :: "real option \<Rightarrow> jval" where
  "json_num x = (case x of None \<Rightarrow> JNull | Some r \<Rightarrow> JFloat r)"

text \<open>
  The dictionary \<open>to_json\<close> dumps. \<open>str(self.screenshot_path) if self.screenshot_path
  else None\<close>: an empty path is falsy and written as \<open>null\<close>. \<open>raw_data\<close> is the empty
  dictionary \<open>__init__\<close> sets; no code of the repository writes it.
\<close>

definition to_json :: "bresult \<Rightarrow> jval" where
  "to_json r = JObj
     [(''game_id'', JStr (r_game_id r)), (''run_id'', JInt (r_run_id r)),
      (''timestamp'', JStr (r_timestamp r)), (''duration'', json_num (r_duration r)),
      (''avg_fps'', json_num (r_avg_fps r)), (''min_fps'', json_num (r_min_fps r)),
      (''max_fps'', json_num (r_max_fps r)),
      (''screenshot_path'', (case r_screenshot_path r of
                               None \<Rightarrow> JNull
                             | Some p \<Rightarrow> if p = [] then JNull else JStr p)),
      (''raw_data'', JObj [])]"

section \<open>GameBenchmark.check_assets\<close>

text \<open>
  \<open>assets_dir\<close> of \<open>GameBenchmark.__init__\<close> when none is given:
  \<open>katana/games/<game_id.lower()>/assets\<close>. \<open>CS2Benchmark.__init__\<close> sets
  \<open>games/cs2/assets\<close> beside its module.
\<close>

definition default_assets_dir :: "string \<Rightarrow> string" where
  "default_assets_dir gid = pjoin (pjoin (pjoin ''katana'' ''games'') (py_lower gid)) ''assets''"

definition cs2_assets_dir :: string where
  "cs2_assets_dir = pjoin (pjoin (pjoin ''katana'' ''games'') ''cs2'') ''assets''"

text \<open>\<open>check_assets(required_assets)\<close>: the missing files are logged; the result is whether there are none.\<close>

definition missing_assets :: "pstore \<Rightarrow> string \<Rightarrow> string list \<Rightarrow> string list" where
  "missing_assets st d required = filter (\<lambda>f. files st (pjoin d f) = None) required"

definition check_assets :: "pstore \<Rightarrow> string \<Rightarrow> string list \<Rightarrow> bool" where
  "check_assets st d required = (missing_assets st d required = [])"

text \<open>A detector query for a template that is a file of the assets directory.\<close>

definition asset_present :: "pstore \<Rightarrow> string \<Rightarrow> action \<Rightarrow> bool" where
  "asset_present st d a = (case a of Detect n _ \<Rightarrow> files st (pjoin d n) \<noteq> None | _ \<Rightarrow> True)"

section \<open>Lemmas: JSON numbers, the CS2 teardown's looks, the asset check\<close>

lemma json_num_inj: "json_num x = json_num y \<Longrightarrow> x = y"
  by (cases x; cases y) (simp_all add: json_num_def)





lemma cs2_teardown_adv:
  assumes "\<And>k n. P (Press k n)" "\<And>x y. P (Click x y)" "\<And>b. P (Detect ''power_button.png'' b)"
    "\<And>b. P (Detect ''quit_button.png'' b)" "P (Hotkey [''alt'', ''f4''])"
  shows "advances P s (snd (cs2_teardown s))"
proof -
  define s2 where "s2 = pass_time 4 (snd (press_key ''`'' 1 (pass_time 10 s)))"
  have a2: "advances P s s2" unfolding s2_def
    by (intro advances_pass_time_after advances_step_snd [OF advances_pass_time adv_press_key])
      (simp_all add: assms(1))
  obtain b3 s3' where w3: "wait_for_template ''power_button.png'' 10 s2 = (b3, s3')" by fastforce
  define s3 where "s3 = (if b3 then pass_time 2 (snd (click_template_default ''power_button.png'' s3')) else s3')"
  have a3': "advances P s s3'" by (rule advances_step [OF a2 adv_wait_for_template w3]) (rule assms(3))
  have a3: "advances P s s3" unfolding s3_def
    using a3' by (auto intro!: advances_pass_time_after advances_step_snd [OF _ adv_click_template] assms(2,3))
  obtain b4 s4 where w4: "wait_for_template ''quit_button.png'' 10 s3 = (b4, s4)" by fastforce
  have a4: "advances P s s4" by (rule advances_step [OF a3 adv_wait_for_template w4]) (rule assms(4))
  have td: "cs2_teardown s = (if b4 then (Inr True, pass_time 5 (snd (click_template_default ''quit_button.png'' s4)))
       else if failsafe s4 then (Inl FailSafeException, s4)
       else (Inr True, pass_time 5 (emit (Hotkey [''alt'', ''f4'']) s4)))"
    using w3 w4 by (cases b3; cases b4) (simp_all add: cs2_teardown_def s2_def s3_def Let_def)
  show ?thesis unfolding td
    using a4 by (auto intro!: advances_pass_time_after advances_emit_after
        advances_step_snd [OF _ adv_click_template] assms(2,4,5))
qed

lemma asset_present_atoms:
  assumes "check_assets st d REQUIRED_ASSETS" "n \<in> set REQUIRED_ASSETS"
  shows "asset_present st d (Detect n b)"
  using assms by (auto simp: check_assets_def missing_assets_def asset_present_def filter_empty_conv)

lemma cs2_template_atoms:
  assumes "\<And>n b. n \<in> set REQUIRED_ASSETS \<Longrightarrow> P (Detect n b)"
  shows "\<And>b. P (Detect ''play_tab.png'' b)" "\<And>b. P (Detect ''go_button.png'' b)"
    "\<And>b. P (Detect ''benchmark_first_frame.png'' b)" "\<And>b. P (Detect ''benchmark_end_screen.png'' b)"
    "\<And>b. P (Detect ''power_button.png'' b)" "\<And>b. P (Detect ''quit_button.png'' b)"
    "\<And>n b. n \<in> {''play_tab.png'', ''workshop_tab.png'', ''cs2_fps_benchmark.png''} \<Longrightarrow> P (Detect n b)"
  by (auto intro!: assms simp: REQUIRED_ASSETS_def)

section \<open>Properties of the saved result and the asset check\<close>

text \<open>
  C29. The saved document loses nothing of the result: two results whose screenshot
  paths are not the empty string have the same JSON document exactly when they are
  equal. (An empty path is written as \<open>null\<close>, like a missing one.)
\<close>

theorem to_json_injective:
  assumes "r_screenshot_path r \<noteq> Some []" "r_screenshot_path r' \<noteq> Some []"
  shows "to_json r = to_json r' \<longleftrightarrow> r = r'"
proof
  assume j: "to_json r = to_json r'"
  have s: "r_screenshot_path r = r_screenshot_path r'"
    using assms j by (auto simp: to_json_def split: option.splits if_splits)
  show "r = r'" using j s by (intro bresult.equality) (auto simp: to_json_def dest: json_num_inj)
qed simp

text \<open>Two results of a series that differ only in their run id are saved as different documents.\<close>

theorem to_json_injective_witness:
  "to_json \<lparr>r_game_id = ''cs2'', r_run_id = 1, r_timestamp = ''20250101_000000'',
      r_duration = Some 60, r_avg_fps = None, r_min_fps = None, r_max_fps = None,
      r_screenshot_path = Some ''results/screenshots/cs2_run1.png''\<rparr> \<noteq>
   to_json \<lparr>r_game_id = ''cs2'', r_run_id = 2, r_timestamp = ''20250101_000000'',
      r_duration = Some 60, r_avg_fps = None, r_min_fps = None, r_max_fps = None,
      r_screenshot_path = Some ''results/screenshots/cs2_run1.png''\<rparr>"
proof -
  have "\<lparr>r_game_id = ''cs2'', r_run_id = 1, r_timestamp = ''20250101_000000'',
      r_duration = Some 60, r_avg_fps = None, r_min_fps = None, r_max_fps = None,
      r_screenshot_path = Some ''results/screenshots/cs2_run1.png''\<rparr> \<noteq>
    \<lparr>r_game_id = ''cs2'', r_run_id = 2, r_timestamp = ''20250101_000000'',
      r_duration = Some 60, r_avg_fps = None, r_min_fps = None, r_max_fps = None,
      r_screenshot_path = Some ''results/screenshots/cs2_run1.png''\<rparr>" by simp
  then show ?thesis
    using to_json_injective [of "\<lparr>r_game_id = ''cs2'', r_run_id = 1, r_timestamp = ''20250101_000000'',
      r_duration = Some 60, r_avg_fps = None, r_min_fps = None, r_max_fps = None,
      r_screenshot_path = Some ''results/screenshots/cs2_run1.png''\<rparr>"
      "\<lparr>r_game_id = ''cs2'', r_run_id = 2, r_timestamp = ''20250101_000000'',
      r_duration = Some 60, r_avg_fps = None, r_min_fps = None, r_max_fps = None,
      r_screenshot_path = Some ''results/screenshots/cs2_run1.png''\<rparr>"] by simp
qed

text \<open>
  C30. Every template a CS2 method looks for is one \<open>check_assets\<close> requires: when the
  check of \<open>CS2Benchmark.__init__\<close> passes on the assets directory, every method of
  \<open>CS2Benchmark\<close> keeps the benchmark frame with every detector query naming a file
  of that directory.
\<close>

theorem cs2_methods_look_for_checked_assets:
  assumes "check_assets st cs2_assets_dir REQUIRED_ASSETS"
  shows "ops_frame (\<lambda>a. cs2_action a \<and> asset_present st cs2_assets_dir a) cs2_ops"
proof -
  let ?P = "\<lambda>a. cs2_action a \<and> asset_present st cs2_assets_dir a"
  have d: "?P (Detect n b)" if "n \<in> set REQUIRED_ASSETS" for n b
    using asset_present_atoms [OF assms that] by (simp add: cs2_action_def)
  note t = cs2_template_atoms [of ?P, OF d]
  have o: "?P (Activate t)" "?P (Press k m)" "?P (Click x y)" "?P (Screenshot p)" "?P (Hotkey ks)" for t k m x y p ks
    by (simp_all add: cs2_action_def asset_present_def)
  note f = cs2_focus_bstep [of ?P, OF o(1)]
    and w = cs2_wait_until_ready_bstep [of ?P, OF o(2) t(1)]
    and n = cs2_navigate_bstep [of ?P, OF o(3) t(7)]
    and st = cs2_start_bstep [of ?P, OF o(3) t(2) t(3)]
    and c = cs2_collect_bstep [of ?P, OF t(4) o(4)]
  have td: "bstep ?P cs2_teardown" "keeps_duration cs2_teardown"
    using cs2_teardown_adv [of ?P, OF o(2) o(3) t(5) t(6) o(5)]
    by (blast intro: bstep_advances keeps_duration_advances)+
  show ?thesis unfolding ops_frame_def cs2_ops_def using f w n st c td by simp blast
qed

theorem cs2_methods_look_for_checked_assets_witness:
  "check_assets \<lparr>files = (\<lambda>p. if p \<in> set (map (pjoin cs2_assets_dir) REQUIRED_ASSETS) then Some ''png'' else None),
      dirs = {}, writable = True, fstamp = ''t''\<rparr> cs2_assets_dir REQUIRED_ASSETS \<and>
   ops_frame (\<lambda>a. cs2_action a \<and> asset_present
     \<lparr>files = (\<lambda>p. if p \<in> set (map (pjoin cs2_assets_dir) REQUIRED_ASSETS) then Some ''png'' else None),
      dirs = {}, writable = True, fstamp = ''t''\<rparr> cs2_assets_dir a) cs2_ops"
proof -
  have c: "check_assets \<lparr>files = (\<lambda>p. if p \<in> set (map (pjoin cs2_assets_dir) REQUIRED_ASSETS) then Some ''png'' else None),
      dirs = {}, writable = True, fstamp = ''t''\<rparr> cs2_assets_dir REQUIRED_ASSETS"
    by (simp add: check_assets_def missing_assets_def)
  show ?thesis using cs2_methods_look_for_checked_assets [OF c] c by simp
qed

end
