(* ===== verification/Preset_History.thy ===== *)
theory Preset_History
  imports Presets
begin

text \<open>
  Successive preset applications on one machine (\<open>CS2PresetAdapter.apply_preset\<close> with
  its default backup, \<open>src/katana/games/cs2/presets.py\<close>): a step relation on the file
  store, reachable from an initial store by applications and by the clock moving on
  (which changes the \<open>strftime\<close> stamp the backups are named with). The set of stamps
  already used for an application is part of the state, so that the invariant can say
  which backups hold the original config. Two applications within the same second
  overwrite the first backup (\<open>Presets.cs2_second_backup_overwrites_first\<close>); the
  relation steps only at fresh stamps.
\<close>

section \<open>The history of a config file\<close>

text \<open>
  Each application runs at a stamp no earlier application used, as when at least a
  second separates them (\<open>time.strftime("%Y%m%d_%H%M%S")\<close>).
\<close>

inductive preset_history :: "cfg_path \<Rightarrow> pstore \<Rightarrow> pstore \<times> string set \<Rightarrow> bool"
  for p :: cfg_path and st0 :: pstore where
  init: "preset_history p st0 (st0, {})"
| tick: "preset_history p st0 (st, U) \<Longrightarrow> preset_history p st0 (st\<lparr>fstamp := ts\<rparr>, U)"
| apply_step: "preset_history p st0 (st, U) \<Longrightarrow> fstamp st \<notin> U \<Longrightarrow> cs2_apply_preset (Some p) d True st = (r, st') \<Longrightarrow>
          preset_history p st0 (st', insert (fstamp st) U)"

section \<open>Lemmas: what one application keeps\<close>

lemma backup_name_inj: "backup_name p ts = backup_name p ts' \<longleftrightarrow> ts = ts'"
  by (simp add: backup_name_def pjoin_def)

lemma cs2_apply_preset_keeps_backup:
  assumes run: "cs2_apply_preset (Some p) d True st = (r, st')"
    and c: "files st (cfg_file p) = Some c"
  shows "st' = st \<or> files st' (backup_name p (fstamp st)) = Some c"
proof (cases "writable st")
  case False
  then show ?thesis using run by (auto simp: cs2_apply_preset_def backup_config_fails Let_def split: if_splits)
next
  case True
  let ?b = "backup_name p (fstamp st)"
  let ?st1 = "st\<lparr>files := (files st)(?b \<mapsto> c)\<rparr>"
  have b: "backup_config (Some p) None st = (Some ?b, ?st1)" by (rule backup_config_ok [OF c True])
  have r: "files (snd (restore_backup (Some p) ?b ?st1)) ?b = Some c"
    by (simp add: restore_backup_frame_snd)
  show ?thesis using run c b r
    by (auto simp: cs2_apply_preset_def exists_Some Let_def split: if_splits option.splits sum.splits prod.splits)
qed

lemma preset_history_step_keeps:
  assumes run: "cs2_apply_preset (Some p) d True st = (r, st')" and fresh: "fstamp st \<notin> U"
    and inv: "files st (cfg_file p) = Some c0 \<or> (\<exists>ts\<in>U. files st (backup_name p ts) = Some c0)"
  shows "files st' (cfg_file p) = Some c0 \<or> (\<exists>ts\<in>insert (fstamp st) U. files st' (backup_name p ts) = Some c0)"
  using inv
proof
  assume c: "files st (cfg_file p) = Some c0"
  show ?thesis using cs2_apply_preset_keeps_backup [OF run c] c by auto
next
  assume "\<exists>ts\<in>U. files st (backup_name p ts) = Some c0"
  then obtain ts where ts: "ts \<in> U" "files st (backup_name p ts) = Some c0" by blast
  have "ts \<noteq> fstamp st" using ts(1) fresh by blast
  then have "files st' (backup_name p ts) = files st (backup_name p ts)"
    by (intro cs2_apply_preset_files [OF run]) (simp add: backup_name_inj)
  then show ?thesis using ts by auto
qed

section \<open>The original config survives\<close>

text \<open>
  C31. Along any history of preset applications at distinct stamps, the config file's
  original content is never lost: it is still the config, or it is the content of the
  backup made at one of the stamps used.
\<close>

theorem preset_history_keeps_original:
  assumes "preset_history p st0 (st, U)" and "files st0 (cfg_file p) = Some c0"
  shows "files st (cfg_file p) = Some c0 \<or> (\<exists>ts\<in>U. files st (backup_name p ts) = Some c0)"
  using assms(1)
proof (induction "(st, U)" arbitrary: st U rule: preset_history.induct)
  case init
  then show ?case using assms(2) by simp
next
  case (tick st U ts)
  then show ?case by simp
next
  case (apply_step st U d r st')
  then show ?case by (intro preset_history_step_keeps) simp_all
qed

theorem preset_history_keeps_original_witness:
  "preset_history (''cfg'', ''v'') \<lparr>files = [''cfg/v'' \<mapsto> ''{}''], dirs = {}, writable = True, fstamp = ''t1''\<rparr>
     ((snd (cs2_apply_preset (Some (''cfg'', ''v'')) [(''setting.defaultres'', PInt 8), (''setting.defaultresheight'', PInt 6)]
        True \<lparr>files = [''cfg/v'' \<mapsto> ''{}''], dirs = {}, writable = True, fstamp = ''t1''\<rparr>))\<lparr>fstamp := ''t2''\<rparr>,
      {''t1''}) \<and>
   (files (snd (cs2_apply_preset (Some (''cfg'', ''v'')) [(''setting.defaultres'', PInt 8), (''setting.defaultresheight'', PInt 6)]
        True \<lparr>files = [''cfg/v'' \<mapsto> ''{}''], dirs = {}, writable = True, fstamp = ''t1''\<rparr>)) ''cfg/v'' = Some ''{}'' \<or>
    files (snd (cs2_apply_preset (Some (''cfg'', ''v'')) [(''setting.defaultres'', PInt 8), (''setting.defaultresheight'', PInt 6)]
        True \<lparr>files = [''cfg/v'' \<mapsto> ''{}''], dirs = {}, writable = True, fstamp = ''t1''\<rparr>)) ''cfg/v.backup_t1'' = Some ''{}'')"
proof -
  let ?st0 = "\<lparr>files = [''cfg/v'' \<mapsto> ''{}''], dirs = {}, writable = True, fstamp = ''t1''\<rparr>"
  let ?d = "[(''setting.defaultres'', PInt 8), (''setting.defaultresheight'', PInt 6)]"
  have "preset_history (''cfg'', ''v'') ?st0
      (snd (cs2_apply_preset (Some (''cfg'', ''v'')) ?d True ?st0), insert (fstamp ?st0) {})"
    by (rule preset_history.apply_step [OF preset_history.init _ surjective_pairing]) simp
  then have h1: "preset_history (''cfg'', ''v'') ?st0 (snd (cs2_apply_preset (Some (''cfg'', ''v'')) ?d True ?st0), {''t1''})"
    by simp
  have h: "preset_history (''cfg'', ''v'') ?st0
      ((snd (cs2_apply_preset (Some (''cfg'', ''v'')) ?d True ?st0))\<lparr>fstamp := ''t2''\<rparr>, {''t1''})"
    by (rule preset_history.tick [OF h1])
  have c: "files ?st0 (cfg_file (''cfg'', ''v'')) = Some ''{}''" by (simp add: cfg_file_def pjoin_def)
  show ?thesis using preset_history_keeps_original [OF h c] h
    by (simp add: cfg_file_def backup_name_def pjoin_def)
qed

end

