(* ===== verification/Structure_Check.thy ===== *)
theory Structure_Check
  imports Presets
begin

text \<open>
  \<open>src/check_structure.py\<close>: \<open>print_directory_structure(startpath)\<close> walks a directory
  tree with \<open>os.walk\<close> (top-down) and prints each directory's base name followed by
  \<open>/\<close>, then its files, indented by four spaces per level. The level of a directory is
  computed from its path as a string: the number of separators left after
  \<open>root.replace(startpath, '')\<close>.

  The tree is a datatype: a directory has its files and its subdirectories in the order
  \<open>os.walk\<close> lists them. The printed output is the list of lines.
\<close>

section \<open>The directory tree and os.walk\<close>

datatype dtree = DNode string "string list" "dtree list"

fun dname :: "dtree \<Rightarrow> string" where
  "dname (DNode n fs ds) = n"

text \<open>\<open>os.walk(top)\<close>, top-down: the root with its files, then each subdirectory's walk.\<close>

fun os_walk :: "string \<Rightarrow> dtree \<Rightarrow> (string \<times> string list) list" where
  "os_walk dirpath (DNode n fs ds) = (dirpath, fs) # concat (map (\<lambda>d. os_walk (pjoin dirpath (dname d)) d) ds)"

section \<open>The string operations of the level computation\<close>

text \<open>\<open>s.replace(old, '')\<close>: every non-overlapping occurrence of \<open>old\<close>, left to right, removed.\<close>

fun py_remove_all :: "string \<Rightarrow> string \<Rightarrow> string" where
  "py_remove_all old [] = []"
| "py_remove_all old (c # s) =
     (if old \<noteq> [] \<and> take (length old) (c # s) = old then py_remove_all old (drop (length old) (c # s))
      else c # py_remove_all old s)"

definition py_count :: "char \<Rightarrow> string \<Rightarrow> nat" where
  "py_count c s = length (filter (\<lambda>x. x = c) s)"

definition py_basename :: "string \<Rightarrow> string" where
  "py_basename p = rev (takeWhile (\<lambda>c. c \<noteq> CHR ''/'') (rev p))"

section \<open>print_directory_structure\<close>

definition indent :: "nat \<Rightarrow> string" where
  "indent level = replicate (4 * level) (CHR '' '')"

definition walk_lines :: "string \<Rightarrow> string \<times> string list \<Rightarrow> string list" where
  "walk_lines startpath rf =
     (let (dirpath, files) = rf;
          level = py_count (CHR ''/'') (py_remove_all startpath dirpath)
      in (indent level @ py_basename dirpath @ ''/'') # map (\<lambda>f. indent (level + 1) @ f) files)"

definition print_directory_structure :: "string \<Rightarrow> dtree \<Rightarrow> string list" where
  "print_directory_structure startpath t = concat (map (walk_lines startpath) (os_walk startpath t))"

text \<open>The script: the structure of the current directory.\<close>

definition check_structure :: "dtree \<Rightarrow> string list" where
  "check_structure t = print_directory_structure ''.'' t"

text \<open>Directory names are single path components: none contains a separator.\<close>

fun dnames_ok :: "dtree \<Rightarrow> bool" where
  "dnames_ok (DNode n fs ds) = list_all (\<lambda>d. CHR ''/'' \<notin> set (dname d) \<and> dnames_ok d) ds"

text \<open>
  The listing the script means to print: each directory at four spaces per level of
  depth, its files one level deeper.
\<close>

fun tree_lines :: "nat \<Rightarrow> string \<Rightarrow> dtree \<Rightarrow> string list" where
  "tree_lines level name (DNode n fs ds) =
     (indent level @ name @ ''/'') # map (\<lambda>f. indent (level + 1) @ f) fs @
     concat (map (\<lambda>d. tree_lines (level + 1) (dname d) d) ds)"

section \<open>Lemmas: separators, base names and the walk\<close>

lemma py_count_append [simp]: "py_count c (xs @ ys) = py_count c xs + py_count c ys"
  by (simp add: py_count_def)

lemma py_count_Cons [simp]: "py_count c (x # xs) = (if x = c then Suc (py_count c xs) else py_count c xs)"
  by (simp add: py_count_def)

lemma py_count_Nil [simp]: "py_count c [] = 0"
  by (simp add: py_count_def)

lemma py_count_none: "c \<notin> set s \<Longrightarrow> py_count c s = 0"
  by (auto simp: py_count_def filter_empty_conv)

lemma py_remove_all_count:
  "c \<notin> set old \<Longrightarrow> py_count c (py_remove_all old s) = py_count c s"
proof (induction old s rule: py_remove_all.induct)
  case (1 old)
  then show ?case by simp
next
  case (2 old x s)
  show ?case
  proof (cases "old \<noteq> [] \<and> take (length old) (x # s) = old")
    case True
    have "py_count c (x # s) = py_count c (take (length old) (x # s)) + py_count c (drop (length old) (x # s))"
      by (metis append_take_drop_id py_count_append)
    moreover have "py_remove_all old (x # s) = py_remove_all old (drop (length old) (x # s))"
      using True by simp
    ultimately show ?thesis using True "2.IH"(1) [OF True "2.prems"] "2.prems" by (simp add: py_count_none)
  next
    case False
    then have "py_remove_all old (x # s) = x # py_remove_all old s" by (metis py_remove_all.simps(2))
    then show ?thesis using "2.IH"(2) [OF False "2.prems"] by simp
  qed
qed

lemma pjoin_count: "CHR ''/'' \<notin> set n \<Longrightarrow> py_count CHR ''/'' (pjoin p n) = Suc (py_count CHR ''/'' p)"
  by (simp add: pjoin_def py_count_none)

lemma pjoin_basename: "CHR ''/'' \<notin> set n \<Longrightarrow> py_basename (pjoin p n) = n"
proof -
  assume n: "CHR ''/'' \<notin> set n"
  then have "takeWhile (\<lambda>c. c \<noteq> CHR ''/'') (rev n @ CHR ''/'' # rev p) = rev n"
    by (subst takeWhile_append2) auto
  then show ?thesis by (simp add: py_basename_def pjoin_def)
qed

lemma walk_tree_lines:
  assumes "CHR ''/'' \<notin> set sp" "dnames_ok t"
  shows "concat (map (walk_lines sp) (os_walk p t)) =
         tree_lines (py_count CHR ''/'' p) (py_basename p) t"
  using assms(2)
proof (induction t arbitrary: p)
  case (DNode n fs ds)
  have ok: "CHR ''/'' \<notin> set (dname d) \<and> dnames_ok d" if "d \<in> set ds" for d
    using DNode.prems that by (simp add: list_all_iff)
  have sub: "concat (map (walk_lines sp) (os_walk (pjoin p (dname d)) d)) =
      tree_lines (py_count CHR ''/'' p + 1) (dname d) d" if "d \<in> set ds" for d
    using DNode.IH [OF that] ok [OF that] by (simp add: pjoin_count pjoin_basename)
  have root: "walk_lines sp (p, fs) =
      (indent (py_count CHR ''/'' p) @ py_basename p @ ''/'') # map (\<lambda>f. indent (py_count CHR ''/'' p + 1) @ f) fs"
    using assms(1) by (simp add: walk_lines_def py_remove_all_count Let_def)
  have "concat (map (walk_lines sp) (concat (map (\<lambda>d. os_walk (pjoin p (dname d)) d) ds))) =
      concat (map (\<lambda>d. concat (map (walk_lines sp) (os_walk (pjoin p (dname d)) d))) ds)"
    by (induction ds) simp_all
  also have "\<dots> = concat (map (\<lambda>d. tree_lines (py_count CHR ''/'' p + 1) (dname d) d) ds)"
    using sub by (simp cong: map_cong)
  finally show ?case using root by simp
qed

section \<open>What the script prints\<close>

text \<open>
  C32. For a start path without a separator, as the script's \<open>'.'\<close>, the string-based
  level computation is right: \<open>print_directory_structure\<close> prints every directory at
  four spaces per level of depth and its files one level deeper, in the top-down order of
  \<open>os.walk\<close>.
\<close>

theorem print_directory_structure_levels:
  assumes "CHR ''/'' \<notin> set sp" and "dnames_ok t"
  shows "print_directory_structure sp t = tree_lines 0 (py_basename sp) t"
proof -
  have "py_count CHR ''/'' sp = 0" using assms(1) by (rule py_count_none)
  then show ?thesis using walk_tree_lines [OF assms, of sp] by (simp add: print_directory_structure_def)
qed

theorem print_directory_structure_levels_witness:
  "check_structure (DNode ''.'' [''README.md''] [DNode ''src'' [''check_structure.py''] [DNode ''katana'' [''main.py''] []]]) =
   [''./'', ''    README.md'', ''    src/'', ''        check_structure.py'', ''        katana/'', ''            main.py'']"
proof -
  have "print_directory_structure ''.'' (DNode ''.'' [''README.md''] [DNode ''src'' [''check_structure.py''] [DNode ''katana'' [''main.py''] []]]) =
      tree_lines 0 (py_basename ''.'') (DNode ''.'' [''README.md''] [DNode ''src'' [''check_structure.py''] [DNode ''katana'' [''main.py''] []]])"
    by (rule print_directory_structure_levels) simp_all
  then show ?thesis by (simp add: check_structure_def py_basename_def indent_def numeral_eq_Suc)
qed

end
