(* ===== verification/Spec2Isabelle.thy ===== *)
theory Spec2Isabelle
  imports Cs2_Benchmark Presets Cli Bench_Output Preset_History Structure_Check
begin

text \<open>
  Katana (\<open>src/katana\<close>) automates PC game benchmarks by driving the desktop: it
  launches a game through Steam, navigates its menus by template matching on the screen,
  starts the in-game benchmark, times it and saves screenshots and one JSON result per
  run; it also applies graphics presets by patching the game's video config file.

  \<^bold>\<open>Theories and what they model.\<close>
  \<^item> \<open>Katana_Prelude\<close>: Python exceptions (\<open>py_exc\<close>), the exception-and-state passing
    type \<open>('s, 'a) pyfun\<close> with \<open>ret\<close>, \<open>throw\<close>, \<open>bindx\<close>, \<open>lift\<close> and \<open>catch\<close>
    (\<open>try/except\<close>), the frame predicates \<open>keeps\<close> and \<open>rel_pres\<close>, and \<open>str()\<close> of an
    int, \<open>str.strip\<close>, \<open>str.isspace\<close> and \<open>in\<close> on strings.
  \<^item> \<open>Interaction\<close>: \<open>GameInteractor\<close> (\<open>core/interaction.py\<close>), every method, over a
    \<open>world\<close> record (the \<open>**kwargs\<close> \<open>click_template_with_retry\<close> forwards to
    \<open>click_template\<close> are the record \<open>click_kwargs\<close>): a clock advanced by \<open>time.sleep\<close>, the image detector as an oracle
    answering from a queue of sightings (\<open>core/detection.py\<close> is not in the
    repository and is modelled from the spec), the windows, the PyAutoGUI fail-safe, the
    disk and the trace of desktop actions.
  \<^item> \<open>Benchmark\<close>: \<open>BenchmarkResult\<close> and \<open>GameBenchmark\<close> (\<open>core/benchmark.py\<close>):
    \<open>launch\<close>, \<open>execute_benchmark_run\<close> with its \<open>try/except\<close> and \<open>run_benchmark_series\<close>
    with its cooldowns, for any game given as a \<open>game_ops\<close> record of its six methods.
    The generic lemmas are stated under two contracts a game discharges: \<open>ops_frame\<close>
    (the methods only act through the interactor) and \<open>collect_contract\<close>.
  \<^item> \<open>Cs2_Benchmark\<close>: \<open>CS2Benchmark\<close> and \<open>games/cs2/config.py\<close>, every method, and the
    discharge of both contracts for \<open>cs2_ops\<close>.
  \<^item> \<open>Config_Patch\<close>: the settings loop of \<open>CS2PresetAdapter.apply_preset\<close>
    (\<open>games/cs2/presets.py\<close>, lines 153-182) with the semantics of the \<open>re\<close> calls it
    makes: the pattern \<open>"key"\s+"[^"]*"\<close> as a single-pass matcher (\<open>match_at\<close>)
    for keys whose only metacharacter of \<open>re\<close> is the dot (\<open>re_literal_key\<close>), \<open>re.search\<close>, \<open>re.sub\<close> with Python's template
    parser (\<open>parse_template\<close>: escapes, the whole-match reference, octal escapes and the
    errors of bad escapes and group references) and \<open>str.replace\<close>.
  \<^item> \<open>Presets\<close>: \<open>PresetManager\<close> (\<open>core/presets.py\<close>), which calls a game's adapter
    through the \<open>PresetAdapter\<close> interface (the record \<open>preset_adapter\<close>), and the CS2
    adapter's \<open>apply_preset\<close>, \<open>backup_config\<close> and \<open>restore_backup\<close>
    (\<open>cs2_preset_adapter\<close>) over a file store (\<open>pstore\<close>: files, directories, whether
    writes succeed, the \<open>strftime\<close> stamp).
    \<open>json.load\<close> is a parameter (\<open>json_lib\<close>), so the lemmas hold for every parser.
  \<^item> \<open>Cs2_Paths\<close>: \<open>CS2PresetAdapter.__init__\<close> with \<open>_find_steam_path\<close> and
    \<open>_find_config_path\<close> (\<open>games/cs2/presets.py\<close>, lines 19-113) over a \<open>host\<close>
    record (\<open>os.name\<close>, the registry's \<open>SteamPath\<close>, \<open>Path.home()\<close>, the order
    \<open>iterdir\<close> yields) and the file store of \<open>Presets\<close>; the uncaught
    \<open>NotADirectoryError\<close> of \<open>iterdir\<close> is an \<open>Inl\<close>.
  \<^item> \<open>Bench_Output\<close>: the JSON document of \<open>BenchmarkResult.to_json\<close> as a value of a
    JSON datatype, and
    \<open>GameBenchmark.check_assets\<close> with the assets directories of \<open>__init__\<close>, related to
    the templates the CS2 methods look for.
  \<^item> \<open>Preset_History\<close>: successive preset applications as an inductive step relation
    on the file store (applications and the clock moving on), with the invariant that
    the config's original content survives, proved by rule induction.
  \<^item> \<open>Factory\<close>: \<open>GameFactory\<close> (\<open>factory.py\<close>), every method. \<open>importlib.import_module\<close>
    is a map from module paths to the module's \<open>__dict__\<close> in order, and the repository's
    game modules are given by the names their sources bind (\<open>katana_modules\<close>).
  \<^item> \<open>Cli\<close>: \<open>main.py\<close>: Python's \<open>int()\<close> of the console's answers, the four prompts over a
    finite console (\<open>input()\<close> at its end raises \<open>EOFError\<close>), \<open>get_preset_manager\<close>
    (which runs the CS2 adapter's path search of \<open>Cs2_Paths\<close>) and \<open>main\<close>, which
    composes the preset manager, the factory and the benchmark series.
  \<^item> \<open>Structure_Check\<close>: \<open>check_structure.py\<close>: the directory tree as a datatype,
    \<open>os.walk\<close> top-down, and the printed lines of \<open>print_directory_structure\<close> with its
    string-based level computation (\<open>str.replace\<close>, \<open>str.count\<close>), related to the
    structural listing it means to print.
  \<^item> This theory: concrete worlds and hosts and the claims that span components: the CS2
    run and series, and \<open>main\<close> with its preset step, its path search and its series.

  \<^bold>\<open>What the lemmas show.\<close> For the benchmark: when the CS2 dry run closes the game,
  what a performance run records, the order and count of the results and launches of a
  series, the error of a negative cooldown, the bound on template lookups of
  \<open>click_template_with_retry\<close>, the time it takes, and its success whenever the template
  shows in time (liveness), for all of its keyword arguments, that the saved JSON document
  loses no field, and that
  every template a CS2 method looks for is one the asset check requires. For the config patch: a setting that is present reads back
  after it is applied, and the behaviours of missing settings and of unescaped keys (a dot
  in a key overwrites another setting). For presets: the exact file-system
  effect of a successful application, the failure path and its restore, the backup/restore
  round trip, the frame (only the config and its backup are written), the backup collision
  within one second and, along any history of applications a second or more apart, the
  survival of the original config in the config or a backup, and the manager's refusals; for the path search, that a path found exists with one of
  the three names, that a configuration is found whenever one exists where it looks, the
  uncaught error of a \<open>userdata\<close> file, and the stale registry entry that hides a Steam
  installation. For the factory: which class
  \<open>create_benchmark\<close> creates with the repository's modules, the fallback that picks the
  abstract base class, and that \<open>GameFactory.apply_preset\<close> never applies a preset. For
  the command line: that the prompts end on every console, that a
  failed preset stops \<open>main\<close> before any benchmark, that the path search's error ends
  \<open>main\<close> before its \<open>try\<close> block, and the series \<open>main\<close> runs for CS2 by
  default (5 launches where the banner announces 4 runs).

  For the structure check: the printed listing is the structural one for a start path
  without a separator (the script's \<open>'.'\<close>).

  \<^bold>\<open>Bounds and termination.\<close> No fuel is used. Every loop of the sources is bounded in
  the code: retries and waits by their counts and timeouts against the model clock, the
  series by \<open>range\<close>, the settings loop by the preset's items. \<open>sub_scan\<close> and
  \<open>parse_template\<close> are \<open>function\<close>s with a measure (the remaining text). The pattern
  never matches the empty string, so \<open>re.sub\<close> moves forward at every match. The
  prompts of \<open>main.py\<close> loop until a valid answer; over a finite console they are \<open>fun\<close>s
  on the remaining lines and end with \<open>EOFError\<close> when the lines run out.
  \<open>wait_disappear_loop\<close> is a \<open>function\<close> whose measure is the remaining half seconds
  of its timeout. \<open>os_walk\<close> and \<open>tree_lines\<close> recurse on the directory tree. The
  CS2 path search scans the finite list \<open>iterdir\<close> yields.

  \<^bold>\<open>Not modelled.\<close> What is only printed or logged: \<open>print_banner_and_usage\<close>, the
  prints of \<open>main\<close>, the logging set-up and the log lines of \<open>check_assets\<close> (the
  output of \<open>check_structure.py\<close> is modelled, as its list of lines). The rendering of
  JSON text by \<open>json.dumps\<close> (a library): \<open>to_json\<close> is modelled up to the value it
  dumps. \<open>argparse\<close> itself: its result is the record \<open>cli_args\<close>. The \<open>mkdir\<close> calls
  of \<open>GameBenchmark.__init__\<close>, which only create directories. What \<open>Path.iterdir\<close>
  yields and the registry holds are fields of the host, not derived from the store. JSON
  floats and nested values in presets. Case mappings beyond ASCII. A configured run count
  or cooldown that is not an integer: \<open>main\<close> raises \<open>TypeError\<close> before the dry run in the
  model, the code after it (CS2's values are integers). Preset keys holding a
  metacharacter of \<open>re\<close> other than the dot (\<open>re_meta\<close>: a quantifier, a class, a
  group, an anchor, an alternation or an escape), which turn the setting pattern into
  another regular expression or a \<open>re.error\<close>: the matcher treats them literally, and
  every theorem on it assumes \<open>re_literal_key\<close>. The read-back lemma is proved for keys
  without dots; a dot in a key is a wildcard, which the dot-wildcard lemma shows. The
  \<open>threshold\<close> and \<open>region\<close> arguments of the detector and the gesture arguments of
  \<open>click\<close> (button, clicks, interval, move duration), which the oracle and the
  \<open>Click\<close> action do not distinguish; the move duration is not counted on the clock.
\<close>

section \<open>Concrete worlds\<close>

text \<open>
  A desktop with the game's window and a screen on which nothing is ever found, and one
  on which the dry run finds every template: the menus at time 0, the first frame of the
  benchmark at 50 s and its end screen at 150 s.
\<close>

definition blank_world :: world where
  "blank_world = \<lparr>clock = 0, screen = [], windows = [''Counter-Strike 2''], activates = True,
     failsafe = False, disk_ok = True, stamp = (\<lambda>_. ''20250101_000000''), trace = []\<rparr>"

definition linux_host :: host where
  "linux_host = \<lparr>os_name = ''posix'', registry_steam = None, home_dir = Some ''/home/player'',
     listdir = (\<lambda>_. [])\<rparr>"

definition measured_world :: world where
  "measured_world = blank_world\<lparr>screen :=
     replicate 8 (Visible 0 (100, 200)) @ [Visible 50 (0, 0), Visible 150 (0, 0)]\<rparr>"

section \<open>The CS2 benchmark run and series\<close>

text \<open>
  C1. The dry run of CS2 closes the game (its teardown looks for the Quit button)
  exactly when it measured the benchmark's duration: when the end screen is not seen,
  the duration log line raises and the game is left running.
\<close>

theorem cs2_dry_run_closes_game_iff_measured:
  assumes "duration s = None" and "execute_benchmark_run cs2_ops 0 True s = (r, s')"
  shows "(\<exists>a\<in>set (new_actions s s'). Cs2_Benchmark.quit_look a) \<longleftrightarrow> duration s' \<noteq> None"
  by (rule dry_run_teardown [OF cs2_ops_frame cs2_dry_contracts(1,2) cs2_before_teardown_no_quit
        cs2_dry_contracts(3,4) assms])

theorem cs2_dry_run_closes_game_iff_measured_witness:
  "\<not> (\<exists>a\<in>set (new_actions (cs2_init blank_world)
        (snd (execute_benchmark_run cs2_ops 0 True (cs2_init blank_world)))). quit_look a) \<and>
   (\<exists>a\<in>set (new_actions (cs2_init measured_world)
        (snd (execute_benchmark_run cs2_ops 0 True (cs2_init measured_world)))). quit_look a)"
proof -
  have blank: "duration (snd (execute_benchmark_run cs2_ops 0 True (cs2_init blank_world))) = None"
    by (simp add: cs2_eval_simps blank_world_def)
  have measured: "duration (snd (execute_benchmark_run cs2_ops 0 True (cs2_init measured_world))) = Some 100"
    by (simp add: cs2_eval_simps measured_world_def blank_world_def numeral_eq_Suc)
  show ?thesis
    using cs2_dry_run_closes_game_iff_measured [OF cs2_init_fields(3) surjective_pairing, of blank_world]
      cs2_dry_run_closes_game_iff_measured [OF cs2_init_fields(3) surjective_pairing, of measured_world]
      blank measured by simp
qed

text \<open>
  C2. A performance run of CS2 records a result whatever the screen shows: with the
  shipped configuration, a known duration, a working disk and the fail-safe not tripped,
  \<open>execute_benchmark_run(i)\<close> for \<open>i \<noteq> 0\<close> returns a result for run \<open>i\<close> carrying the dry
  run's duration and appends it to the results, although no step checked that the
  benchmark was reached.
\<close>

theorem cs2_perf_run_records_whatever_screen:
  assumes cfg: "configs s = CONFIG" and fs: "\<not> failsafe s" and disk: "disk_ok s"
    and dur: "duration s = Some d" "0 \<le> d" and i: "i \<noteq> 0"
    and run: "execute_benchmark_run cs2_ops i False s = (r, s')"
  shows "\<exists>x. r = Some x \<and> r_run_id x = i \<and> r_duration x = Some d \<and> results s' = results s @ [x]"
proof -
  obtain b s1 where p: "prepare_run cs2_ops s = (Inr b, s1)"
    and f1: "bench_step (\<lambda>a. cs2_action a \<or> is_launch a) s s1" and d1: "duration s1 = duration s"
    using cfg by (rule cs2_prepare_ok)
  have d1': "duration s1 = Some d" using d1 dur(1) by simp
  obtain x s2 where c: "cs2_collect_results i s1 = (Inr (Some x), s2)"
    and x: "r_run_id x = i" "r_duration x = Some d"
    by (rule cs2_collect_perf [OF i d1' dur(2)])
  have f2: "bench_step (\<lambda>_. True) s1 s2" by (rule cs2_collect_step(1) [OF TrueI TrueI c])
  have fs2: "\<not> failsafe s2" using bench_stepD(3) [OF f1] bench_stepD(3) [OF f2] fs by simp
  obtain s3 where t: "cs2_teardown s2 = (Inr True, s3)" using fs2 by (rule cs2_teardown_ok)
  have f3: "bench_step cs2_action s2 s3"
    using advances_bench_step [OF cs2_teardown_advances(1) [of s2]] t by simp
  have u: "run_until_teardown cs2_ops i False s = (Inr (Some x), s3)"
    using p c t by (simp add: run_until_teardown_prepare cs2_ops_def log_measured_duration_def)
  have "disk_ok s3" "results s3 = results s"
    using bench_stepD(4,8) [OF f1] bench_stepD(4,8) [OF f2] bench_stepD(4,8) [OF f3] disk by simp_all
  then show ?thesis using execute_records [OF u _ run] x by simp
qed

theorem cs2_perf_run_records_whatever_screen_witness:
  "\<exists>x. fst (execute_benchmark_run cs2_ops 1 False ((cs2_init blank_world)\<lparr>duration := Some 100\<rparr>)) = Some x \<and>
     r_duration x = Some 100"
proof -
  let ?s = "(cs2_init blank_world)\<lparr>duration := Some 100\<rparr>"
  have "configs ?s = CONFIG" "\<not> failsafe ?s" "disk_ok ?s" "duration ?s = Some 100"
    by (simp_all add: cs2_init_fields blank_world_def)
  then show ?thesis
    using cs2_perf_run_records_whatever_screen [of ?s 100 1, OF _ _ _ _ _ _ surjective_pairing] by auto
qed


text \<open>
  C3. The results of a CS2 series are in the order of their runs, every run id lies in
  \<open>0..run_count\<close>, and every result carries the duration measured by the dry run.
\<close>

theorem cs2_series_results_ordered:
  assumes "run_benchmark_series cs2_ops n cooldown (cs2_init w) = (r, s')"
  shows "sorted_wrt (<) (map r_run_id (results s')) \<and>
    (\<forall>x\<in>set (results s'). 0 \<le> r_run_id x \<and> r_run_id x \<le> max 0 n \<and> r_duration x = duration s')"
  using run_benchmark_series_effect(1-3) [OF cs2_ops_frame cs2_collect_contract cs2_action_not_launch _ _ assms]
    cs2_init_fields by simp

theorem cs2_series_results_ordered_witness:
  "map r_run_id (results (snd (run_benchmark_series cs2_ops 2 120 (cs2_init measured_world)))) = [0, 1, 2] \<and>
   list_all (\<lambda>x. r_duration x = Some 100)
     (results (snd (run_benchmark_series cs2_ops 2 120 (cs2_init measured_world))))"
proof -
  have "map r_run_id (results (snd (run_benchmark_series cs2_ops 2 120 (cs2_init measured_world)))) = [0, 1, 2]"
    by (simp add: cs2_eval_simps measured_world_def blank_world_def numeral_eq_Suc)
  moreover have "duration (snd (run_benchmark_series cs2_ops 2 120 (cs2_init measured_world))) = Some 100"
    by (simp add: cs2_eval_simps measured_world_def blank_world_def numeral_eq_Suc)
  ultimately show ?thesis
    using cs2_series_results_ordered [OF surjective_pairing] by (simp add: list_all_iff)
qed

text \<open>
  C4. A CS2 series launches the game once for the dry run and, when a duration was
  measured and the cooldown is a valid sleep length, once more for each of the
  \<open>run_count\<close> performance runs: \<open>run_count + 1\<close> launches in all.
\<close>

theorem cs2_series_launch_count:
  assumes "run_benchmark_series cs2_ops n cooldown (cs2_init w) = (r, s')"
  shows "launches (new_actions (cs2_init w) s') =
           (if duration s' = None \<or> cooldown < 0 then 1 else 1 + nat n)"
  using run_benchmark_series_effect(4) [OF cs2_ops_frame cs2_collect_contract cs2_action_not_launch _ _ assms]
    cs2_init_fields by simp

theorem cs2_series_launch_count_witness:
  "launches (new_actions (cs2_init measured_world)
     (snd (run_benchmark_series cs2_ops 2 120 (cs2_init measured_world)))) = 3 \<and>
   launches (new_actions (cs2_init blank_world)
     (snd (run_benchmark_series cs2_ops 2 120 (cs2_init blank_world)))) = 1"
proof -
  have "duration (snd (run_benchmark_series cs2_ops 2 120 (cs2_init measured_world))) = Some 100"
    by (simp add: cs2_eval_simps measured_world_def blank_world_def numeral_eq_Suc)
  moreover have "duration (snd (run_benchmark_series cs2_ops 2 120 (cs2_init blank_world))) = None"
    by (simp add: cs2_eval_simps blank_world_def)
  ultimately show ?thesis
    using cs2_series_launch_count [where n=2 and cooldown=120 and w=measured_world, OF surjective_pairing]
      cs2_series_launch_count [where n=2 and cooldown=120 and w=blank_world, OF surjective_pairing] by simp
qed

text \<open>
  C5. The cooldown sleeps of a series are outside any \<open>try\<close>: a CS2 series raises
  \<open>ValueError\<close> exactly when the dry run measured a duration and the cooldown is
  negative, and otherwise returns the list of results.
\<close>

theorem cs2_series_negative_cooldown_raises:
  assumes "run_benchmark_series cs2_ops n cooldown (cs2_init w) = (r, s')"
  shows "r = (if duration s' \<noteq> None \<and> cooldown < 0
              then Inl (ValueError ''sleep length must be non-negative'') else Inr (results s'))"
  using run_benchmark_series_effect(5) [OF cs2_ops_frame cs2_collect_contract cs2_action_not_launch _ _ assms]
    cs2_init_fields by simp

theorem cs2_series_negative_cooldown_raises_witness:
  "fst (run_benchmark_series cs2_ops 2 (-1) (cs2_init measured_world)) =
     Inl (ValueError ''sleep length must be non-negative'')"
proof -
  have "duration (snd (run_benchmark_series cs2_ops 2 (-1) (cs2_init measured_world))) = Some 100"
    by (simp add: cs2_eval_simps measured_world_def blank_world_def numeral_eq_Suc)
  then show ?thesis
    using cs2_series_negative_cooldown_raises [where n=2 and cooldown="-1" and w=measured_world, OF surjective_pairing] by simp
qed

section \<open>The command line: main, the preset and the series\<close>

text \<open>
  C17. Run from the command line on a machine whose only game is CS2, with no
  \<open>--runs\<close> or \<open>--cooldown\<close>, \<open>main\<close> takes the runs and cooldown from CS2's config
  (4 and 120 s): when it runs the series it exits 0, and when the dry run measured the
  benchmark the game is launched 5 times, not the 4 runs (1 dry, 3 measured) the usage
  banner announces.
\<close>

theorem main_cs2_default_series:
  assumes games: "env_games env = [''cs2'']" and runs: "arg_runs args = None" and cd: "arg_cooldown args = None"
    and run: "main env args cs = (r, cs')" and fresh: "bench_run cs = None" and ran: "bench_run cs' = Some b'"
  shows "r = Inr 0 \<and> launches (new_actions (cs2_init (env_world env)) b') = (if duration b' = None then 1 else 5)"
proof -
  obtain g cs1 where g: "g \<in> set (env_games env)" and mr: "main_run env args g cs1 = (r, cs')"
    using main_bench_created [OF run] fresh ran by auto
  have low: "py_lower g = ''cs2''" using g games by (simp add: case_eval_simps)
  obtain res b'' where rb: "run_benchmark_series cs2_ops 4 120 (cs2_init (env_world env)) = (res, b'')"
    by fastforce
  have eq: "b' = b''" and r: "r = (case res of Inl _ \<Rightarrow> Inr 1 | Inr _ \<Rightarrow> Inr 0)"
    using mr ran rb main_run_cs2 [OF low runs cd, of env cs1] by (auto split: sum.splits)
  note e = run_benchmark_series_effect [OF cs2_ops_frame cs2_collect_contract cs2_action_not_launch _ _ rb]
  show ?thesis using e(4,5) r eq cs2_init_fields by (simp add: numeral_eq_Suc)
qed

theorem main_cs2_default_series_witness:
  "env_games \<lparr>env_games = [''cs2''], env_json = \<lparr>load_index = \<lambda>_. None, load_preset = \<lambda>_. None\<rparr>,
      env_host = linux_host, env_world = blank_world\<rparr> = [''cs2''] \<and>
   arg_runs \<lparr>arg_game = Some ''cs2'', arg_runs = None, arg_cooldown = None, arg_list = False,
      arg_preset = Some [], arg_list_presets = False\<rparr> = None \<and>
   arg_cooldown \<lparr>arg_game = Some ''cs2'', arg_runs = None, arg_cooldown = None, arg_list = False,
      arg_preset = Some [], arg_list_presets = False\<rparr> = None \<and>
   bench_run \<lparr>console = [], fstore = \<lparr>files = Map.empty, dirs = {}, writable = True, fstamp = ''t''\<rparr>,
      bench_run = None\<rparr> = None \<and>
   bench_run (snd (main \<lparr>env_games = [''cs2''], env_json = \<lparr>load_index = \<lambda>_. None, load_preset = \<lambda>_. None\<rparr>,
      env_host = linux_host, env_world = blank_world\<rparr>
      \<lparr>arg_game = Some ''cs2'', arg_runs = None, arg_cooldown = None, arg_list = False,
      arg_preset = Some [], arg_list_presets = False\<rparr>
      \<lparr>console = [], fstore = \<lparr>files = Map.empty, dirs = {}, writable = True, fstamp = ''t''\<rparr>,
      bench_run = None\<rparr>)) =
     Some (snd (run_benchmark_series cs2_ops 4 120 (cs2_init blank_world))) \<and>
   fst (main \<lparr>env_games = [''cs2''], env_json = \<lparr>load_index = \<lambda>_. None, load_preset = \<lambda>_. None\<rparr>,
      env_host = linux_host, env_world = blank_world\<rparr>
      \<lparr>arg_game = Some ''cs2'', arg_runs = None, arg_cooldown = None, arg_list = False,
      arg_preset = Some [], arg_list_presets = False\<rparr>
      \<lparr>console = [], fstore = \<lparr>files = Map.empty, dirs = {}, writable = True, fstamp = ''t''\<rparr>,
      bench_run = None\<rparr>) = Inr 0 \<and>
   launches (new_actions (cs2_init blank_world) (snd (run_benchmark_series cs2_ops 4 120 (cs2_init blank_world)))) =
     (if duration (snd (run_benchmark_series cs2_ops 4 120 (cs2_init blank_world))) = None then 1 else 5)"
proof -
  define env where "env = \<lparr>env_games = [''cs2''], env_json = \<lparr>load_index = \<lambda>_. None, load_preset = \<lambda>_. None\<rparr>,
      env_host = linux_host, env_world = blank_world\<rparr>"
  define args where "args = \<lparr>arg_game = Some ''cs2'', arg_runs = None, arg_cooldown = None, arg_list = False,
      arg_preset = Some [], arg_list_presets = False\<rparr>"
  define cs where "cs = \<lparr>console = [], fstore = \<lparr>files = Map.empty, dirs = {}, writable = True, fstamp = ''t''\<rparr>,
      bench_run = None\<rparr>"
  have low: "py_lower ''cs2'' = ''cs2''" by (simp add: case_eval_simps)
  have pm: "get_preset_manager (env_host env) (fstore cs) ''cs2'' =
      Inr (register_adapter ''cs2'' (cs2_preset_adapter None) (new_preset_manager None))"
    by (simp add: env_def cs_def linux_host_def get_preset_manager_def cs2_adapter_config_def
        find_config_path_def find_steam_path_def steam_common_paths_def exists_def low)
  have m: "main env args cs = main_run env args ''cs2'' cs"
    using main_with_preset [where g = "''cs2''" and p = "[]", OF _ _ _ _ _ pm] by (simp add: env_def args_def)
  have b: "bench_run (snd (main env args cs)) = Some (snd (run_benchmark_series cs2_ops 4 120 (cs2_init blank_world)))"
  proof -
    have mr: "main_run env args ''cs2'' cs =
        (case run_benchmark_series cs2_ops 4 120 (cs2_init (env_world env)) of
          (Inl _, b') \<Rightarrow> (Inr 1, cs\<lparr>bench_run := Some b'\<rparr>)
        | (Inr _, b') \<Rightarrow> (Inr 0, cs\<lparr>bench_run := Some b'\<rparr>))"
      by (rule main_run_cs2 [OF low]) (simp_all add: args_def)
    show ?thesis unfolding m mr by (simp add: env_def split: prod.split sum.split)
  qed
  have "fst (main env args cs) = Inr 0 \<and> launches (new_actions (cs2_init (env_world env))
      (snd (run_benchmark_series cs2_ops 4 120 (cs2_init blank_world)))) = (if duration
      (snd (run_benchmark_series cs2_ops 4 120 (cs2_init blank_world))) = None then 1 else 5)"
    using main_cs2_default_series [OF _ _ _ surjective_pairing _ b] by (simp add: env_def args_def cs_def)
  then show ?thesis using b by (simp add: env_def args_def cs_def)
qed

text \<open>
  C18. When the preset given on the command line fails to apply, \<open>main\<close> exits with
  status 1 and changes nothing but what the failed application left in the files: no
  benchmark is created and the game is never launched.
\<close>

theorem main_preset_failure_aborts:
  assumes "arg_game args = Some g" "g \<in> set (env_games env)" "\<not> arg_list args" "\<not> arg_list_presets args"
    and "arg_preset args = Some p" "p \<noteq> []"
    and "get_preset_manager (env_host env) (fstore cs) g = Inr pm"
    and "apply_preset (env_json env) pm g p True (fstore cs) = (False, st')"
  shows "main env args cs = (Inr 1, cs\<lparr>fstore := st'\<rparr>)"
  using main_with_preset [OF assms(1-5) assms(7)] assms(6,8) by simp

theorem main_preset_failure_aborts_witness:
  "arg_game \<lparr>arg_game = Some ''rdr2'', arg_runs = None, arg_cooldown = None, arg_list = False,
      arg_preset = Some ''high'', arg_list_presets = False\<rparr> = Some ''rdr2'' \<and>
   ''rdr2'' \<in> set [''cs2'', ''rdr2''] \<and> ''high'' \<noteq> [] \<and>
   get_preset_manager linux_host \<lparr>files = Map.empty, dirs = {}, writable = True, fstamp = ''t''\<rparr>
     ''rdr2'' = Inr (new_preset_manager None) \<and>
   apply_preset \<lparr>load_index = \<lambda>_. None, load_preset = \<lambda>_. None\<rparr>
     (new_preset_manager None) ''rdr2'' ''high'' True
     \<lparr>files = Map.empty, dirs = {}, writable = True, fstamp = ''t''\<rparr> =
     (False, \<lparr>files = Map.empty, dirs = {}, writable = True, fstamp = ''t''\<rparr>) \<and>
   main \<lparr>env_games = [''cs2'', ''rdr2''], env_json = \<lparr>load_index = \<lambda>_. None, load_preset = \<lambda>_. None\<rparr>,
      env_host = linux_host, env_world = blank_world\<rparr>
     \<lparr>arg_game = Some ''rdr2'', arg_runs = None, arg_cooldown = None, arg_list = False,
      arg_preset = Some ''high'', arg_list_presets = False\<rparr>
     \<lparr>console = [], fstore = \<lparr>files = Map.empty, dirs = {}, writable = True, fstamp = ''t''\<rparr>,
      bench_run = None\<rparr> =
   (Inr 1, \<lparr>console = [], fstore = \<lparr>files = Map.empty, dirs = {}, writable = True, fstamp = ''t''\<rparr>,
      bench_run = None\<rparr>)"
proof -
  have a: "apply_preset \<lparr>load_index = \<lambda>_. None, load_preset = \<lambda>_. None\<rparr>
     (new_preset_manager None) ''rdr2'' ''high'' True
     \<lparr>files = Map.empty, dirs = {}, writable = True, fstamp = ''t''\<rparr> =
     (False, \<lparr>files = Map.empty, dirs = {}, writable = True, fstamp = ''t''\<rparr>)"
    by (simp add: apply_preset_def new_preset_manager_def case_eval_simps)
  have g: "get_preset_manager linux_host \<lparr>files = Map.empty, dirs = {}, writable = True, fstamp = ''t''\<rparr>
     ''rdr2'' = Inr (new_preset_manager None)"
    by (simp add: get_preset_manager_def new_preset_manager_def case_eval_simps)
  show ?thesis
    using main_preset_failure_aborts [where env = "\<lparr>env_games = [''cs2'', ''rdr2''],
        env_json = \<lparr>load_index = \<lambda>_. None, load_preset = \<lambda>_. None\<rparr>,
        env_host = linux_host, env_world = blank_world\<rparr>"
      and cs = "\<lparr>console = [], fstore = \<lparr>files = Map.empty, dirs = {}, writable = True, fstamp = ''t''\<rparr>,
        bench_run = None\<rparr>" and g = "''rdr2''" and p = "''high''"] a g
    by simp
qed

text \<open>
  C28. The search for the CS2 video settings runs before the \<open>try\<close> block of
  \<open>main\<close>: when CS2 is chosen and \<open>userdata\<close> under the Steam path is a file,
  \<open>main\<close> ends with the \<open>NotADirectoryError\<close> of that search, before any preset is
  applied or benchmark created, and leaves the state as it was.
\<close>

theorem main_cs2_userdata_file_raises:
  assumes "arg_game args = Some g" "g \<in> set (env_games env)" "\<not> arg_list args" "py_lower g = ''cs2''"
    and "find_steam_path (env_host env) (fstore cs) = Some sp"
    and "files (fstore cs) (pjoin sp ''userdata'') \<noteq> None" "pjoin sp ''userdata'' \<notin> dirs (fstore cs)"
  shows "main env args cs = (Inl (OSError ''NotADirectoryError''), cs)"
proof -
  have "get_preset_manager (env_host env) (fstore cs) g =
      Inl (OSError ''NotADirectoryError'')"
    using assms(4-7) by (simp add: get_preset_manager_def cs2_adapter_config_def find_config_path_def
        exists_def Let_def)
  then show ?thesis by (rule main_preset_manager_error [OF assms(1-3)])
qed

theorem main_cs2_userdata_file_raises_witness:
  "main \<lparr>env_games = [''cs2''], env_json = \<lparr>load_index = \<lambda>_. None, load_preset = \<lambda>_. None\<rparr>,
      env_host = linux_host, env_world = blank_world\<rparr>
     \<lparr>arg_game = Some ''cs2'', arg_runs = None, arg_cooldown = None, arg_list = False,
      arg_preset = Some ''high'', arg_list_presets = False\<rparr>
     \<lparr>console = [], fstore = \<lparr>files = [''/home/player/.steam/steam/userdata'' \<mapsto> ''x''],
        dirs = {''/home/player/.steam/steam''}, writable = True, fstamp = ''t''\<rparr>, bench_run = None\<rparr> =
   (Inl (OSError ''NotADirectoryError''),
    \<lparr>console = [], fstore = \<lparr>files = [''/home/player/.steam/steam/userdata'' \<mapsto> ''x''],
        dirs = {''/home/player/.steam/steam''}, writable = True, fstamp = ''t''\<rparr>, bench_run = None\<rparr>)"
  by (rule main_cs2_userdata_file_raises [where g = "''cs2''" and sp = "''/home/player/.steam/steam''"])
    (simp_all add: linux_host_def find_steam_path_def steam_common_paths_def exists_def pjoin_def
      case_eval_simps)

end

